theory Spec2Isabelle
  imports Main "HOL-Library.Word" "HOL-Library.Char_ord" "HOL-Library.List_Lexorder"
begin

unbundle bit_operations_syntax

section \<open>Data model of the DBHub operator\<close>

text \<open>
  The Go types of \<^verbatim>\<open>api/v1alpha1\<close>. Go's \<^verbatim>\<open>int32\<close> and \<^verbatim>\<open>int64\<close> are words read
  as two's complement; the string-based enumerations (\<^verbatim>\<open>DatabaseType\<close>, \<^verbatim>\<open>SSLMode\<close>,
  \<^verbatim>\<open>DatabasePhase\<close>, ...) stay strings, since any string can inhabit them; a pointer
  field is an option; a \<^verbatim>\<open>map[string]string\<close> that is only indexed is a partial map,
  and the one that is iterated (\<^verbatim>\<open>MatchLabels\<close>) is an association list. Timestamps
  (\<^verbatim>\<open>metav1.Time\<close>) are natural numbers.
\<close>

type_synonym int32 = "32 word"
type_synonym int64 = "64 word"
type_synonym labels = "string \<rightharpoonup> string"

record CredentialsRef =
  cr_Name :: string
  cr_Namespace :: string
  cr_UserKey :: string
  cr_PasswordKey :: string

record DatabaseSpec =
  ds_Type :: string
  ds_Host :: string
  ds_Port :: int32
  ds_Database :: string
  ds_CredentialsRef :: CredentialsRef
  ds_ConnectionTimeout :: int32
  ds_QueryTimeout :: int32
  ds_SSLMode :: string
  ds_MaxRows :: int32
  ds_ReadOnly :: bool
  ds_Description :: string

record Condition =
  cond_Type :: string
  cond_Status :: string
  cond_ObservedGeneration :: int64
  cond_LastTransitionTime :: nat
  cond_Reason :: string
  cond_Message :: string

record DatabaseStatus =
  dst_Phase :: string
  dst_LastChecked :: "nat option"
  dst_Message :: string
  dst_DSN :: string
  dst_ObservedGeneration :: int64
  dst_Conditions :: "Condition list"

record Database =
  db_Name :: string
  db_Namespace :: string
  db_Labels :: labels
  db_Generation :: int64
  db_Spec :: DatabaseSpec
  db_Status :: DatabaseStatus

definition DatabaseTypePostgres :: string where "DatabaseTypePostgres = ''postgres''"
definition DatabaseTypeMySQL :: string where "DatabaseTypeMySQL = ''mysql''"
definition DatabaseTypeMariaDB :: string where "DatabaseTypeMariaDB = ''mariadb''"
definition DatabaseTypeSQLServer :: string where "DatabaseTypeSQLServer = ''sqlserver''"
definition DatabaseTypeSQLite :: string where "DatabaseTypeSQLite = ''sqlite''"

definition DatabasePhasePending :: string where "DatabasePhasePending = ''Pending''"
definition DatabasePhaseConnected :: string where "DatabasePhaseConnected = ''Connected''"
definition DatabasePhaseFailed :: string where "DatabasePhaseFailed = ''Failed''"
definition DatabasePhaseDegraded :: string where "DatabasePhaseDegraded = ''Degraded''"

definition SSLModeDisable :: string where "SSLModeDisable = ''disable''"
definition SSLModeRequire :: string where "SSLModeRequire = ''require''"
definition SSLModeVerifyCA :: string where "SSLModeVerifyCA = ''verify-ca''"
definition SSLModeVerifyFull :: string where "SSLModeVerifyFull = ''verify-full''"

lemmas enum_defs =
  DatabaseTypePostgres_def DatabaseTypeMySQL_def DatabaseTypeMariaDB_def
  DatabaseTypeSQLServer_def DatabaseTypeSQLite_def
  DatabasePhasePending_def DatabasePhaseConnected_def DatabasePhaseFailed_def
  DatabasePhaseDegraded_def
  SSLModeDisable_def SSLModeRequire_def SSLModeVerifyCA_def SSLModeVerifyFull_def

text \<open>The accessors of \<^verbatim>\<open>Database\<close> that fall back to a default.\<close>

definition GetCredentialsNamespace :: "Database \<Rightarrow> string" where
  "GetCredentialsNamespace d =
     (if cr_Namespace (ds_CredentialsRef (db_Spec d)) \<noteq> ''''
      then cr_Namespace (ds_CredentialsRef (db_Spec d))
      else db_Namespace d)"

definition GetUserKey :: "Database \<Rightarrow> string" where
  "GetUserKey d =
     (if cr_UserKey (ds_CredentialsRef (db_Spec d)) \<noteq> ''''
      then cr_UserKey (ds_CredentialsRef (db_Spec d))
      else ''username'')"

definition GetPasswordKey :: "Database \<Rightarrow> string" where
  "GetPasswordKey d =
     (if cr_PasswordKey (ds_CredentialsRef (db_Spec d)) \<noteq> ''''
      then cr_PasswordKey (ds_CredentialsRef (db_Spec d))
      else ''password'')"

subsection \<open>The gateway resource\<close>

typedecl Toleration
typedecl Affinity

record DatabaseSelector =
  sel_MatchLabels :: "(string \<times> string) list"
  sel_MatchNames :: "string list"

record DefaultPolicy =
  dp_ReadOnly :: bool
  dp_MaxRows :: int32
  dp_AllowedOperations :: "string list"

text \<open>A \<^verbatim>\<open>corev1.ResourceList\<close> maps a resource name to a quantity, kept as its text.\<close>

record ResourceRequirements =
  rr_Requests :: "string \<rightharpoonup> string"
  rr_Limits :: "string \<rightharpoonup> string"

record DBHubInstanceSpec =
  is_Replicas :: "int32 option"
  is_Image :: string
  is_ImagePullPolicy :: string
  is_Transport :: string
  is_Port :: int32
  is_DatabaseSelector :: "DatabaseSelector option"
  is_DefaultPolicy :: "DefaultPolicy option"
  is_Resources :: "ResourceRequirements option"
  is_ServiceAccountName :: string
  is_NodeSelector :: "labels option"
  is_Tolerations :: "Toleration list option"
  is_Affinity :: "Affinity option"

record DBHubInstanceStatus =
  ist_Phase :: string
  ist_AvailableReplicas :: int32
  ist_ConnectedDatabases :: "string list"
  ist_Endpoint :: string
  ist_ConfigHash :: string
  ist_ObservedGeneration :: int64
  ist_LastConfigUpdate :: "nat option"
  ist_Conditions :: "Condition list"

record DBHubInstance =
  inst_Name :: string
  inst_Namespace :: string
  inst_Generation :: int64
  inst_Spec :: DBHubInstanceSpec
  inst_Status :: DBHubInstanceStatus

definition DBHubInstancePhasePending :: string where "DBHubInstancePhasePending = ''Pending''"
definition DBHubInstancePhaseRunning :: string where "DBHubInstancePhaseRunning = ''Running''"
definition DBHubInstancePhaseFailed :: string where "DBHubInstancePhaseFailed = ''Failed''"
definition DBHubInstancePhaseDegraded :: string where "DBHubInstancePhaseDegraded = ''Degraded''"

definition TransportTypeHTTP :: string where "TransportTypeHTTP = ''http''"
definition TransportTypeSSE :: string where "TransportTypeSSE = ''sse''"
definition TransportTypeStdio :: string where "TransportTypeStdio = ''stdio''"

definition PullIfNotPresent :: string where "PullIfNotPresent = ''IfNotPresent''"

definition GetReplicas :: "DBHubInstance \<Rightarrow> int32" where
  "GetReplicas d = (case is_Replicas (inst_Spec d) of None \<Rightarrow> 1 | Some n \<Rightarrow> n)"

definition GetImage :: "DBHubInstance \<Rightarrow> string" where
  "GetImage d =
     (if is_Image (inst_Spec d) = '''' then ''bytebase/dbhub:latest'' else is_Image (inst_Spec d))"

definition GetPort :: "DBHubInstance \<Rightarrow> int32" where
  "GetPort d = (if is_Port (inst_Spec d) = 0 then 8080 else is_Port (inst_Spec d))"

definition GetTransport :: "DBHubInstance \<Rightarrow> string" where
  "GetTransport d =
     (if is_Transport (inst_Spec d) = '''' then TransportTypeHTTP else is_Transport (inst_Spec d))"

section \<open>Admission layer: the defaulters\<close>

text \<open>
  \<^verbatim>\<open>DatabaseCustomDefaulter.Default\<close> mutates the object in place and always returns a
  nil error; the model returns the mutated object, one function per \<^verbatim>\<open>if\<close> statement
  of the source, applied in the source's order. The \<^verbatim>\<open>switch\<close> on the type has no
  default branch: any other type leaves the port at 0.
\<close>

definition default_port :: "DatabaseSpec \<Rightarrow> DatabaseSpec" where
  "default_port s =
     (if ds_Port s = 0 then
        (if ds_Type s = DatabaseTypePostgres then s\<lparr>ds_Port := 5432\<rparr>
         else if ds_Type s = DatabaseTypeMySQL \<or> ds_Type s = DatabaseTypeMariaDB
           then s\<lparr>ds_Port := 3306\<rparr>
         else if ds_Type s = DatabaseTypeSQLServer then s\<lparr>ds_Port := 1433\<rparr>
         else s)
      else s)"

definition default_ssl_mode :: "DatabaseSpec \<Rightarrow> DatabaseSpec" where
  "default_ssl_mode s = (if ds_SSLMode s = '''' then s\<lparr>ds_SSLMode := SSLModeDisable\<rparr> else s)"

definition default_connection_timeout :: "DatabaseSpec \<Rightarrow> DatabaseSpec" where
  "default_connection_timeout s =
     (if ds_ConnectionTimeout s = 0 then s\<lparr>ds_ConnectionTimeout := 30\<rparr> else s)"

definition default_query_timeout :: "DatabaseSpec \<Rightarrow> DatabaseSpec" where
  "default_query_timeout s = (if ds_QueryTimeout s = 0 then s\<lparr>ds_QueryTimeout := 60\<rparr> else s)"

definition default_max_rows :: "DatabaseSpec \<Rightarrow> DatabaseSpec" where
  "default_max_rows s = (if ds_MaxRows s = 0 then s\<lparr>ds_MaxRows := 1000\<rparr> else s)"

definition default_user_key :: "CredentialsRef \<Rightarrow> CredentialsRef" where
  "default_user_key r = (if cr_UserKey r = '''' then r\<lparr>cr_UserKey := ''username''\<rparr> else r)"

definition default_password_key :: "CredentialsRef \<Rightarrow> CredentialsRef" where
  "default_password_key r =
     (if cr_PasswordKey r = '''' then r\<lparr>cr_PasswordKey := ''password''\<rparr> else r)"

definition default_credential_keys :: "DatabaseSpec \<Rightarrow> DatabaseSpec" where
  "default_credential_keys s =
     s\<lparr>ds_CredentialsRef := default_password_key (default_user_key (ds_CredentialsRef s))\<rparr>"

definition Database_Default_spec :: "DatabaseSpec \<Rightarrow> DatabaseSpec" where
  "Database_Default_spec s =
     default_credential_keys (default_max_rows (default_query_timeout
       (default_connection_timeout (default_ssl_mode (default_port s)))))"

definition Database_Default :: "Database \<Rightarrow> Database" where
  "Database_Default obj = obj\<lparr>db_Spec := Database_Default_spec (db_Spec obj)\<rparr>"

text \<open>\<^verbatim>\<open>DBHubInstanceCustomDefaulter.Default\<close>, likewise.\<close>

definition default_resources :: ResourceRequirements where
  "default_resources =
     \<lparr> rr_Requests = [''cpu'' \<mapsto> ''100m'', ''memory'' \<mapsto> ''128Mi''],
       rr_Limits = [''cpu'' \<mapsto> ''500m'', ''memory'' \<mapsto> ''512Mi''] \<rparr>"

definition default_policy :: DefaultPolicy where
  "default_policy =
     \<lparr> dp_ReadOnly = True, dp_MaxRows = 1000,
       dp_AllowedOperations = [''execute_sql'', ''search_objects''] \<rparr>"

definition default_replicas :: "DBHubInstanceSpec \<Rightarrow> DBHubInstanceSpec" where
  "default_replicas s = (if is_Replicas s = None then s\<lparr>is_Replicas := Some 1\<rparr> else s)"

definition default_image :: "DBHubInstanceSpec \<Rightarrow> DBHubInstanceSpec" where
  "default_image s = (if is_Image s = '''' then s\<lparr>is_Image := ''bytebase/dbhub:latest''\<rparr> else s)"

definition default_image_pull_policy :: "DBHubInstanceSpec \<Rightarrow> DBHubInstanceSpec" where
  "default_image_pull_policy s =
     (if is_ImagePullPolicy s = '''' then s\<lparr>is_ImagePullPolicy := PullIfNotPresent\<rparr> else s)"

definition default_transport :: "DBHubInstanceSpec \<Rightarrow> DBHubInstanceSpec" where
  "default_transport s =
     (if is_Transport s = '''' then s\<lparr>is_Transport := TransportTypeHTTP\<rparr> else s)"

definition default_instance_port :: "DBHubInstanceSpec \<Rightarrow> DBHubInstanceSpec" where
  "default_instance_port s = (if is_Port s = 0 then s\<lparr>is_Port := 8080\<rparr> else s)"

definition default_instance_resources :: "DBHubInstanceSpec \<Rightarrow> DBHubInstanceSpec" where
  "default_instance_resources s =
     (if is_Resources s = None then s\<lparr>is_Resources := Some default_resources\<rparr> else s)"

definition default_instance_policy :: "DBHubInstanceSpec \<Rightarrow> DBHubInstanceSpec" where
  "default_instance_policy s =
     (if is_DefaultPolicy s = None then s\<lparr>is_DefaultPolicy := Some default_policy\<rparr> else s)"

definition DBHubInstance_Default_spec :: "DBHubInstanceSpec \<Rightarrow> DBHubInstanceSpec" where
  "DBHubInstance_Default_spec s =
     default_instance_policy (default_instance_resources (default_instance_port
       (default_transport (default_image_pull_policy (default_image (default_replicas s))))))"

definition DBHubInstance_Default :: "DBHubInstance \<Rightarrow> DBHubInstance" where
  "DBHubInstance_Default obj = obj\<lparr>inst_Spec := DBHubInstance_Default_spec (inst_Spec obj)\<rparr>"


section \<open>Selector matching\<close>

text \<open>
  Go's index expression \<^verbatim>\<open>m[k]\<close> on a \<^verbatim>\<open>map[string]string\<close> (also on a nil map): the
  value stored under \<open>k\<close>, and the zero value \<^verbatim>\<open>""\<close> when the key is absent.
\<close>

definition go_index :: "labels \<Rightarrow> string \<Rightarrow> string" where
  "go_index m k = (case m k of None \<Rightarrow> '''' | Some v \<Rightarrow> v)"

text \<open>
  The two loops of \<^verbatim>\<open>MatchesDatabase\<close>: the search through \<^verbatim>\<open>MatchNames\<close> that sets
  \<^verbatim>\<open>found\<close> and breaks, and the walk over \<^verbatim>\<open>MatchLabels\<close> that returns false at the
  first pair whose value differs from \<^verbatim>\<open>db.Labels[key]\<close>.
\<close>

fun match_names_found :: "string \<Rightarrow> string list \<Rightarrow> bool" where
  "match_names_found n [] = False"
| "match_names_found n (name # names) = (if n = name then True else match_names_found n names)"

fun match_labels_loop :: "labels \<Rightarrow> (string \<times> string) list \<Rightarrow> bool" where
  "match_labels_loop l [] = True"
| "match_labels_loop l ((key, val) # kvs) =
     (if go_index l key \<noteq> val then False else match_labels_loop l kvs)"

definition MatchesDatabase :: "DBHubInstance \<Rightarrow> Database \<Rightarrow> bool" where
  "MatchesDatabase d db =
     (case is_DatabaseSelector (inst_Spec d) of
        None \<Rightarrow> db_Namespace db = inst_Namespace d
      | Some sel \<Rightarrow>
          if db_Namespace db \<noteq> inst_Namespace d then False
          else if length (sel_MatchNames sel) > 0
                  \<and> \<not> match_names_found (db_Name db) (sel_MatchNames sel) then False
          else if length (sel_MatchLabels sel) > 0
                  \<and> \<not> match_labels_loop (db_Labels db) (sel_MatchLabels sel) then False
          else True)"

section \<open>String formatting\<close>

text \<open>
  What the reconcilers use of Go's \<^verbatim>\<open>fmt\<close>, \<^verbatim>\<open>net/url\<close> and \<^verbatim>\<open>strings\<close> packages. A Go
  string is a sequence of bytes, as a \<^typ>\<open>string\<close> is. \<^verbatim>\<open>Sprintf\<close> with \<^verbatim>\<open>%s\<close> verbs is
  concatenation; \<^verbatim>\<open>%d\<close> on an \<^verbatim>\<open>int32\<close> prints the signed decimal value.
\<close>

definition digit_char :: "nat \<Rightarrow> char" where
  "digit_char n = char_of (48 + n)"

fun nat_digits :: "nat \<Rightarrow> string" where
  "nat_digits n =
     (if n < 10 then [digit_char n] else nat_digits (n div 10) @ [digit_char (n mod 10)])"

declare nat_digits.simps [simp del]

definition fmt_d :: "int \<Rightarrow> string" where
  "fmt_d i = (if i < 0 then CHR ''-'' # nat_digits (nat (- i)) else nat_digits (nat i))"

definition fmt_d32 :: "int32 \<Rightarrow> string" where
  "fmt_d32 w = fmt_d (sint w)"

text \<open>
  \<^verbatim>\<open>url.QueryEscape\<close>: letters, digits and \<^verbatim>\<open>- _ . ~\<close> are kept, a space becomes \<^verbatim>\<open>+\<close>,
  every other byte becomes \<^verbatim>\<open>%XX\<close> in upper-case hexadecimal.
\<close>

definition upper_hex_char :: "nat \<Rightarrow> char" where
  "upper_hex_char n = (if n < 10 then char_of (48 + n) else char_of (55 + n))"

definition query_unreserved :: "char \<Rightarrow> bool" where
  "query_unreserved c =
     (let n = (of_char c :: nat)
      in (97 \<le> n \<and> n \<le> 122) \<or> (65 \<le> n \<and> n \<le> 90) \<or> (48 \<le> n \<and> n \<le> 57)
         \<or> c = CHR ''-'' \<or> c = CHR ''_'' \<or> c = CHR ''.'' \<or> c = CHR ''~'')"

definition escape_byte :: "char \<Rightarrow> string" where
  "escape_byte c =
     (if query_unreserved c then [c]
      else if c = CHR '' '' then ''+''
      else [CHR ''%'', upper_hex_char (of_char c div 16), upper_hex_char (of_char c mod 16)])"

definition QueryEscape :: "string \<Rightarrow> string" where
  "QueryEscape s = concat (map escape_byte s)"

section \<open>Connection strings\<close>

text \<open>
  \<^verbatim>\<open>DatabaseReconciler.buildDSN\<close> returns the full DSN and the DSN without credentials
  that goes to \<^verbatim>\<open>status.dsn\<close>.
\<close>

definition tls_flag :: "DatabaseSpec \<Rightarrow> string" where
  "tls_flag spec =
     (if ds_SSLMode spec = SSLModeRequire \<or> ds_SSLMode spec = SSLModeVerifyCA
         \<or> ds_SSLMode spec = SSLModeVerifyFull
      then ''true'' else ''false'')"

definition DatabaseReconciler_buildDSN :: "Database \<Rightarrow> string \<Rightarrow> string \<Rightarrow> string \<times> string" where
  "DatabaseReconciler_buildDSN database username password =
     (let spec = db_Spec database in
      if ds_Type spec = DatabaseTypePostgres then
        (''postgres://'' @ QueryEscape username @ '':'' @ QueryEscape password @ ''@''
           @ ds_Host spec @ '':'' @ fmt_d32 (ds_Port spec) @ ''/'' @ ds_Database spec
           @ ''?sslmode='' @ ds_SSLMode spec,
         ''postgres://'' @ ds_Host spec @ '':'' @ fmt_d32 (ds_Port spec) @ ''/''
           @ ds_Database spec @ ''?sslmode='' @ ds_SSLMode spec)
      else if ds_Type spec = DatabaseTypeMySQL \<or> ds_Type spec = DatabaseTypeMariaDB then
        (username @ '':'' @ password @ ''@tcp('' @ ds_Host spec @ '':''
           @ fmt_d32 (ds_Port spec) @ '')/'' @ ds_Database spec @ ''?tls='' @ tls_flag spec
           @ ''&timeout='' @ fmt_d32 (ds_ConnectionTimeout spec) @ ''s'',
         ''tcp('' @ ds_Host spec @ '':'' @ fmt_d32 (ds_Port spec) @ '')/'' @ ds_Database spec
           @ ''?tls='' @ tls_flag spec)
      else if ds_Type spec = DatabaseTypeSQLServer then
        (''sqlserver://'' @ QueryEscape username @ '':'' @ QueryEscape password @ ''@''
           @ ds_Host spec @ '':'' @ fmt_d32 (ds_Port spec) @ ''?database='' @ ds_Database spec
           @ ''&connection+timeout='' @ fmt_d32 (ds_ConnectionTimeout spec),
         ''sqlserver://'' @ ds_Host spec @ '':'' @ fmt_d32 (ds_Port spec) @ ''?database=''
           @ ds_Database spec)
      else if ds_Type spec = DatabaseTypeSQLite then (ds_Database spec, ds_Database spec)
      else ('''', ''''))"

text \<open>\<^verbatim>\<open>DBHubInstanceReconciler.buildDSN\<close>, the gateway's own builder.\<close>

definition DBHubInstanceReconciler_buildDSN :: "Database \<Rightarrow> string \<Rightarrow> string \<Rightarrow> string" where
  "DBHubInstanceReconciler_buildDSN db username password =
     (let spec = db_Spec db in
      if ds_Type spec = DatabaseTypePostgres then
        ''postgres://'' @ QueryEscape username @ '':'' @ QueryEscape password @ ''@''
          @ ds_Host spec @ '':'' @ fmt_d32 (ds_Port spec) @ ''/'' @ ds_Database spec
          @ ''?sslmode='' @ ds_SSLMode spec
      else if ds_Type spec = DatabaseTypeMySQL \<or> ds_Type spec = DatabaseTypeMariaDB then
        username @ '':'' @ password @ ''@tcp('' @ ds_Host spec @ '':''
          @ fmt_d32 (ds_Port spec) @ '')/'' @ ds_Database spec @ ''?tls='' @ tls_flag spec
      else if ds_Type spec = DatabaseTypeSQLServer then
        ''sqlserver://'' @ QueryEscape username @ '':'' @ QueryEscape password @ ''@''
          @ ds_Host spec @ '':'' @ fmt_d32 (ds_Port spec) @ ''?database='' @ ds_Database spec
      else if ds_Type spec = DatabaseTypeSQLite then ds_Database spec
      else '''')"

text \<open>
  The form the specification gives for mysql and mariadb (section 6.2):
  \<^verbatim>\<open><u>:<p>@tcp(<h>:<port>)/<db>?tls=<true|false>&timeout=<cto>s\<close>, with \<^verbatim>\<open>tls=true\<close> iff
  the SSL mode is one of require, verify-ca, verify-full.
\<close>

definition spec_mysql_dsn :: "Database \<Rightarrow> string \<Rightarrow> string \<Rightarrow> string" where
  "spec_mysql_dsn db u p =
     u @ '':'' @ p @ ''@tcp('' @ ds_Host (db_Spec db) @ '':'' @ fmt_d32 (ds_Port (db_Spec db))
       @ '')/'' @ ds_Database (db_Spec db)
       @ ''?tls='' @ (if ds_SSLMode (db_Spec db) \<in> {''require'', ''verify-ca'', ''verify-full''}
                      then ''true'' else ''false'')
       @ ''&timeout='' @ fmt_d32 (ds_ConnectionTimeout (db_Spec db)) @ ''s''"

section \<open>The cluster and its API\<close>

text \<open>
  A Go \<^verbatim>\<open>error\<close> carries its text (\<^verbatim>\<open>err.Error()\<close>) and whether
  \<^verbatim>\<open>apierrors.IsNotFound\<close> recognises it. \<^verbatim>\<open>fmt.Errorf("...: %w", err)\<close> prefixes the text
  and keeps the wrapped error reachable.
\<close>

datatype error = NotFound string | Failure string

fun IsNotFound :: "error \<Rightarrow> bool" where
  "IsNotFound (NotFound m) = True"
| "IsNotFound (Failure m) = False"

fun error_text :: "error \<Rightarrow> string" where
  "error_text (NotFound m) = m"
| "error_text (Failure m) = m"

fun wrap_error :: "string \<Rightarrow> error \<Rightarrow> error" where
  "wrap_error p (NotFound m) = NotFound (p @ m)"
| "wrap_error p (Failure m) = Failure (p @ m)"

text \<open>
  The objects the reconcilers read and write besides the two custom resources. An owner
  reference is the name of the owning \<^verbatim>\<open>DBHubInstance\<close>. Only the fields the operator
  sets are kept.
\<close>

record Secret =
  sec_Labels :: labels
  sec_Data :: "string \<rightharpoonup> string"
  sec_OwnerRef :: "string option"

record ConfigMap =
  cm_Labels :: labels
  cm_Data :: "string \<rightharpoonup> string"
  cm_OwnerRef :: "string option"

record ServicePort =
  sp_Name :: string
  sp_Port :: int32
  sp_TargetPort :: int32
  sp_Protocol :: string

record ServiceSpec =
  ss_Type :: string
  ss_Selector :: labels
  ss_Ports :: "ServicePort list"
  ss_ClusterIP :: string

record Service =
  svc_Labels :: labels
  svc_Spec :: ServiceSpec
  svc_OwnerRef :: "string option"

record Probe =
  pr_Path :: string
  pr_Port :: int32
  pr_InitialDelaySeconds :: int32
  pr_PeriodSeconds :: int32
  pr_TimeoutSeconds :: int32
  pr_FailureThreshold :: int32

record VolumeMount =
  vm_Name :: string
  vm_MountPath :: string
  vm_ReadOnly :: bool

record Container =
  ct_Name :: string
  ct_Image :: string
  ct_ImagePullPolicy :: string
  ct_Command :: "string list"
  ct_Args :: "string list"
  ct_EnvFromSecret :: "string list"
  ct_Ports :: "(string \<times> int32 \<times> string) list"
  ct_VolumeMounts :: "VolumeMount list"
  ct_LivenessProbe :: "Probe option"
  ct_ReadinessProbe :: "Probe option"
  ct_Resources :: ResourceRequirements

datatype VolumeSource = ConfigMapVolume string | EmptyDirVolume

record PodTemplateSpec =
  pt_Labels :: labels
  pt_Annotations :: labels
  pt_InitContainers :: "Container list"
  pt_Containers :: "Container list"
  pt_Volumes :: "(string \<times> VolumeSource) list"
  pt_NodeSelector :: "labels option"
  pt_Tolerations :: "Toleration list option"
  pt_Affinity :: "Affinity option"
  pt_ServiceAccountName :: string

record DeploymentSpec =
  dps_Replicas :: int32
  dps_Selector :: labels
  dps_Template :: PodTemplateSpec

record DeploymentStatus =
  dpst_AvailableReplicas :: int32
  dpst_UnavailableReplicas :: int32

record Deployment =
  dep_Labels :: labels
  dep_Spec :: DeploymentSpec
  dep_Status :: DeploymentStatus
  dep_OwnerRef :: "string option"

text \<open>
  The object store. Namespaced objects are keyed by (namespace, name); the Databases are a
  list, since the gateway lists them.
\<close>

type_synonym key = "string \<times> string"

record cluster =
  cl_Databases :: "Database list"
  cl_Instances :: "key \<rightharpoonup> DBHubInstance"
  cl_Secrets :: "key \<rightharpoonup> Secret"
  cl_ConfigMaps :: "key \<rightharpoonup> ConfigMap"
  cl_Deployments :: "key \<rightharpoonup> Deployment"
  cl_Services :: "key \<rightharpoonup> Service"

text \<open>
  What a reconcile takes from outside the store: the API call with number \<open>n\<close> of the
  run fails with \<open>env_Faults n\<close> if that is not \<open>None\<close> (forbidden, conflict, timeout,
  ...); the clock; the outcome of \<^verbatim>\<open>sql.Open\<close> and of \<^verbatim>\<open>PingContext\<close> for a driver and a
  DSN; and the outcome of \<^verbatim>\<open>controllerutil.SetControllerReference\<close>, which depends on the
  scheme only.
\<close>

record env =
  env_Faults :: "nat \<Rightarrow> error option"
  env_Now :: nat
  env_SqlOpen :: "string \<Rightarrow> string \<Rightarrow> error option"
  env_SqlPing :: "string \<Rightarrow> string \<Rightarrow> error option"
  env_OwnerRefError :: "error option"

record world =
  w_Cluster :: cluster
  w_Calls :: nat

definition tick :: "world \<Rightarrow> world" where
  "tick w = w\<lparr>w_Calls := Suc (w_Calls w)\<rparr>"

definition api_read :: "env \<Rightarrow> (cluster \<Rightarrow> 'a option) \<Rightarrow> string \<Rightarrow> world \<Rightarrow> (error + 'a) \<times> world" where
  "api_read e look what w =
     (case env_Faults e (w_Calls w) of
        Some err \<Rightarrow> (Inl err, tick w)
      | None \<Rightarrow>
          (case look (w_Cluster w) of
             None \<Rightarrow> (Inl (NotFound (what @ '' not found'')), tick w)
           | Some x \<Rightarrow> (Inr x, tick w)))"

definition api_write :: "env \<Rightarrow> (cluster \<Rightarrow> error + cluster) \<Rightarrow> world \<Rightarrow> error option \<times> world" where
  "api_write e upd w =
     (case env_Faults e (w_Calls w) of
        Some err \<Rightarrow> (Some err, tick w)
      | None \<Rightarrow>
          (case upd (w_Cluster w) of
             Inl err \<Rightarrow> (Some err, tick w)
           | Inr c \<Rightarrow> (None, tick (w\<lparr>w_Cluster := c\<rparr>))))"

definition db_key :: "Database \<Rightarrow> key" where
  "db_key d = (db_Namespace d, db_Name d)"

definition get_database :: "env \<Rightarrow> key \<Rightarrow> world \<Rightarrow> (error + Database) \<times> world" where
  "get_database e k = api_read e (\<lambda>c. find (\<lambda>d. db_key d = k) (cl_Databases c)) ''database''"

definition list_databases :: "env \<Rightarrow> string \<Rightarrow> world \<Rightarrow> (error + Database list) \<times> world" where
  "list_databases e ns =
     api_read e (\<lambda>c. Some (filter (\<lambda>d. db_Namespace d = ns) (cl_Databases c))) ''databases''"

definition get_secret :: "env \<Rightarrow> key \<Rightarrow> world \<Rightarrow> (error + Secret) \<times> world" where
  "get_secret e k = api_read e (\<lambda>c. cl_Secrets c k) ''secret''"

text \<open>
  \<^verbatim>\<open>Status().Update\<close> replaces the status of the stored object and touches nothing else of
  it; it fails when the object is gone.
\<close>

definition status_update_database :: "env \<Rightarrow> Database \<Rightarrow> world \<Rightarrow> error option \<times> world" where
  "status_update_database e d =
     api_write e (\<lambda>c.
       if list_ex (\<lambda>x. db_key x = db_key d) (cl_Databases c)
       then Inr (c\<lparr>cl_Databases :=
              map (\<lambda>x. if db_key x = db_key d then x\<lparr>db_Status := db_Status d\<rparr> else x)
                (cl_Databases c)\<rparr>)
       else Inl (NotFound ''database not found''))"

section \<open>Status conditions\<close>

text \<open>
  \<^verbatim>\<open>meta.SetStatusCondition\<close> of the apimachinery library, as it documents itself: a
  condition of a new type is appended; an existing one of that type takes the new reason,
  message and observed generation, and the new status and transition time only when the
  status changes.
\<close>

fun SetStatusCondition :: "Condition list \<Rightarrow> Condition \<Rightarrow> Condition list" where
  "SetStatusCondition [] new = [new]"
| "SetStatusCondition (c # cs) new =
     (if cond_Type c = cond_Type new then
        (if cond_Status c \<noteq> cond_Status new
         then c\<lparr>cond_Status := cond_Status new,
                cond_LastTransitionTime := cond_LastTransitionTime new\<rparr>
         else c)
          \<lparr>cond_Reason := cond_Reason new, cond_Message := cond_Message new,
           cond_ObservedGeneration := cond_ObservedGeneration new\<rparr> # cs
      else c # SetStatusCondition cs new)"

definition ConditionTypeReady :: string where "ConditionTypeReady = ''Ready''"
definition ConditionTypeConnected :: string where "ConditionTypeConnected = ''Connected''"

definition new_condition :: "string \<Rightarrow> string \<Rightarrow> string \<Rightarrow> string \<Rightarrow> nat \<Rightarrow> Condition" where
  "new_condition ty status reason message now =
     \<lparr> cond_Type = ty, cond_Status = status, cond_ObservedGeneration = 0,
       cond_LastTransitionTime = now, cond_Reason = reason, cond_Message = message \<rparr>"

section \<open>The database reconciler\<close>

record Result =
  RequeueAfter :: nat

text \<open>\<^verbatim>\<open>HealthCheckInterval = 5 * time.Minute\<close>, in seconds.\<close>

definition HealthCheckInterval :: nat where
  "HealthCheckInterval = 5 * 60"

definition getCredentials :: "env \<Rightarrow> Database \<Rightarrow> world \<Rightarrow> (error + string \<times> string) \<times> world" where
  "getCredentials e database w =
     (let secretNamespace = GetCredentialsNamespace database;
          secretName = cr_Name (ds_CredentialsRef (db_Spec database))
      in case get_secret e (secretNamespace, secretName) w of
           (Inl err, w') \<Rightarrow>
             (Inl (wrap_error (''failed to get secret '' @ secretNamespace @ ''/'' @ secretName
                     @ '': '') err), w')
         | (Inr secret, w') \<Rightarrow>
             (let userKey = GetUserKey database; passwordKey = GetPasswordKey database
              in case sec_Data secret userKey of
                   None \<Rightarrow>
                     (Inl (Failure (''secret '' @ secretNamespace @ ''/'' @ secretName
                             @ '' does not contain key '' @ userKey)), w')
                 | Some username \<Rightarrow>
                     (case sec_Data secret passwordKey of
                        None \<Rightarrow>
                          (Inl (Failure (''secret '' @ secretNamespace @ ''/'' @ secretName
                                  @ '' does not contain key '' @ passwordKey)), w')
                      | Some password \<Rightarrow> (Inr (username, password), w'))))"

definition driver_name :: "string \<Rightarrow> string option" where
  "driver_name ty =
     (if ty = DatabaseTypePostgres then Some ''postgres''
      else if ty = DatabaseTypeMySQL \<or> ty = DatabaseTypeMariaDB then Some ''mysql''
      else if ty = DatabaseTypeSQLServer then Some ''sqlserver''
      else if ty = DatabaseTypeSQLite then Some ''sqlite''
      else None)"

definition testConnection :: "env \<Rightarrow> Database \<Rightarrow> string \<Rightarrow> error option" where
  "testConnection e database dsn =
     (case driver_name (ds_Type (db_Spec database)) of
        None \<Rightarrow> Some (Failure (''unsupported database type: '' @ ds_Type (db_Spec database)))
      | Some driverName \<Rightarrow>
          (case env_SqlOpen e driverName dsn of
             Some err \<Rightarrow> Some (wrap_error ''failed to open database connection: '' err)
           | None \<Rightarrow>
               (case env_SqlPing e driverName dsn of
                  Some err \<Rightarrow> Some (wrap_error ''failed to ping database: '' err)
                | None \<Rightarrow> None)))"

text \<open>\<^verbatim>\<open>setDatabaseStatus\<close> changes the object in memory only.\<close>

definition setDatabaseStatus :: "env \<Rightarrow> Database \<Rightarrow> string \<Rightarrow> string \<Rightarrow> Database" where
  "setDatabaseStatus e database phase message =
     (let st = (db_Status database)\<lparr>dst_Phase := phase, dst_Message := message\<rparr>;
          now = env_Now e;
          cond = (if phase = DatabasePhaseConnected
                  then new_condition ConditionTypeReady ''True'' ''DatabaseReady''
                         ''Database is connected and ready'' now
                  else new_condition ConditionTypeReady ''False'' phase message now)
      in database\<lparr>db_Status := st\<lparr>dst_Conditions := SetStatusCondition (dst_Conditions st) cond\<rparr>\<rparr>)"

definition set_db_condition :: "Database \<Rightarrow> Condition \<Rightarrow> Database" where
  "set_db_condition database cond =
     database\<lparr>db_Status := (db_Status database)
       \<lparr>dst_Conditions := SetStatusCondition (dst_Conditions (db_Status database)) cond\<rparr>\<rparr>"

definition observe_generation :: "Database \<Rightarrow> Database" where
  "observe_generation database =
     (let d1 = (if dst_ObservedGeneration (db_Status database) \<noteq> db_Generation database
                then database\<lparr>db_Status := (db_Status database)
                       \<lparr>dst_ObservedGeneration := db_Generation database\<rparr>\<rparr>
                else database)
      in if dst_Phase (db_Status d1) = ''''
         then d1\<lparr>db_Status := (db_Status d1)\<lparr>dst_Phase := DatabasePhasePending\<rparr>\<rparr>
         else d1)"

definition check_connection :: "env \<Rightarrow> Database \<Rightarrow> string \<Rightarrow> string \<Rightarrow> Database" where
  "check_connection e database username password =
     (let (dsn, dsnWithoutCreds) = DatabaseReconciler_buildDSN database username password;
          d1 = database\<lparr>db_Status := (db_Status database)\<lparr>dst_DSN := dsnWithoutCreds\<rparr>\<rparr>;
          err = testConnection e d1 dsn;
          now = env_Now e;
          d2 = d1\<lparr>db_Status := (db_Status d1)\<lparr>dst_LastChecked := Some now\<rparr>\<rparr>
      in case err of
           Some er \<Rightarrow>
             set_db_condition
               (setDatabaseStatus e d2 DatabasePhaseFailed (''Connection failed: '' @ error_text er))
               (new_condition ConditionTypeConnected ''False'' ''ConnectionFailed'' (error_text er) now)
         | None \<Rightarrow>
             set_db_condition
               (setDatabaseStatus e d2 DatabasePhaseConnected '''')
               (new_condition ConditionTypeConnected ''True'' ''ConnectionSuccessful''
                  ''Successfully connected to database'' now))"

text \<open>
  \<^verbatim>\<open>DatabaseReconciler.Reconcile\<close>. It returns the \<^verbatim>\<open>ctrl.Result\<close>, the error and the
  world after its API calls. In the branch where the credentials cannot be read, the
  source calls \<^verbatim>\<open>setDatabaseStatus\<close> and returns: no \<^verbatim>\<open>Status().Update\<close> follows, so the
  object \<open>failed\<close> built there goes nowhere.
\<close>

definition DatabaseReconciler_Reconcile :: "env \<Rightarrow> key \<Rightarrow> world \<Rightarrow> (Result \<times> error option) \<times> world" where
  "DatabaseReconciler_Reconcile e req w =
     (case get_database e req w of
        (Inl err, w1) \<Rightarrow>
          if IsNotFound err then ((\<lparr>RequeueAfter = 0\<rparr>, None), w1)
          else ((\<lparr>RequeueAfter = 0\<rparr>, Some err), w1)
      | (Inr fetched, w1) \<Rightarrow>
          (let database = observe_generation fetched
           in case getCredentials e database w1 of
                (Inl err, w2) \<Rightarrow>
                  (let failed = setDatabaseStatus e database DatabasePhaseFailed
                                  (''Failed to get credentials: '' @ error_text err)
                   in ((\<lparr>RequeueAfter = HealthCheckInterval\<rparr>, None), w2))
              | (Inr (username, password), w2) \<Rightarrow>
                  (let checked = check_connection e database username password
                   in case status_update_database e checked w2 of
                        (Some err, w3) \<Rightarrow> ((\<lparr>RequeueAfter = 0\<rparr>, Some err), w3)
                      | (None, w3) \<Rightarrow> ((\<lparr>RequeueAfter = HealthCheckInterval\<rparr>, None), w3))))"

section \<open>SHA-256 and the configuration hash\<close>

text \<open>
  \<^verbatim>\<open>crypto/sha256.Sum256\<close> of the Go library, after FIPS 180-4, on 32-bit words: the
  message is padded to a multiple of 64 bytes, each block is expanded to a schedule of 64
  words and run through 64 rounds, and the digest is the eight state words in big-endian
  bytes.
\<close>

type_synonym u32 = "32 word"
type_synonym byte = "8 word"

definition rotr :: "nat \<Rightarrow> u32 \<Rightarrow> u32" where
  "rotr n x = drop_bit n x OR push_bit (32 - n) x"

definition big_sigma0 :: "u32 \<Rightarrow> u32" where
  "big_sigma0 x = rotr 2 x XOR rotr 13 x XOR rotr 22 x"

definition big_sigma1 :: "u32 \<Rightarrow> u32" where
  "big_sigma1 x = rotr 6 x XOR rotr 11 x XOR rotr 25 x"

definition small_sigma0 :: "u32 \<Rightarrow> u32" where
  "small_sigma0 x = rotr 7 x XOR rotr 18 x XOR drop_bit 3 x"

definition small_sigma1 :: "u32 \<Rightarrow> u32" where
  "small_sigma1 x = rotr 17 x XOR rotr 19 x XOR drop_bit 10 x"

definition sha_ch :: "u32 \<Rightarrow> u32 \<Rightarrow> u32 \<Rightarrow> u32" where
  "sha_ch x y z = (x AND y) XOR (NOT x AND z)"

definition sha_maj :: "u32 \<Rightarrow> u32 \<Rightarrow> u32 \<Rightarrow> u32" where
  "sha_maj x y z = (x AND y) XOR (x AND z) XOR (y AND z)"

definition round_constants :: "u32 list" where
  "round_constants =
    [1116352408, 1899447441, 3049323471, 3921009573, 961987163, 1508970993, 2453635748,
     2870763221, 3624381080, 310598401, 607225278, 1426881987, 1925078388, 2162078206,
     2614888103, 3248222580, 3835390401, 4022224774, 264347078, 604807628, 770255983,
     1249150122, 1555081692, 1996064986, 2554220882, 2821834349, 2952996808, 3210313671,
     3336571891, 3584528711, 113926993, 338241895, 666307205, 773529912, 1294757372,
     1396182291, 1695183700, 1986661051, 2177026350, 2456956037, 2730485921, 2820302411,
     3259730800, 3345764771, 3516065817, 3600352804, 4094571909, 275423344, 430227734,
     506948616, 659060556, 883997877, 958139571, 1322822218, 1537002063, 1747873779,
     1955562222, 2024104815, 2227730452, 2361852424, 2428436474, 2756734187, 3204031479,
     3329325298]"

record hash_state =
  st_a :: u32
  st_b :: u32
  st_c :: u32
  st_d :: u32
  st_e :: u32
  st_f :: u32
  st_g :: u32
  st_h :: u32

definition initial_state :: hash_state where
  "initial_state =
     \<lparr> st_a = 1779033703, st_b = 3144134277, st_c = 1013904242, st_d = 2773480762,
       st_e = 1359893119, st_f = 2600822924, st_g = 528734635, st_h = 1541459225 \<rparr>"

definition be32 :: "byte list \<Rightarrow> u32" where
  "be32 bs = foldl (\<lambda>acc b. push_bit 8 acc OR ucast b) 0 bs"

fun chunks :: "nat \<Rightarrow> 'a list \<Rightarrow> 'a list list" where
  "chunks n xs = (if n = 0 \<or> xs = [] then [] else take n xs # chunks n (drop n xs))"

declare chunks.simps [simp del]

fun extend_schedule :: "nat \<Rightarrow> u32 list \<Rightarrow> u32 list" where
  "extend_schedule 0 ws = ws"
| "extend_schedule (Suc k) ws =
     (let t = length ws
      in extend_schedule k
           (ws @ [small_sigma1 (ws ! (t - 2)) + ws ! (t - 7)
                    + small_sigma0 (ws ! (t - 15)) + ws ! (t - 16)]))"

definition schedule :: "byte list \<Rightarrow> u32 list" where
  "schedule block = extend_schedule 48 (map be32 (chunks 4 block))"

definition round_step :: "hash_state \<Rightarrow> u32 \<times> u32 \<Rightarrow> hash_state" where
  "round_step s kw =
     (let t1 = st_h s + big_sigma1 (st_e s) + sha_ch (st_e s) (st_f s) (st_g s) + fst kw + snd kw;
          t2 = big_sigma0 (st_a s) + sha_maj (st_a s) (st_b s) (st_c s)
      in \<lparr> st_a = t1 + t2, st_b = st_a s, st_c = st_b s, st_d = st_c s,
           st_e = st_d s + t1, st_f = st_e s, st_g = st_f s, st_h = st_g s \<rparr>)"

definition compress :: "hash_state \<Rightarrow> byte list \<Rightarrow> hash_state" where
  "compress s block =
     (let r = foldl round_step s (zip round_constants (schedule block))
      in \<lparr> st_a = st_a s + st_a r, st_b = st_b s + st_b r, st_c = st_c s + st_c r,
           st_d = st_d s + st_d r, st_e = st_e s + st_e r, st_f = st_f s + st_f r,
           st_g = st_g s + st_g r, st_h = st_h s + st_h r \<rparr>)"

definition bytes_of_u32 :: "u32 \<Rightarrow> byte list" where
  "bytes_of_u32 w = [ucast (drop_bit 24 w), ucast (drop_bit 16 w), ucast (drop_bit 8 w), ucast w]"

definition bytes_of_u64 :: "64 word \<Rightarrow> byte list" where
  "bytes_of_u64 w = map (\<lambda>i. ucast (drop_bit (56 - 8 * i) w)) [0..<8]"

definition pad :: "byte list \<Rightarrow> byte list" where
  "pad m = m @ [128] @ replicate ((119 - length m mod 64) mod 64) 0
             @ bytes_of_u64 (of_nat (8 * length m))"

definition Sum256 :: "byte list \<Rightarrow> byte list" where
  "Sum256 m =
     (let s = foldl compress initial_state (chunks 64 (pad m))
      in concat (map bytes_of_u32
           [st_a s, st_b s, st_c s, st_d s, st_e s, st_f s, st_g s, st_h s]))"

text \<open>\<^verbatim>\<open>fmt.Sprintf("%x", bytes)\<close>: two lower-case hexadecimal digits per byte.\<close>

definition hex_digit :: "nat \<Rightarrow> char" where
  "hex_digit n = (if n < 10 then char_of (48 + n) else char_of (87 + n))"

definition hex_byte :: "byte \<Rightarrow> string" where
  "hex_byte b = [hex_digit (unat b div 16), hex_digit (unat b mod 16)]"

definition fmt_x :: "byte list \<Rightarrow> string" where
  "fmt_x bs = concat (map hex_byte bs)"

definition calculateHash :: "string \<Rightarrow> string" where
  "calculateHash data = (let h = Sum256 (map of_char data) in fmt_x (take 8 h))"

section \<open>The gateway reconciler\<close>

definition nl :: string where "nl = [CHR 0x0A]"
definition dq :: string where "dq = [CHR 0x22]"

definition configMapSuffix :: string where "configMapSuffix = ''-config''"
definition secretSuffix :: string where "secretSuffix = ''-creds''"
definition serviceSuffix :: string where "serviceSuffix = ''''"

definition labelApp :: string where "labelApp = ''app.kubernetes.io/name''"
definition labelInstance :: string where "labelInstance = ''app.kubernetes.io/instance''"
definition labelComponent :: string where "labelComponent = ''app.kubernetes.io/component''"
definition labelManagedBy :: string where "labelManagedBy = ''app.kubernetes.io/managed-by''"

definition instance_labels :: "DBHubInstance \<Rightarrow> labels" where
  "instance_labels instance =
     [labelApp \<mapsto> ''dbhub'', labelInstance \<mapsto> inst_Name instance,
      labelComponent \<mapsto> ''database-mcp'', labelManagedBy \<mapsto> ''dbhub-operator'']"

definition selectorLabels :: "DBHubInstance \<Rightarrow> labels" where
  "selectorLabels instance = [labelApp \<mapsto> ''dbhub'', labelInstance \<mapsto> inst_Name instance]"

text \<open>
  \<^verbatim>\<open>envName\<close>: \<^verbatim>\<open>strings.ToUpper\<close>, then \<^verbatim>\<open>-\<close> and \<^verbatim>\<open>.\<close> replaced by \<^verbatim>\<open>_\<close>. Object names
  are ASCII (DNS subdomains), where \<^verbatim>\<open>ToUpper\<close> maps \<^verbatim>\<open>a\<close>..\<^verbatim>\<open>z\<close> to \<^verbatim>\<open>A\<close>..\<^verbatim>\<open>Z\<close> and
  keeps every other byte.
\<close>

definition to_upper_byte :: "char \<Rightarrow> char" where
  "to_upper_byte c =
     (if 97 \<le> (of_char c :: nat) \<and> (of_char c :: nat) \<le> 122
      then char_of ((of_char c :: nat) - 32) else c)"

definition ToUpper :: "string \<Rightarrow> string" where
  "ToUpper s = map to_upper_byte s"

definition ReplaceAll_char :: "string \<Rightarrow> char \<Rightarrow> char \<Rightarrow> string" where
  "ReplaceAll_char s old new = map (\<lambda>c. if c = old then new else c) s"

definition envName :: "string \<Rightarrow> string" where
  "envName name = ReplaceAll_char (ReplaceAll_char (ToUpper name) CHR ''-'' CHR ''_'') CHR ''.'' CHR ''_''"

definition get_instance :: "env \<Rightarrow> key \<Rightarrow> world \<Rightarrow> (error + DBHubInstance) \<times> world" where
  "get_instance e k = api_read e (\<lambda>c. cl_Instances c k) ''dbhubinstance''"

definition status_update_instance :: "env \<Rightarrow> DBHubInstance \<Rightarrow> world \<Rightarrow> error option \<times> world" where
  "status_update_instance e i =
     api_write e (\<lambda>c.
       case cl_Instances c (inst_Namespace i, inst_Name i) of
         None \<Rightarrow> Inl (NotFound ''dbhubinstance not found'')
       | Some stored \<Rightarrow>
           Inr (c\<lparr>cl_Instances := (cl_Instances c)
                  ((inst_Namespace i, inst_Name i) \<mapsto> stored\<lparr>inst_Status := inst_Status i\<rparr>)\<rparr>))"

text \<open>\<^verbatim>\<open>Create\<close> fails on an object that exists, \<^verbatim>\<open>Update\<close> on one that does not.\<close>

definition create_in :: "(key \<rightharpoonup> 'a) \<Rightarrow> key \<Rightarrow> 'a \<Rightarrow> error + (key \<rightharpoonup> 'a)" where
  "create_in m k x =
     (case m k of Some y \<Rightarrow> Inl (Failure ''already exists'') | None \<Rightarrow> Inr (m(k \<mapsto> x)))"

definition update_in :: "(key \<rightharpoonup> 'a) \<Rightarrow> key \<Rightarrow> 'a \<Rightarrow> error + (key \<rightharpoonup> 'a)" where
  "update_in m k x =
     (case m k of None \<Rightarrow> Inl (NotFound ''not found'') | Some y \<Rightarrow> Inr (m(k \<mapsto> x)))"

definition put_configmaps :: "cluster \<Rightarrow> error + (key \<rightharpoonup> ConfigMap) \<Rightarrow> error + cluster" where
  "put_configmaps c r = (case r of Inl err \<Rightarrow> Inl err | Inr m \<Rightarrow> Inr (c\<lparr>cl_ConfigMaps := m\<rparr>))"

definition put_secrets :: "cluster \<Rightarrow> error + (key \<rightharpoonup> Secret) \<Rightarrow> error + cluster" where
  "put_secrets c r = (case r of Inl err \<Rightarrow> Inl err | Inr m \<Rightarrow> Inr (c\<lparr>cl_Secrets := m\<rparr>))"

definition put_deployments :: "cluster \<Rightarrow> error + (key \<rightharpoonup> Deployment) \<Rightarrow> error + cluster" where
  "put_deployments c r = (case r of Inl err \<Rightarrow> Inl err | Inr m \<Rightarrow> Inr (c\<lparr>cl_Deployments := m\<rparr>))"

definition put_services :: "cluster \<Rightarrow> error + (key \<rightharpoonup> Service) \<Rightarrow> error + cluster" where
  "put_services c r = (case r of Inl err \<Rightarrow> Inl err | Inr m \<Rightarrow> Inr (c\<lparr>cl_Services := m\<rparr>))"

definition get_configmap :: "env \<Rightarrow> key \<Rightarrow> world \<Rightarrow> (error + ConfigMap) \<times> world" where
  "get_configmap e k = api_read e (\<lambda>c. cl_ConfigMaps c k) ''configmap''"

definition create_configmap :: "env \<Rightarrow> key \<Rightarrow> ConfigMap \<Rightarrow> world \<Rightarrow> error option \<times> world" where
  "create_configmap e k x = api_write e (\<lambda>c. put_configmaps c (create_in (cl_ConfigMaps c) k x))"

definition update_configmap :: "env \<Rightarrow> key \<Rightarrow> ConfigMap \<Rightarrow> world \<Rightarrow> error option \<times> world" where
  "update_configmap e k x = api_write e (\<lambda>c. put_configmaps c (update_in (cl_ConfigMaps c) k x))"

definition create_secret :: "env \<Rightarrow> key \<Rightarrow> Secret \<Rightarrow> world \<Rightarrow> error option \<times> world" where
  "create_secret e k x = api_write e (\<lambda>c. put_secrets c (create_in (cl_Secrets c) k x))"

definition update_secret :: "env \<Rightarrow> key \<Rightarrow> Secret \<Rightarrow> world \<Rightarrow> error option \<times> world" where
  "update_secret e k x = api_write e (\<lambda>c. put_secrets c (update_in (cl_Secrets c) k x))"

definition get_deployment :: "env \<Rightarrow> key \<Rightarrow> world \<Rightarrow> (error + Deployment) \<times> world" where
  "get_deployment e k = api_read e (\<lambda>c. cl_Deployments c k) ''deployment''"

definition create_deployment :: "env \<Rightarrow> key \<Rightarrow> Deployment \<Rightarrow> world \<Rightarrow> error option \<times> world" where
  "create_deployment e k x = api_write e (\<lambda>c. put_deployments c (create_in (cl_Deployments c) k x))"

definition update_deployment :: "env \<Rightarrow> key \<Rightarrow> Deployment \<Rightarrow> world \<Rightarrow> error option \<times> world" where
  "update_deployment e k x = api_write e (\<lambda>c. put_deployments c (update_in (cl_Deployments c) k x))"

definition get_service :: "env \<Rightarrow> key \<Rightarrow> world \<Rightarrow> (error + Service) \<times> world" where
  "get_service e k = api_read e (\<lambda>c. cl_Services c k) ''service''"

definition create_service :: "env \<Rightarrow> key \<Rightarrow> Service \<Rightarrow> world \<Rightarrow> error option \<times> world" where
  "create_service e k x = api_write e (\<lambda>c. put_services c (create_in (cl_Services c) k x))"

definition update_service :: "env \<Rightarrow> key \<Rightarrow> Service \<Rightarrow> world \<Rightarrow> error option \<times> world" where
  "update_service e k x = api_write e (\<lambda>c. put_services c (update_in (cl_Services c) k x))"

subsection \<open>Selecting the databases\<close>

definition findMatchingDatabases :: "env \<Rightarrow> DBHubInstance \<Rightarrow> world \<Rightarrow> (error + Database list) \<times> world" where
  "findMatchingDatabases e instance w =
     (case list_databases e (inst_Namespace instance) w of
        (Inl err, w') \<Rightarrow> (Inl err, w')
      | (Inr items, w') \<Rightarrow>
          (Inr (filter (\<lambda>db. MatchesDatabase instance db
                             \<and> dst_Phase (db_Status db) = DatabasePhaseConnected) items), w'))"

subsection \<open>Rendering the configuration\<close>

text \<open>
  \<^verbatim>\<open>getDatabaseCredentials\<close> converts \<^verbatim>\<open>secret.Data[key]\<close> to a string without looking
  whether the key is there: a missing key reads as the empty string.
\<close>

definition getDatabaseCredentials :: "env \<Rightarrow> Database \<Rightarrow> world \<Rightarrow> (error + string \<times> string) \<times> world" where
  "getDatabaseCredentials e db w =
     (case get_secret e (GetCredentialsNamespace db, cr_Name (ds_CredentialsRef (db_Spec db))) w of
        (Inl err, w') \<Rightarrow> (Inl err, w')
      | (Inr secret, w') \<Rightarrow>
          (Inr (go_index (sec_Data secret) (GetUserKey db),
                go_index (sec_Data secret) (GetPasswordKey db)), w'))"

definition source_entry :: "Database \<Rightarrow> string" where
  "source_entry db =
     (let b1 = ''[[sources]]'' @ nl @ ''id = '' @ dq @ db_Name db @ dq @ nl
               @ ''dsn = '' @ dq @ ''${'' @ envName (db_Name db) @ ''_DSN}'' @ dq @ nl;
          b2 = (if 0 < sint (ds_ConnectionTimeout (db_Spec db))
                then b1 @ ''connection_timeout = '' @ fmt_d32 (ds_ConnectionTimeout (db_Spec db)) @ nl
                else b1);
          b3 = (if 0 < sint (ds_QueryTimeout (db_Spec db))
                then b2 @ ''query_timeout = '' @ fmt_d32 (ds_QueryTimeout (db_Spec db)) @ nl
                else b2)
      in b3 @ nl)"

text \<open>
  The first loop of \<^verbatim>\<open>generateConfig\<close>: the string builder and the credentials map are
  threaded through; the first secret that cannot be read ends the loop with the error.
\<close>

fun sources_loop :: "env \<Rightarrow> Database list \<Rightarrow> string \<Rightarrow> (string \<rightharpoonup> string) \<Rightarrow> world
    \<Rightarrow> (error + string \<times> (string \<rightharpoonup> string)) \<times> world" where
  "sources_loop e [] builder credentials w = (Inr (builder, credentials), w)"
| "sources_loop e (db # dbs) builder credentials w =
     (case getDatabaseCredentials e db w of
        (Inl err, w') \<Rightarrow>
          (Inl (wrap_error (''failed to get credentials for database '' @ db_Name db @ '': '') err), w')
      | (Inr (username, password), w') \<Rightarrow>
          (let dsn = DBHubInstanceReconciler_buildDSN db username password
           in sources_loop e dbs (builder @ source_entry db)
                (credentials(envName (db_Name db) @ ''_DSN'' \<mapsto> dsn)) w'))"

text \<open>
  The second loop: for each database an \<^verbatim>\<open>execute_sql\<close> block with the policy lines and a
  \<^verbatim>\<open>search_objects\<close> block without them. \<^verbatim>\<open>AllowedOperations\<close> is not read.
\<close>

definition execute_sql_tool :: "DefaultPolicy \<Rightarrow> Database \<Rightarrow> string" where
  "execute_sql_tool policy db =
     (let b1 = ''[[tools]]'' @ nl @ ''name = '' @ dq @ ''execute_sql'' @ dq @ nl
               @ ''source = '' @ dq @ db_Name db @ dq @ nl;
          b2 = (if dp_ReadOnly policy then b1 @ ''readonly = true'' @ nl else b1);
          b3 = (if 0 < sint (dp_MaxRows policy)
                then b2 @ ''max_rows = '' @ fmt_d32 (dp_MaxRows policy) @ nl else b2)
      in b3 @ nl)"

definition search_objects_tool :: "Database \<Rightarrow> string" where
  "search_objects_tool db =
     ''[[tools]]'' @ nl @ ''name = '' @ dq @ ''search_objects'' @ dq @ nl
       @ ''source = '' @ dq @ db_Name db @ dq @ nl @ nl"

fun tools_loop :: "DefaultPolicy \<Rightarrow> Database list \<Rightarrow> string \<Rightarrow> string" where
  "tools_loop policy [] builder = builder"
| "tools_loop policy (db # dbs) builder =
     tools_loop policy dbs (builder @ execute_sql_tool policy db @ search_objects_tool db)"

definition generateConfig :: "env \<Rightarrow> DBHubInstance \<Rightarrow> Database list \<Rightarrow> world
    \<Rightarrow> (error + string \<times> (string \<rightharpoonup> string)) \<times> world" where
  "generateConfig e instance databases w =
     (case sources_loop e databases [] Map.empty w of
        (Inl err, w') \<Rightarrow> (Inl err, w')
      | (Inr (builder, credentials), w') \<Rightarrow>
          (case is_DefaultPolicy (inst_Spec instance) of
             None \<Rightarrow> (Inr (builder, credentials), w')
           | Some policy \<Rightarrow>
               if length databases > 0
               then (Inr (tools_loop policy databases builder, credentials), w')
               else (Inr (builder, credentials), w')))"

subsection \<open>The child objects\<close>

text \<open>
  Each child is built with the canonical labels, gets the instance as controller owner,
  and is created when \<^verbatim>\<open>Get\<close> reports it missing; otherwise the object read is updated
  with the new \<^verbatim>\<open>Data\<close> or \<^verbatim>\<open>Spec\<close> and \<^verbatim>\<open>Labels\<close>.
\<close>

definition reconcileConfigMap :: "env \<Rightarrow> DBHubInstance \<Rightarrow> string \<Rightarrow> world \<Rightarrow> error option \<times> world" where
  "reconcileConfigMap e instance configData w =
     (let configMap = \<lparr> cm_Labels = instance_labels instance,
                         cm_Data = [''dbhub.toml'' \<mapsto> configData], cm_OwnerRef = None \<rparr>;
          k = (inst_Namespace instance, inst_Name instance @ configMapSuffix)
      in case env_OwnerRefError e of
           Some err \<Rightarrow> (Some err, w)
         | None \<Rightarrow>
             (let owned = configMap\<lparr>cm_OwnerRef := Some (inst_Name instance)\<rparr>
              in case get_configmap e k w of
                   (Inl err, w1) \<Rightarrow>
                     if IsNotFound err then create_configmap e k owned w1 else (Some err, w1)
                 | (Inr existing, w1) \<Rightarrow>
                     update_configmap e k
                       (existing\<lparr>cm_Data := cm_Data owned, cm_Labels := cm_Labels owned\<rparr>) w1))"

definition reconcileCredentialsSecret :: "env \<Rightarrow> DBHubInstance \<Rightarrow> (string \<rightharpoonup> string) \<Rightarrow> world
    \<Rightarrow> error option \<times> world" where
  "reconcileCredentialsSecret e instance credentials w =
     (let secret = \<lparr> sec_Labels = instance_labels instance, sec_Data = credentials,
                      sec_OwnerRef = None \<rparr>;
          k = (inst_Namespace instance, inst_Name instance @ secretSuffix)
      in case env_OwnerRefError e of
           Some err \<Rightarrow> (Some err, w)
         | None \<Rightarrow>
             (let owned = secret\<lparr>sec_OwnerRef := Some (inst_Name instance)\<rparr>
              in case get_secret e k w of
                   (Inl err, w1) \<Rightarrow>
                     if IsNotFound err then create_secret e k owned w1 else (Some err, w1)
                 | (Inr existing, w1) \<Rightarrow>
                     update_secret e k
                       (existing\<lparr>sec_Data := sec_Data owned, sec_Labels := sec_Labels owned\<rparr>) w1))"

definition health_probe :: "int32 \<Rightarrow> int32 \<Rightarrow> int32 \<Rightarrow> int32 \<Rightarrow> Probe" where
  "health_probe port delay period timeout =
     \<lparr> pr_Path = ''/health'', pr_Port = port, pr_InitialDelaySeconds = delay,
       pr_PeriodSeconds = period, pr_TimeoutSeconds = timeout, pr_FailureThreshold = 3 \<rparr>"

definition no_resources :: ResourceRequirements where
  "no_resources = \<lparr> rr_Requests = Map.empty, rr_Limits = Map.empty \<rparr>"

definition config_renderer :: "DBHubInstance \<Rightarrow> Container" where
  "config_renderer instance =
     \<lparr> ct_Name = ''config-renderer'', ct_Image = ''bhgedigital/envsubst:latest'',
       ct_ImagePullPolicy = '''',
       ct_Command = [''sh'', ''-c'', ''envsubst < /config-template/dbhub.toml > /config/dbhub.toml''],
       ct_Args = [], ct_EnvFromSecret = [inst_Name instance @ secretSuffix], ct_Ports = [],
       ct_VolumeMounts =
         [\<lparr> vm_Name = ''config-template'', vm_MountPath = ''/config-template'', vm_ReadOnly = False \<rparr>,
          \<lparr> vm_Name = ''config-rendered'', vm_MountPath = ''/config'', vm_ReadOnly = False \<rparr>],
       ct_LivenessProbe = None, ct_ReadinessProbe = None, ct_Resources = no_resources \<rparr>"

definition dbhub_container :: "DBHubInstance \<Rightarrow> Container" where
  "dbhub_container instance =
     (let port = GetPort instance
      in \<lparr> ct_Name = ''dbhub'', ct_Image = GetImage instance,
           ct_ImagePullPolicy = is_ImagePullPolicy (inst_Spec instance),
           ct_Command = [],
           ct_Args = [''--transport'', GetTransport instance, ''--port'', fmt_d32 port,
                      ''--config'', ''/config/dbhub.toml''],
           ct_EnvFromSecret = [], ct_Ports = [(''http'', port, ''TCP'')],
           ct_VolumeMounts =
             [\<lparr> vm_Name = ''config-rendered'', vm_MountPath = ''/config'', vm_ReadOnly = True \<rparr>],
           ct_LivenessProbe = Some (health_probe port 10 30 5),
           ct_ReadinessProbe = Some (health_probe port 5 10 3),
           ct_Resources =
             (case is_Resources (inst_Spec instance) of
                None \<Rightarrow> no_resources
              | Some r \<Rightarrow> \<lparr> rr_Requests = rr_Requests r, rr_Limits = rr_Limits r \<rparr>) \<rparr>)"

definition desired_deployment :: "DBHubInstance \<Rightarrow> string \<Rightarrow> Deployment" where
  "desired_deployment instance configHash =
     (let labels = (instance_labels instance)(''config-hash'' \<mapsto> configHash)
      in \<lparr> dep_Labels = instance_labels instance,
           dep_Spec =
             \<lparr> dps_Replicas = GetReplicas instance,
               dps_Selector = selectorLabels instance,
               dps_Template =
                 \<lparr> pt_Labels = labels,
                   pt_Annotations = [''prometheus.io/scrape'' \<mapsto> ''true'',
                                     ''prometheus.io/port'' \<mapsto> fmt_d32 (GetPort instance)],
                   pt_InitContainers = [config_renderer instance],
                   pt_Containers = [dbhub_container instance],
                   pt_Volumes =
                     [(''config-template'', ConfigMapVolume (inst_Name instance @ configMapSuffix)),
                      (''config-rendered'', EmptyDirVolume)],
                   pt_NodeSelector = is_NodeSelector (inst_Spec instance),
                   pt_Tolerations = is_Tolerations (inst_Spec instance),
                   pt_Affinity = is_Affinity (inst_Spec instance),
                   pt_ServiceAccountName = is_ServiceAccountName (inst_Spec instance) \<rparr> \<rparr>,
           dep_Status = \<lparr> dpst_AvailableReplicas = 0, dpst_UnavailableReplicas = 0 \<rparr>,
           dep_OwnerRef = None \<rparr>)"

definition reconcileDeployment :: "env \<Rightarrow> DBHubInstance \<Rightarrow> string \<Rightarrow> world \<Rightarrow> error option \<times> world" where
  "reconcileDeployment e instance configHash w =
     (let deployment = desired_deployment instance configHash;
          k = (inst_Namespace instance, inst_Name instance)
      in case env_OwnerRefError e of
           Some err \<Rightarrow> (Some err, w)
         | None \<Rightarrow>
             (let owned = deployment\<lparr>dep_OwnerRef := Some (inst_Name instance)\<rparr>
              in case get_deployment e k w of
                   (Inl err, w1) \<Rightarrow>
                     if IsNotFound err then create_deployment e k owned w1 else (Some err, w1)
                 | (Inr existing, w1) \<Rightarrow>
                     update_deployment e k
                       (existing\<lparr>dep_Spec := dep_Spec owned, dep_Labels := dep_Labels owned\<rparr>) w1))"

definition desired_service :: "DBHubInstance \<Rightarrow> Service" where
  "desired_service instance =
     (let port = GetPort instance
      in \<lparr> svc_Labels = instance_labels instance,
           svc_Spec =
             \<lparr> ss_Type = ''ClusterIP'', ss_Selector = selectorLabels instance,
               ss_Ports = [\<lparr> sp_Name = ''http'', sp_Port = port, sp_TargetPort = port,
                             sp_Protocol = ''TCP'' \<rparr>],
               ss_ClusterIP = '''' \<rparr>,
           svc_OwnerRef = None \<rparr>)"

text \<open>
  \<^verbatim>\<open>reconcileService\<close>: on the update path the desired spec first takes the cluster IP of
  the object read, then replaces that object's spec.
\<close>

definition reconcileService :: "env \<Rightarrow> DBHubInstance \<Rightarrow> world \<Rightarrow> error option \<times> world" where
  "reconcileService e instance w =
     (let service = desired_service instance;
          k = (inst_Namespace instance, inst_Name instance @ serviceSuffix)
      in case env_OwnerRefError e of
           Some err \<Rightarrow> (Some err, w)
         | None \<Rightarrow>
             (let owned = service\<lparr>svc_OwnerRef := Some (inst_Name instance)\<rparr>
              in case get_service e k w of
                   (Inl err, w1) \<Rightarrow>
                     if IsNotFound err then create_service e k owned w1 else (Some err, w1)
                 | (Inr existing, w1) \<Rightarrow>
                     (let preserved = owned\<lparr>svc_Spec := (svc_Spec owned)
                                        \<lparr>ss_ClusterIP := ss_ClusterIP (svc_Spec existing)\<rparr>\<rparr>
                      in update_service e k
                           (existing\<lparr>svc_Spec := svc_Spec preserved,
                                     svc_Labels := svc_Labels preserved\<rparr>) w1)))"

subsection \<open>Reconcile\<close>

definition setInstanceStatus :: "env \<Rightarrow> DBHubInstance \<Rightarrow> string \<Rightarrow> string \<Rightarrow> DBHubInstance" where
  "setInstanceStatus e instance phase message =
     (let st = (inst_Status instance)\<lparr>ist_Phase := phase\<rparr>;
          now = env_Now e;
          cond = (if phase = DBHubInstancePhaseRunning
                  then new_condition ''Available'' ''True'' ''InstanceRunning''
                         ''DBHub instance is running'' now
                  else new_condition ''Available'' ''False'' phase message now)
      in instance\<lparr>inst_Status := st\<lparr>ist_Conditions := SetStatusCondition (ist_Conditions st) cond\<rparr>\<rparr>)"

definition observe_instance_generation :: "DBHubInstance \<Rightarrow> DBHubInstance" where
  "observe_instance_generation instance =
     (let i1 = (if ist_ObservedGeneration (inst_Status instance) \<noteq> inst_Generation instance
                then instance\<lparr>inst_Status := (inst_Status instance)
                       \<lparr>ist_ObservedGeneration := inst_Generation instance\<rparr>\<rparr>
                else instance)
      in if ist_Phase (inst_Status i1) = ''''
         then i1\<lparr>inst_Status := (inst_Status i1)\<lparr>ist_Phase := DBHubInstancePhasePending\<rparr>\<rparr>
         else i1)"

text \<open>
  The two failure paths that publish \<^verbatim>\<open>Failed\<close>: the status is written, and the
  reconcile returns the error of that write if it fails, the original error otherwise.
\<close>

definition fail_reconcile :: "env \<Rightarrow> DBHubInstance \<Rightarrow> string \<Rightarrow> error \<Rightarrow> world
    \<Rightarrow> (Result \<times> error option) \<times> world" where
  "fail_reconcile e instance message err w =
     (let failed = setInstanceStatus e instance DBHubInstancePhaseFailed message
      in case status_update_instance e failed w of
           (Some err2, w') \<Rightarrow> ((\<lparr>RequeueAfter = 0\<rparr>, Some err2), w')
         | (None, w') \<Rightarrow> ((\<lparr>RequeueAfter = 0\<rparr>, Some err), w'))"

definition reconcile_children :: "env \<Rightarrow> DBHubInstance \<Rightarrow> string \<Rightarrow> (string \<rightharpoonup> string) \<Rightarrow> string
    \<Rightarrow> world \<Rightarrow> error option \<times> world" where
  "reconcile_children e instance configData credentialsData configHash w =
     (case reconcileConfigMap e instance configData w of
        (Some err, w1) \<Rightarrow> (Some err, w1)
      | (None, w1) \<Rightarrow>
          (case reconcileCredentialsSecret e instance credentialsData w1 of
             (Some err, w2) \<Rightarrow> (Some err, w2)
           | (None, w2) \<Rightarrow>
               (case reconcileDeployment e instance configHash w2 of
                  (Some err, w3) \<Rightarrow> (Some err, w3)
                | (None, w3) \<Rightarrow> reconcileService e instance w3)))"

definition deployment_phase :: "env \<Rightarrow> DBHubInstance \<Rightarrow> Deployment \<Rightarrow> DBHubInstance" where
  "deployment_phase e instance deployment =
     (let i1 = instance\<lparr>inst_Status := (inst_Status instance)
                 \<lparr>ist_AvailableReplicas := dpst_AvailableReplicas (dep_Status deployment)\<rparr>\<rparr>
      in if 0 < sint (dpst_AvailableReplicas (dep_Status deployment))
         then setInstanceStatus e i1 DBHubInstancePhaseRunning ''''
         else if 0 < sint (dpst_UnavailableReplicas (dep_Status deployment))
         then setInstanceStatus e i1 DBHubInstancePhaseDegraded ''Some replicas are not available''
         else setInstanceStatus e i1 DBHubInstancePhasePending ''Waiting for replicas to be ready'')"

text \<open>
  The end of \<^verbatim>\<open>Reconcile\<close>: the endpoint is set, the Deployment is read for its replica
  counts (a failed read leaves phase and replicas as they are), the update time is set
  and the status is written.
\<close>

definition final_status :: "env \<Rightarrow> DBHubInstance \<Rightarrow> error + Deployment \<Rightarrow> DBHubInstance" where
  "final_status e instance r =
     (let i1 = instance\<lparr>inst_Status := (inst_Status instance)
                 \<lparr>ist_Endpoint := inst_Name instance @ serviceSuffix @ ''.''
                    @ inst_Namespace instance @ ''.svc.cluster.local:''
                    @ fmt_d32 (GetPort instance)\<rparr>\<rparr>;
          i2 = (case r of Inl err \<Rightarrow> i1 | Inr deployment \<Rightarrow> deployment_phase e i1 deployment)
      in i2\<lparr>inst_Status := (inst_Status i2)\<lparr>ist_LastConfigUpdate := Some (env_Now e)\<rparr>\<rparr>)"

definition publish_status :: "env \<Rightarrow> DBHubInstance \<Rightarrow> world \<Rightarrow> (Result \<times> error option) \<times> world" where
  "publish_status e instance w =
     (case get_deployment e (inst_Namespace instance, inst_Name instance) w of
        (r, w1) \<Rightarrow>
          (case status_update_instance e (final_status e instance r) w1 of
             (Some err, w2) \<Rightarrow> ((\<lparr>RequeueAfter = 0\<rparr>, Some err), w2)
           | (None, w2) \<Rightarrow> ((\<lparr>RequeueAfter = 0\<rparr>, None), w2)))"

text \<open>
  The part of \<^verbatim>\<open>Reconcile\<close> after the databases are selected: the connected list is
  set, then the configuration is rendered, hashed and applied.
\<close>

definition connected_names :: "Database list \<Rightarrow> string list" where
  "connected_names databases = sort (map db_Name databases)"

definition reconcile_selected :: "env \<Rightarrow> DBHubInstance \<Rightarrow> Database list \<Rightarrow> world
    \<Rightarrow> (Result \<times> error option) \<times> world" where
  "reconcile_selected e instance databases w =
     (let i1 = instance\<lparr>inst_Status := (inst_Status instance)
                 \<lparr>ist_ConnectedDatabases := connected_names databases\<rparr>\<rparr>
      in case generateConfig e i1 databases w of
           (Inl err, w1) \<Rightarrow>
             fail_reconcile e i1 (''Failed to generate config: '' @ error_text err) err w1
         | (Inr (configData, credentialsData), w1) \<Rightarrow>
             (let configHash = calculateHash configData;
                  i2 = i1\<lparr>inst_Status := (inst_Status i1)\<lparr>ist_ConfigHash := configHash\<rparr>\<rparr>
              in case reconcile_children e i2 configData credentialsData configHash w1 of
                   (Some err, w2) \<Rightarrow> ((\<lparr>RequeueAfter = 0\<rparr>, Some err), w2)
                 | (None, w2) \<Rightarrow> publish_status e i2 w2))"

definition DBHubInstanceReconciler_Reconcile :: "env \<Rightarrow> key \<Rightarrow> world \<Rightarrow> (Result \<times> error option) \<times> world" where
  "DBHubInstanceReconciler_Reconcile e req w =
     (case get_instance e req w of
        (Inl err, w1) \<Rightarrow>
          if IsNotFound err then ((\<lparr>RequeueAfter = 0\<rparr>, None), w1)
          else ((\<lparr>RequeueAfter = 0\<rparr>, Some err), w1)
      | (Inr fetched, w1) \<Rightarrow>
          (let instance = observe_instance_generation fetched
           in case findMatchingDatabases e instance w1 of
                (Inl err, w2) \<Rightarrow>
                  fail_reconcile e instance (''Failed to find databases: '' @ error_text err) err w2
              | (Inr databases, w2) \<Rightarrow> reconcile_selected e instance databases w2))"

section \<open>What the specification says of the rendered tools\<close>

text \<open>
  The lines of a rendered configuration, and how many of them equal a given line.
\<close>

fun lines_from :: "string \<Rightarrow> string \<Rightarrow> string list" where
  "lines_from cur [] = [cur]"
| "lines_from cur (c # cs) =
     (if c = CHR 0x0A then cur # lines_from [] cs else lines_from (cur @ [c]) cs)"

definition count_lines :: "string \<Rightarrow> string \<Rightarrow> nat" where
  "count_lines l text = length (filter (\<lambda>x. x = l) (lines_from [] text))"

text \<open>
  The specification (4.3, step 4): one \<^verbatim>\<open>[[tools]]\<close> block per allowed operation per
  source, each carrying the read-only and max-rows policy. Of a rendered text this asks
  at least that the blocks number operations times sources, and that a read-only policy
  and a positive \<^verbatim>\<open>maxRows\<close> show in as many lines as there are blocks.
\<close>

definition spec_tools_per_operation :: "DefaultPolicy \<Rightarrow> Database list \<Rightarrow> string \<Rightarrow> bool" where
  "spec_tools_per_operation policy databases text =
     (count_lines ''[[tools]]'' text = length (dp_AllowedOperations policy) * length databases
      \<and> (if dp_ReadOnly policy
          then count_lines ''readonly = true'' text = count_lines ''[[tools]]'' text else True)
      \<and> (if 0 < sint (dp_MaxRows policy)
          then count_lines (''max_rows = '' @ fmt_d32 (dp_MaxRows policy)) text
                 = count_lines ''[[tools]]'' text
          else True))"

text \<open>
  The block the gateway renders for an operation: the policy lines go to \<^verbatim>\<open>execute_sql\<close>
  only.
\<close>

definition tool_block :: "DefaultPolicy \<Rightarrow> Database \<Rightarrow> string \<Rightarrow> string" where
  "tool_block policy db op =
     ''[[tools]]'' @ nl @ ''name = '' @ dq @ op @ dq @ nl
       @ ''source = '' @ dq @ db_Name db @ dq @ nl
       @ (if op = ''execute_sql''
          then (if dp_ReadOnly policy then ''readonly = true'' @ nl else [])
               @ (if 0 < sint (dp_MaxRows policy)
                  then ''max_rows = '' @ fmt_d32 (dp_MaxRows policy) @ nl else [])
          else [])
       @ nl"

section \<open>Observations on the store\<close>

text \<open>
  \<open>status_written k names hash c c'\<close>: the store \<open>c'\<close> is \<open>c\<close> with the status of the
  instance stored under \<open>k\<close> replaced by one whose connected list is \<open>names\<close> and whose
  configuration hash is \<open>hash\<close>.
\<close>

definition status_written :: "key \<Rightarrow> string list \<Rightarrow> string \<Rightarrow> cluster \<Rightarrow> cluster \<Rightarrow> bool" where
  "status_written k names hash c c' =
     (\<exists>stored st. cl_Instances c k = Some stored
        \<and> ist_ConnectedDatabases st = names \<and> ist_ConfigHash st = hash
        \<and> c' = c\<lparr>cl_Instances := (cl_Instances c)(k \<mapsto> stored\<lparr>inst_Status := st\<rparr>)\<rparr>)"

text \<open>The databases a gateway selects from a store: those \<^verbatim>\<open>findMatchingDatabases\<close> keeps.\<close>

definition selected_databases :: "DBHubInstance \<Rightarrow> cluster \<Rightarrow> Database list" where
  "selected_databases instance c =
     filter (\<lambda>db. MatchesDatabase instance db \<and> dst_Phase (db_Status db) = DatabasePhaseConnected)
       (filter (\<lambda>d. db_Namespace d = inst_Namespace instance) (cl_Databases c))"

text \<open>
  \<open>applied i names cfg creds c\<close>: the store \<open>c\<close> holds what a reconcile of the instance
  \<open>i\<close> applies for the rendered configuration \<open>cfg\<close> and the credentials \<open>creds\<close>: the
  status with the connected list and the hash of \<open>cfg\<close>, the ConfigMap with \<open>cfg\<close>
  under \<^verbatim>\<open>dbhub.toml\<close>, the Secret with \<open>creds\<close>, and the Deployment whose pod template
  is labelled with the hash.
\<close>

definition applied :: "DBHubInstance \<Rightarrow> string list \<Rightarrow> string \<Rightarrow> (string \<rightharpoonup> string) \<Rightarrow> cluster \<Rightarrow> bool" where
  "applied i names cfg creds c =
     (\<exists>stored cm s d.
        cl_Instances c (inst_Namespace i, inst_Name i) = Some stored
        \<and> ist_ConnectedDatabases (inst_Status stored) = names
        \<and> ist_ConfigHash (inst_Status stored) = calculateHash cfg
        \<and> cl_ConfigMaps c (inst_Namespace i, inst_Name i @ configMapSuffix) = Some cm
        \<and> cm_Data cm = [''dbhub.toml'' \<mapsto> cfg]
        \<and> cl_Secrets c (inst_Namespace i, inst_Name i @ secretSuffix) = Some s
        \<and> sec_Data s = creds
        \<and> cl_Deployments c (inst_Namespace i, inst_Name i) = Some d
        \<and> pt_Labels (dps_Template (dep_Spec d)) ''config-hash'' = Some (calculateHash cfg))"

text \<open>
  The DSN the gateway derives for a database from the store: built from what
  \<^verbatim>\<open>getDatabaseCredentials\<close> reads in the referenced secret, if that secret is there.
\<close>

definition credentials_key :: "Database \<Rightarrow> key" where
  "credentials_key db = (GetCredentialsNamespace db, cr_Name (ds_CredentialsRef (db_Spec db)))"

definition stored_dsn :: "cluster \<Rightarrow> Database \<Rightarrow> string option" where
  "stored_dsn c db =
     (case cl_Secrets c (credentials_key db) of
        None \<Rightarrow> None
      | Some s \<Rightarrow>
          Some (DBHubInstanceReconciler_buildDSN db (go_index (sec_Data s) (GetUserKey db))
                  (go_index (sec_Data s) (GetPasswordKey db))))"

section \<open>What the specification says of the selector\<close>

text \<open>
  The selector in the words of the specification: the database is in the namespace of the
  instance and, when there is a selector, \<^verbatim>\<open>matchNames\<close> is empty or holds its name and
  every pair of \<^verbatim>\<open>matchLabels\<close> is one of its labels.
\<close>

definition spec_matches :: "DBHubInstance \<Rightarrow> Database \<Rightarrow> bool" where
  "spec_matches d db =
     (db_Namespace db = inst_Namespace d \<and>
      (case is_DatabaseSelector (inst_Spec d) of
         None \<Rightarrow> True
       | Some sel \<Rightarrow>
           (sel_MatchNames sel = [] \<or> db_Name db \<in> set (sel_MatchNames sel)) \<and>
           list_all (\<lambda>(k, v). db_Labels db k = Some v) (sel_MatchLabels sel)))"

section \<open>Sample objects\<close>

text \<open>Concrete objects on which the theorems below are instantiated.\<close>

definition sample_spec :: "string \<Rightarrow> int32 \<Rightarrow> DatabaseSpec" where
  "sample_spec ty port =
     \<lparr> ds_Type = ty, ds_Host = ''db.example.com'', ds_Port = port, ds_Database = ''orders'',
       ds_CredentialsRef = \<lparr> cr_Name = ''orders-creds'', cr_Namespace = '''',
                             cr_UserKey = '''', cr_PasswordKey = '''' \<rparr>,
       ds_ConnectionTimeout = 30, ds_QueryTimeout = 60, ds_SSLMode = ''require'',
       ds_MaxRows = 1000, ds_ReadOnly = True, ds_Description = '''' \<rparr>"

definition empty_db_status :: DatabaseStatus where
  "empty_db_status =
     \<lparr> dst_Phase = '''', dst_LastChecked = None, dst_Message = '''', dst_DSN = '''',
       dst_ObservedGeneration = 0, dst_Conditions = [] \<rparr>"

definition sample_db :: "string \<Rightarrow> string \<Rightarrow> int32 \<Rightarrow> Database" where
  "sample_db name ty port =
     \<lparr> db_Name = name, db_Namespace = ''default'', db_Labels = [''env'' \<mapsto> ''prod''],
       db_Generation = 1, db_Spec = sample_spec ty port, db_Status = empty_db_status \<rparr>"


definition empty_instance_status :: DBHubInstanceStatus where
  "empty_instance_status =
     \<lparr> ist_Phase = '''', ist_AvailableReplicas = 0, ist_ConnectedDatabases = [],
       ist_Endpoint = '''', ist_ConfigHash = '''', ist_ObservedGeneration = 0,
       ist_LastConfigUpdate = None, ist_Conditions = [] \<rparr>"

definition sample_instance_spec :: "DatabaseSelector option \<Rightarrow> DefaultPolicy option \<Rightarrow> DBHubInstanceSpec" where
  "sample_instance_spec sel pol =
     \<lparr> is_Replicas = Some 1, is_Image = ''bytebase/dbhub:latest'', is_ImagePullPolicy = '''',
       is_Transport = ''http'', is_Port = 8080, is_DatabaseSelector = sel,
       is_DefaultPolicy = pol, is_Resources = None, is_ServiceAccountName = '''',
       is_NodeSelector = None, is_Tolerations = None, is_Affinity = None \<rparr>"

definition sample_instance :: "DatabaseSelector option \<Rightarrow> DefaultPolicy option \<Rightarrow> DBHubInstance" where
  "sample_instance sel pol =
     \<lparr> inst_Name = ''gw'', inst_Namespace = ''default'', inst_Generation = 1,
       inst_Spec = sample_instance_spec sel pol, inst_Status = empty_instance_status \<rparr>"

definition prod_selector :: DatabaseSelector where
  "prod_selector = \<lparr> sel_MatchLabels = [(''env'', ''prod'')], sel_MatchNames = [''a'', ''b''] \<rparr>"

text \<open>An environment where no API call fails and every database answers the probe.\<close>

definition quiet_env :: env where
  "quiet_env =
     \<lparr> env_Faults = (\<lambda>n. None), env_Now = 1000, env_SqlOpen = (\<lambda>driver dsn. None),
       env_SqlPing = (\<lambda>driver dsn. None), env_OwnerRefError = None \<rparr>"

definition empty_cluster :: cluster where
  "empty_cluster =
     \<lparr> cl_Databases = [], cl_Instances = Map.empty, cl_Secrets = Map.empty,
       cl_ConfigMaps = Map.empty, cl_Deployments = Map.empty, cl_Services = Map.empty \<rparr>"

text \<open>
  A cluster holding one \<^verbatim>\<open>Database\<close> \<^verbatim>\<open>default/a\<close> whose \<^verbatim>\<open>credentialsRef\<close> names the
  secret \<^verbatim>\<open>orders-creds\<close>, and no secret at all.
\<close>

definition cluster_missing_secret :: cluster where
  "cluster_missing_secret = empty_cluster\<lparr>cl_Databases := [sample_db ''a'' ''postgres'' 5432]\<rparr>"

text \<open>
  A cluster with the gateway \<^verbatim>\<open>default/gw\<close> (no selector, default policy), the Databases
  \<^verbatim>\<open>a\<close> (Connected, credentials in \<^verbatim>\<open>orders-creds\<close>), \<^verbatim>\<open>b\<close> (Connected, credentials in
  \<^verbatim>\<open>partial-creds\<close>, which holds a password and no username) and \<^verbatim>\<open>c\<close> (Failed).
\<close>

definition with_phase :: "string \<Rightarrow> Database \<Rightarrow> Database" where
  "with_phase phase d = d\<lparr>db_Status := (db_Status d)\<lparr>dst_Phase := phase\<rparr>\<rparr>"

definition with_secret_name :: "string \<Rightarrow> Database \<Rightarrow> Database" where
  "with_secret_name n d =
     d\<lparr>db_Spec := (db_Spec d)\<lparr>ds_CredentialsRef := (ds_CredentialsRef (db_Spec d))\<lparr>cr_Name := n\<rparr>\<rparr>\<rparr>"

definition db_a :: Database where
  "db_a = with_phase ''Connected'' (sample_db ''a'' ''mysql'' 3306)"

definition db_b :: Database where
  "db_b = with_secret_name ''partial-creds'' (with_phase ''Connected'' (sample_db ''b'' ''mysql'' 3306))"

definition db_c :: Database where
  "db_c = with_phase ''Failed'' (sample_db ''c'' ''postgres'' 5432)"

definition user_secret :: "(string \<rightharpoonup> string) \<Rightarrow> Secret" where
  "user_secret d = \<lparr> sec_Labels = Map.empty, sec_Data = d, sec_OwnerRef = None \<rparr>"

definition gw :: DBHubInstance where
  "gw = sample_instance None (Some default_policy)"

definition sample_cluster :: cluster where
  "sample_cluster =
     empty_cluster
       \<lparr> cl_Databases := [db_b, db_c, db_a],
         cl_Instances := [(''default'', ''gw'') \<mapsto> gw],
         cl_Secrets := [(''default'', ''orders-creds'') \<mapsto>
                          user_secret [''username'' \<mapsto> ''u'', ''password'' \<mapsto> ''p''],
                        (''default'', ''partial-creds'') \<mapsto>
                          user_secret [''password'' \<mapsto> ''p2'']] \<rparr>"

definition sample_world :: world where
  "sample_world = \<lparr> w_Cluster = sample_cluster, w_Calls = 0 \<rparr>"

text \<open>
  The same cluster with a Service \<^verbatim>\<open>default/gw\<close> already there, of type \<^verbatim>\<open>NodePort\<close> and
  with the cluster IP 10.0.0.7.
\<close>

definition old_service :: Service where
  "old_service =
     \<lparr> svc_Labels = [''team'' \<mapsto> ''data''],
       svc_Spec = \<lparr> ss_Type = ''NodePort'', ss_Selector = Map.empty, ss_Ports = [],
                    ss_ClusterIP = ''10.0.0.7'' \<rparr>,
       svc_OwnerRef = Some ''gw'' \<rparr>"

definition service_world :: world where
  "service_world =
     \<lparr> w_Cluster = sample_cluster\<lparr>cl_Services := [(''default'', ''gw'') \<mapsto> old_service]\<rparr>,
       w_Calls = 0 \<rparr>"

text \<open>A selector with one label pair whose value is empty.\<close>

definition empty_value_selector :: DatabaseSelector where
  "empty_value_selector = \<lparr> sel_MatchLabels = [(''tier'', '''')], sel_MatchNames = [] \<rparr>"

text \<open>
  The sample cluster at a later time: the gateway is \<^verbatim>\<open>Running\<close> and its status still lists
  a database \<^verbatim>\<open>old\<close> that has been deleted since. In \<open>list_fault_env\<close> the second API
  call of a run, for the gateway reconcile the List of the databases, times out.
\<close>

definition stale_gw :: DBHubInstance where
  "stale_gw =
     gw\<lparr>inst_Status := empty_instance_status
          \<lparr>ist_Phase := ''Running'', ist_ConnectedDatabases := [''old'']\<rparr>\<rparr>"

definition stale_world :: world where
  "stale_world =
     \<lparr> w_Cluster = sample_cluster\<lparr>cl_Instances := [(''default'', ''gw'') \<mapsto> stale_gw]\<rparr>,
       w_Calls = 0 \<rparr>"

definition list_fault_env :: env where
  "list_fault_env =
     quiet_env\<lparr>env_Faults :=
       (\<lambda>n. if n = 1 then Some (Failure ''context deadline exceeded'') else None)\<rparr>"

text \<open>
  An environment whose seventh API call is refused. In a reconcile of the gateway of the
  sample cluster that is the Get of the derived credentials Secret, after the ConfigMap
  has been created.
\<close>

definition secret_fault_env :: env where
  "secret_fault_env =
     quiet_env\<lparr>env_Faults := (\<lambda>n. if n = 6 then Some (Failure ''forbidden'') else None)\<rparr>"

section \<open>Properties of the defaulters\<close>

lemmas db_steps = default_port_def default_ssl_mode_def default_connection_timeout_def
  default_query_timeout_def default_max_rows_def default_credential_keys_def

lemma cred_idem:
  "default_password_key (default_user_key (default_password_key (default_user_key r)))
   = default_password_key (default_user_key r)"
  by (simp add: default_user_key_def default_password_key_def)

lemma Database_Default_spec_fields:
  "ds_Type (Database_Default_spec s) = ds_Type s"
  "ds_Host (Database_Default_spec s) = ds_Host s"
  "ds_Port (Database_Default_spec s) = ds_Port (default_port s)"
  "ds_Database (Database_Default_spec s) = ds_Database s"
  "ds_CredentialsRef (Database_Default_spec s) = default_password_key (default_user_key (ds_CredentialsRef s))"
  "ds_ConnectionTimeout (Database_Default_spec s) = (if ds_ConnectionTimeout s = 0 then 30 else ds_ConnectionTimeout s)"
  "ds_QueryTimeout (Database_Default_spec s) = (if ds_QueryTimeout s = 0 then 60 else ds_QueryTimeout s)"
  "ds_SSLMode (Database_Default_spec s) = (if ds_SSLMode s = '''' then SSLModeDisable else ds_SSLMode s)"
  "ds_MaxRows (Database_Default_spec s) = (if ds_MaxRows s = 0 then 1000 else ds_MaxRows s)"
  "ds_ReadOnly (Database_Default_spec s) = ds_ReadOnly s"
  "ds_Description (Database_Default_spec s) = ds_Description s"
  "DatabaseSpec.more (Database_Default_spec s) = DatabaseSpec.more s"
  by (simp_all add: Database_Default_spec_def db_steps)

lemma default_port_port_idem: "ds_Port (default_port (Database_Default_spec s)) = ds_Port (default_port s)"
  by (simp add: default_port_def Database_Default_spec_fields)

lemma Database_Default_spec_idem: "Database_Default_spec (Database_Default_spec s) = Database_Default_spec s"
  by (rule DatabaseSpec.equality)
     (simp_all add: Database_Default_spec_fields default_port_port_idem cred_idem enum_defs)

lemma inst_steps_upd:
  "default_replicas s = s\<lparr>is_Replicas := (if is_Replicas s = None then Some 1 else is_Replicas s)\<rparr>"
  "default_image s = s\<lparr>is_Image := (if is_Image s = '''' then ''bytebase/dbhub:latest'' else is_Image s)\<rparr>"
  "default_image_pull_policy s =
     s\<lparr>is_ImagePullPolicy := (if is_ImagePullPolicy s = '''' then PullIfNotPresent else is_ImagePullPolicy s)\<rparr>"
  "default_transport s =
     s\<lparr>is_Transport := (if is_Transport s = '''' then TransportTypeHTTP else is_Transport s)\<rparr>"
  "default_instance_port s = s\<lparr>is_Port := (if is_Port s = 0 then 8080 else is_Port s)\<rparr>"
  "default_instance_resources s =
     s\<lparr>is_Resources := (if is_Resources s = None then Some default_resources else is_Resources s)\<rparr>"
  "default_instance_policy s =
     s\<lparr>is_DefaultPolicy := (if is_DefaultPolicy s = None then Some default_policy else is_DefaultPolicy s)\<rparr>"
  by (simp_all add: default_replicas_def default_image_def default_image_pull_policy_def
      default_transport_def default_instance_port_def default_instance_resources_def
      default_instance_policy_def)

lemma DBHubInstance_Default_spec_fields:
  "is_Replicas (DBHubInstance_Default_spec s) = (if is_Replicas s = None then Some 1 else is_Replicas s)"
  "is_Image (DBHubInstance_Default_spec s) = (if is_Image s = '''' then ''bytebase/dbhub:latest'' else is_Image s)"
  "is_ImagePullPolicy (DBHubInstance_Default_spec s) = (if is_ImagePullPolicy s = '''' then PullIfNotPresent else is_ImagePullPolicy s)"
  "is_Transport (DBHubInstance_Default_spec s) = (if is_Transport s = '''' then TransportTypeHTTP else is_Transport s)"
  "is_Port (DBHubInstance_Default_spec s) = (if is_Port s = 0 then 8080 else is_Port s)"
  "is_DatabaseSelector (DBHubInstance_Default_spec s) = is_DatabaseSelector s"
  "is_DefaultPolicy (DBHubInstance_Default_spec s) = (if is_DefaultPolicy s = None then Some default_policy else is_DefaultPolicy s)"
  "is_Resources (DBHubInstance_Default_spec s) = (if is_Resources s = None then Some default_resources else is_Resources s)"
  "is_ServiceAccountName (DBHubInstance_Default_spec s) = is_ServiceAccountName s"
  "is_NodeSelector (DBHubInstance_Default_spec s) = is_NodeSelector s"
  "is_Tolerations (DBHubInstance_Default_spec s) = is_Tolerations s"
  "is_Affinity (DBHubInstance_Default_spec s) = is_Affinity s"
  "DBHubInstanceSpec.more (DBHubInstance_Default_spec s) = DBHubInstanceSpec.more s"
  unfolding DBHubInstance_Default_spec_def inst_steps_upd by simp_all

lemma DBHubInstance_Default_spec_idem:
  "DBHubInstance_Default_spec (DBHubInstance_Default_spec s) = DBHubInstance_Default_spec s"
  by (rule DBHubInstanceSpec.equality)
     (simp_all add: DBHubInstance_Default_spec_fields PullIfNotPresent_def TransportTypeHTTP_def)

text \<open>
  C7. Defaulting is idempotent: applying the defaulter of \<^verbatim>\<open>Database\<close> twice gives the
  object that applying it once gives, and so does the defaulter of \<^verbatim>\<open>DBHubInstance\<close>.
\<close>

theorem C7_defaulting_idempotent:
  "Database_Default (Database_Default x) = Database_Default x \<and>
   DBHubInstance_Default (DBHubInstance_Default y) = DBHubInstance_Default y"
  by (simp add: Database_Default_def DBHubInstance_Default_def
      Database_Default_spec_idem DBHubInstance_Default_spec_idem)

text \<open>
  C8. With \<^verbatim>\<open>spec.port = 0\<close> the defaulter sets the port to 5432 for postgres, 3306 for
  mysql and mariadb, 1433 for sqlserver; a nonzero port is kept.
\<close>

theorem C8_default_port_by_type:
  "(ds_Port (db_Spec x) = 0 \<and> ds_Type (db_Spec x) = ''postgres''
      \<longrightarrow> ds_Port (db_Spec (Database_Default x)) = 5432) \<and>
   (ds_Port (db_Spec x) = 0 \<and> (ds_Type (db_Spec x) = ''mysql'' \<or> ds_Type (db_Spec x) = ''mariadb'')
      \<longrightarrow> ds_Port (db_Spec (Database_Default x)) = 3306) \<and>
   (ds_Port (db_Spec x) = 0 \<and> ds_Type (db_Spec x) = ''sqlserver''
      \<longrightarrow> ds_Port (db_Spec (Database_Default x)) = 1433) \<and>
   (ds_Port (db_Spec x) \<noteq> 0
      \<longrightarrow> ds_Port (db_Spec (Database_Default x)) = ds_Port (db_Spec x))"
  by (simp add: Database_Default_def Database_Default_spec_fields default_port_def enum_defs)

theorem C8_default_port_by_type_witness:
  "ds_Port (db_Spec (Database_Default (sample_db ''a'' ''postgres'' 0))) = 5432 \<and>
   ds_Port (db_Spec (Database_Default (sample_db ''a'' ''mysql'' 0))) = 3306 \<and>
   ds_Port (db_Spec (Database_Default (sample_db ''a'' ''mariadb'' 0))) = 3306 \<and>
   ds_Port (db_Spec (Database_Default (sample_db ''a'' ''sqlserver'' 0))) = 1433 \<and>
   ds_Port (db_Spec (Database_Default (sample_db ''a'' ''postgres'' 15432))) = 15432"
  using C8_default_port_by_type [of "sample_db ''a'' ''postgres'' 0"]
        C8_default_port_by_type [of "sample_db ''a'' ''mysql'' 0"]
        C8_default_port_by_type [of "sample_db ''a'' ''mariadb'' 0"]
        C8_default_port_by_type [of "sample_db ''a'' ''sqlserver'' 0"]
        C8_default_port_by_type [of "sample_db ''a'' ''postgres'' 15432"]
  by (simp add: sample_db_def sample_spec_def)

section \<open>Properties of selector matching\<close>

lemma match_names_found_iff: "match_names_found n names \<longleftrightarrow> n \<in> set names"
  by (induction names) auto

lemma match_labels_loop_iff:
  "match_labels_loop l kvs \<longleftrightarrow> (\<forall>(k, v) \<in> set kvs. go_index l k = v)"
  by (induction kvs) (auto split: if_splits)

text \<open>
  C5 (as amended). \<^verbatim>\<open>MatchesDatabase(d, db)\<close> holds iff \<open>db\<close> is in \<open>d\<close>'s namespace and
  either \<open>d\<close> has no selector, or both \<^verbatim>\<open>matchNames\<close> is empty or holds \<open>db\<close>'s name, and
  every key/value pair of \<^verbatim>\<open>matchLabels\<close> equals \<^verbatim>\<open>db.Labels[key]\<close>, which is the label
  of \<open>db\<close> under the key, and the empty string when \<open>db\<close> has no label under it.
\<close>

theorem C5_matches_database:
  "MatchesDatabase d db \<longleftrightarrow>
     db_Namespace db = inst_Namespace d \<and>
     (case is_DatabaseSelector (inst_Spec d) of
        None \<Rightarrow> True
      | Some sel \<Rightarrow>
          (sel_MatchNames sel = [] \<or> db_Name db \<in> set (sel_MatchNames sel)) \<and>
          (\<forall>(k, v) \<in> set (sel_MatchLabels sel).
             (case db_Labels db k of None \<Rightarrow> '''' | Some l \<Rightarrow> l) = v))"
proof -
  have idx: "\<And>k. (case db_Labels db k of None \<Rightarrow> '''' | Some l \<Rightarrow> l) = go_index (db_Labels db) k"
    by (simp add: go_index_def)
  show ?thesis
    unfolding idx
    by (auto simp: MatchesDatabase_def match_names_found_iff match_labels_loop_iff
        split: option.splits)
qed

theorem C5_matches_database_witness:
  "MatchesDatabase (sample_instance (Some prod_selector) None) (sample_db ''a'' ''postgres'' 5432) \<and>
   \<not> MatchesDatabase (sample_instance (Some prod_selector) None) (sample_db ''c'' ''postgres'' 5432) \<and>
   MatchesDatabase (sample_instance None None) (sample_db ''c'' ''postgres'' 5432) \<and>
   MatchesDatabase (sample_instance (Some empty_value_selector) None) (sample_db ''a'' ''postgres'' 5432)"
  using C5_matches_database [of "sample_instance (Some prod_selector) None" "sample_db ''a'' ''postgres'' 5432"]
        C5_matches_database [of "sample_instance (Some prod_selector) None" "sample_db ''c'' ''postgres'' 5432"]
        C5_matches_database [of "sample_instance None None" "sample_db ''c'' ''postgres'' 5432"]
        C5_matches_database [of "sample_instance (Some empty_value_selector) None" "sample_db ''a'' ''postgres'' 5432"]
  by (simp add: sample_instance_def sample_instance_spec_def prod_selector_def sample_db_def
      empty_value_selector_def)

text \<open>
  C5 as stated fails for a pair with an empty value: the selector \<^verbatim>\<open>matchLabels: {tier: ""}\<close>
  matches the database \<^verbatim>\<open>a\<close>, which has no label \<^verbatim>\<open>tier\<close> at all, so that no label of
  \<open>a\<close> equals the pair.
\<close>

theorem C5_empty_value_counterexample:
  "MatchesDatabase (sample_instance (Some empty_value_selector) None)
     (sample_db ''a'' ''postgres'' 5432) \<and>
   db_Labels (sample_db ''a'' ''postgres'' 5432) ''tier'' = None \<and>
   \<not> spec_matches (sample_instance (Some empty_value_selector) None)
       (sample_db ''a'' ''postgres'' 5432)"
  by (simp add: MatchesDatabase_def spec_matches_def go_index_def sample_instance_def
      sample_instance_spec_def empty_value_selector_def sample_db_def)

text \<open>
  When no value of \<^verbatim>\<open>matchLabels\<close> is empty, the label test is the presence of each pair
  among the labels of the database, and the code agrees with the wording of the
  specification.
\<close>

lemma go_index_present:
  "v \<noteq> [] \<Longrightarrow> go_index l k = v \<longleftrightarrow> l k = Some v"
  by (auto simp: go_index_def split: option.splits)

lemma match_labels_loop_present:
  assumes "\<forall>(k, v) \<in> set kvs. v \<noteq> []"
  shows "match_labels_loop l kvs \<longleftrightarrow> (\<forall>(k, v) \<in> set kvs. l k = Some v)"
  using assms by (induction kvs) (auto simp: go_index_present split: if_splits)

lemma MatchesDatabase_spec_matches:
  assumes "\<forall>sel. is_DatabaseSelector (inst_Spec d) = Some sel \<longrightarrow>
             (\<forall>(k, v) \<in> set (sel_MatchLabels sel). v \<noteq> [])"
  shows "MatchesDatabase d db \<longleftrightarrow> spec_matches d db"
proof (cases "is_DatabaseSelector (inst_Spec d)")
  case None
  then show ?thesis by (simp add: MatchesDatabase_def spec_matches_def)
next
  case (Some sel)
  with assms have "\<forall>(k, v) \<in> set (sel_MatchLabels sel). v \<noteq> []" by simp
  from match_labels_loop_present [OF this] Some show ?thesis
    by (auto simp: MatchesDatabase_def spec_matches_def match_names_found_iff list_all_iff)
qed

section \<open>Properties of the connection strings\<close>

lemma tls_flag_spec:
  "tls_flag spec = (if ds_SSLMode spec \<in> {''require'', ''verify-ca'', ''verify-full''} then ''true'' else ''false'')"
  by (simp add: tls_flag_def enum_defs)

text \<open>
  C3 (as amended). For a Database of type mysql or mariadb and any username and password,
  the database reconciler's full DSN is
  \<^verbatim>\<open><u>:<p>@tcp(<h>:<port>)/<db>?tls=<t>&timeout=<connectionTimeout>s\<close>, and the gateway
  reconciler's DSN is \<^verbatim>\<open><u>:<p>@tcp(<h>:<port>)/<db>?tls=<t>\<close>, without the timeout
  parameter; in both \<^verbatim>\<open>tls\<close> is true iff the SSL mode is require, verify-ca or verify-full.
\<close>

theorem C3_mysql_dsn:
  assumes "ds_Type (db_Spec db) = ''mysql'' \<or> ds_Type (db_Spec db) = ''mariadb''"
  shows "fst (DatabaseReconciler_buildDSN db u p) = spec_mysql_dsn db u p \<and>
         DBHubInstanceReconciler_buildDSN db u p =
           u @ '':'' @ p @ ''@tcp('' @ ds_Host (db_Spec db) @ '':'' @ fmt_d32 (ds_Port (db_Spec db))
             @ '')/'' @ ds_Database (db_Spec db)
             @ ''?tls='' @ (if ds_SSLMode (db_Spec db) \<in> {''require'', ''verify-ca'', ''verify-full''}
                            then ''true'' else ''false'')"
  using assms
  by (auto simp: DatabaseReconciler_buildDSN_def DBHubInstanceReconciler_buildDSN_def
      spec_mysql_dsn_def tls_flag_spec Let_def enum_defs)

lemma fmt_3306: "fmt_d32 3306 = ''3306''"
  by code_simp

lemma fmt_30: "fmt_d32 30 = ''30''"
  by code_simp

theorem C3_mysql_dsn_witness:
  "fst (DatabaseReconciler_buildDSN (sample_db ''a'' ''mysql'' 3306) ''u'' ''p'')
     = ''u:p@tcp(db.example.com:3306)/orders?tls=true&timeout=30s'' \<and>
   DBHubInstanceReconciler_buildDSN (sample_db ''a'' ''mysql'' 3306) ''u'' ''p''
     = ''u:p@tcp(db.example.com:3306)/orders?tls=true''"
  using C3_mysql_dsn [of "sample_db ''a'' ''mysql'' 3306" "''u''" "''p''"]
  by (simp add: sample_db_def sample_spec_def spec_mysql_dsn_def fmt_3306 fmt_30)

text \<open>
  C3 as stated fails for the gateway reconciler: its DSN for a mysql Database lacks the
  \<^verbatim>\<open>&timeout=<connectionTimeout>s\<close> suffix.
\<close>

theorem C3_gateway_dsn_counterexample:
  "DBHubInstanceReconciler_buildDSN (sample_db ''a'' ''mysql'' 3306) ''u'' ''p''
     \<noteq> spec_mysql_dsn (sample_db ''a'' ''mysql'' 3306) ''u'' ''p''"
  by (simp add: DBHubInstanceReconciler_buildDSN_def spec_mysql_dsn_def tls_flag_def
      sample_db_def sample_spec_def enum_defs Let_def)

section \<open>Properties of the database reconciler\<close>

lemma api_read_cluster: "api_read e look what w = (r, w') \<Longrightarrow> w_Cluster w' = w_Cluster w"
  by (auto simp: api_read_def tick_def split: option.splits)

lemma get_database_cluster: "get_database e k w = (r, w') \<Longrightarrow> w_Cluster w' = w_Cluster w"
  unfolding get_database_def by (rule api_read_cluster)

lemma get_secret_cluster: "get_secret e k w = (r, w') \<Longrightarrow> w_Cluster w' = w_Cluster w"
  unfolding get_secret_def by (rule api_read_cluster)

lemma getCredentials_cluster: "getCredentials e d w = (r, w') \<Longrightarrow> w_Cluster w' = w_Cluster w"
  by (auto simp: getCredentials_def Let_def split: prod.splits sum.splits option.splits
      dest: get_secret_cluster)

text \<open>
  Whenever the database reconciler fails to read the credentials it requeues after the
  health-check interval without an error, and leaves the store as it found it: the
  \<^verbatim>\<open>Failed\<close> phase is set on the in-memory object only.
\<close>

lemma Reconcile_credentials_failure:
  assumes "get_database e req w = (Inr d, w1)"
    and "getCredentials e (observe_generation d) w1 = (Inl err, w2)"
  shows "DatabaseReconciler_Reconcile e req w = ((\<lparr>RequeueAfter = HealthCheckInterval\<rparr>, None), w2)
         \<and> w_Cluster w2 = w_Cluster w"
  using assms get_database_cluster [OF assms(1)] getCredentials_cluster [OF assms(2)]
  by (simp add: DatabaseReconciler_Reconcile_def Let_def)

lemma get_database_missing_secret:
  "get_database quiet_env (''default'', ''a'') \<lparr>w_Cluster = cluster_missing_secret, w_Calls = 0\<rparr>
     = (Inr (sample_db ''a'' ''postgres'' 5432), \<lparr>w_Cluster = cluster_missing_secret, w_Calls = 1\<rparr>)"
  by (simp add: get_database_def api_read_def quiet_env_def cluster_missing_secret_def
      empty_cluster_def tick_def db_key_def sample_db_def)

lemma getCredentials_missing_secret:
  "getCredentials quiet_env (observe_generation (sample_db ''a'' ''postgres'' 5432))
       \<lparr>w_Cluster = cluster_missing_secret, w_Calls = 1\<rparr>
     = (Inl (NotFound ''failed to get secret default/orders-creds: secret not found''),
        \<lparr>w_Cluster = cluster_missing_secret, w_Calls = 2\<rparr>)"
  by (simp add: getCredentials_def get_secret_def api_read_def quiet_env_def
      cluster_missing_secret_def empty_cluster_def tick_def observe_generation_def
      GetCredentialsNamespace_def sample_db_def sample_spec_def Let_def)

text \<open>
  C2. At a \<^verbatim>\<open>Database\<close> whose credentials secret is missing, the reconcile returns
  \<^verbatim>\<open>RequeueAfter\<close> = 5 minutes and no error, but the stored object is untouched: its
  \<^verbatim>\<open>status.phase\<close> is still empty, not \<^verbatim>\<open>Failed\<close>, and it has no condition and no message.
\<close>

theorem C2_missing_secret_status_not_persisted:
  "DatabaseReconciler_Reconcile quiet_env (''default'', ''a'')
       \<lparr>w_Cluster = cluster_missing_secret, w_Calls = 0\<rparr>
     = ((\<lparr>RequeueAfter = 300\<rparr>, None), \<lparr>w_Cluster = cluster_missing_secret, w_Calls = 2\<rparr>) \<and>
   map db_Status (cl_Databases cluster_missing_secret) = [empty_db_status] \<and>
   dst_Phase empty_db_status \<noteq> DatabasePhaseFailed"
  using Reconcile_credentials_failure [OF get_database_missing_secret getCredentials_missing_secret]
  by (simp add: HealthCheckInterval_def cluster_missing_secret_def empty_cluster_def
      sample_db_def empty_db_status_def DatabasePhaseFailed_def)

section \<open>Properties of the rendered configuration\<close>

lemma sources_loop_builder:
  "sources_loop e dbs b c w = (Inr (b', c'), w') \<Longrightarrow> b' = b @ concat (map source_entry dbs)"
proof (induction dbs arbitrary: b c w)
  case Nil
  then show ?case by simp
next
  case (Cons db dbs)
  from Cons.prems obtain u p w1 where
    "sources_loop e dbs (b @ source_entry db)
       (c(envName (db_Name db) @ ''_DSN'' \<mapsto> DBHubInstanceReconciler_buildDSN db u p)) w1
     = (Inr (b', c'), w')"
    by (auto simp: Let_def split: prod.splits sum.splits)
  from Cons.IH [OF this] show ?case by simp
qed

lemma tools_loop_builder:
  "tools_loop policy dbs b
     = b @ concat (map (\<lambda>db. execute_sql_tool policy db @ search_objects_tool db) dbs)"
  by (induction dbs arbitrary: b) simp_all

lemma default_tool_blocks:
  "execute_sql_tool policy db @ search_objects_tool db
     = concat (map (tool_block policy db) [''execute_sql'', ''search_objects''])"
  by (simp add: execute_sql_tool_def search_objects_tool_def tool_block_def Let_def)

text \<open>
  C1 (as amended). For an instance whose \<^verbatim>\<open>defaultPolicy\<close> is set and lists the
  operations \<^verbatim>\<open>execute_sql\<close> and \<^verbatim>\<open>search_objects\<close>, and a non-empty list of selected
  databases whose credentials can be read, \<^verbatim>\<open>generateConfig\<close> renders the source
  entries followed, source by source, by one \<^verbatim>\<open>[[tools]]\<close> block per listed operation;
  the \<^verbatim>\<open>execute_sql\<close> block carries \<^verbatim>\<open>readonly = true\<close> when the policy is read-only and
  \<^verbatim>\<open>max_rows\<close> when \<^verbatim>\<open>maxRows\<close> is positive, the \<^verbatim>\<open>search_objects\<close> block carries name
  and source only.
\<close>

theorem C1_tools_blocks:
  assumes "is_DefaultPolicy (inst_Spec instance) = Some policy"
    and "dp_AllowedOperations policy = [''execute_sql'', ''search_objects'']"
    and "databases \<noteq> []"
    and "generateConfig e instance databases w = (Inr (text, credentials), w')"
  shows "text = concat (map source_entry databases)
           @ concat (map (\<lambda>db. concat (map (tool_block policy db) (dp_AllowedOperations policy)))
               databases)"
proof -
  obtain b where b: "sources_loop e databases [] Map.empty w = (Inr (b, credentials), w')"
    and t: "text = tools_loop policy databases b"
    using assms(1,3,4)
    by (auto simp: generateConfig_def split: prod.splits sum.splits if_splits)
  from sources_loop_builder [OF b] have "b = concat (map source_entry databases)" by simp
  with t show ?thesis
    by (simp add: tools_loop_builder default_tool_blocks assms(2))
qed

text \<open>
  C1 as stated fails already at the default policy (read-only, 1000 rows, operations
  \<^verbatim>\<open>execute_sql\<close> and \<^verbatim>\<open>search_objects\<close>) and one source: two \<^verbatim>\<open>[[tools]]\<close> blocks are
  rendered, but the policy lines appear once, in the \<^verbatim>\<open>execute_sql\<close> block only.
\<close>

theorem C1_tools_policy_counterexample:
  "case fst (generateConfig quiet_env gw [db_a] sample_world) of
     Inl err \<Rightarrow> False
   | Inr (text, credentials) \<Rightarrow>
       count_lines ''[[tools]]'' text = 2 \<and> count_lines ''readonly = true'' text = 1 \<and>
       count_lines ''max_rows = 1000'' text = 1 \<and>
       \<not> spec_tools_per_operation default_policy [db_a] text"
  by code_simp

lemma generateConfig_sample_ok:
  "isl (fst (generateConfig quiet_env gw [db_a] sample_world)) = False"
  by code_simp

lemma rendered_sample:
  "concat (map source_entry [db_a])
     @ concat (map (\<lambda>db. concat (map (tool_block default_policy db)
                 (dp_AllowedOperations default_policy))) [db_a])
   = ''[[sources]]'' @ nl @ ''id = '' @ dq @ ''a'' @ dq @ nl
       @ ''dsn = '' @ dq @ ''${A_DSN}'' @ dq @ nl
       @ ''connection_timeout = 30'' @ nl @ ''query_timeout = 60'' @ nl @ nl
       @ ''[[tools]]'' @ nl @ ''name = '' @ dq @ ''execute_sql'' @ dq @ nl
       @ ''source = '' @ dq @ ''a'' @ dq @ nl
       @ ''readonly = true'' @ nl @ ''max_rows = 1000'' @ nl @ nl
       @ ''[[tools]]'' @ nl @ ''name = '' @ dq @ ''search_objects'' @ dq @ nl
       @ ''source = '' @ dq @ ''a'' @ dq @ nl @ nl"
  by code_simp

theorem C1_tools_blocks_witness:
  "map_sum id fst (fst (generateConfig quiet_env gw [db_a] sample_world))
   = Inr (''[[sources]]'' @ nl @ ''id = '' @ dq @ ''a'' @ dq @ nl
       @ ''dsn = '' @ dq @ ''${A_DSN}'' @ dq @ nl
       @ ''connection_timeout = 30'' @ nl @ ''query_timeout = 60'' @ nl @ nl
       @ ''[[tools]]'' @ nl @ ''name = '' @ dq @ ''execute_sql'' @ dq @ nl
       @ ''source = '' @ dq @ ''a'' @ dq @ nl
       @ ''readonly = true'' @ nl @ ''max_rows = 1000'' @ nl @ nl
       @ ''[[tools]]'' @ nl @ ''name = '' @ dq @ ''search_objects'' @ dq @ nl
       @ ''source = '' @ dq @ ''a'' @ dq @ nl @ nl)"
proof -
  obtain cfg credentials w' where
    g: "generateConfig quiet_env gw [db_a] sample_world = (Inr (cfg, credentials), w')"
    using generateConfig_sample_ok
    by (cases "generateConfig quiet_env gw [db_a] sample_world";
        cases "fst (generateConfig quiet_env gw [db_a] sample_world)") auto
  have p: "is_DefaultPolicy (inst_Spec gw) = Some default_policy"
    by (simp add: gw_def sample_instance_def sample_instance_spec_def)
  have a: "dp_AllowedOperations default_policy = [''execute_sql'', ''search_objects'']"
    by (simp add: default_policy_def)
  have n: "[db_a] \<noteq> []" by simp
  from C1_tools_blocks [OF p a n g] rendered_sample g show ?thesis by simp
qed

section \<open>Properties of the child Service\<close>


lemma api_read_ok:
  "api_read e look what w = (Inr x, w') \<Longrightarrow> look (w_Cluster w) = Some x"
  by (auto simp: api_read_def split: option.splits)

lemma api_write_cases:
  assumes "api_write e upd w = (r, w')"
  shows "(r \<noteq> None \<and> w_Cluster w' = w_Cluster w) \<or>
         (r = None \<and> upd (w_Cluster w) = Inr (w_Cluster w'))"
proof (cases "env_Faults e (w_Calls w)")
  case None
  then show ?thesis
    using assms by (cases "upd (w_Cluster w)") (auto simp: api_write_def tick_def)
next
  case (Some err)
  with assms have "r = Some err" and "w' = tick w"
    by (simp_all add: api_write_def)
  then show ?thesis by (simp add: tick_def)
qed

lemma create_in_Inr: "create_in m k x = Inr m' \<Longrightarrow> m k = None \<and> m' = m(k \<mapsto> x)"
  by (auto simp: create_in_def split: option.splits)

lemma update_in_Inr: "update_in m k x = Inr m' \<Longrightarrow> m k \<noteq> None \<and> m' = m(k \<mapsto> x)"
  by (auto simp: update_in_def split: option.splits)

lemma put_services_Inr: "put_services c r = Inr c' \<Longrightarrow> \<exists>m. r = Inr m \<and> c' = c\<lparr>cl_Services := m\<rparr>"
  by (auto simp: put_services_def split: sum.splits)

lemma create_service_cases:
  assumes "create_service e k x w = (r, w')"
  shows "(r \<noteq> None \<and> w_Cluster w' = w_Cluster w) \<or>
         (r = None \<and> cl_Services (w_Cluster w) k = None
           \<and> w_Cluster w' = (w_Cluster w)\<lparr>cl_Services := (cl_Services (w_Cluster w))(k \<mapsto> x)\<rparr>)"
  using api_write_cases [OF assms [unfolded create_service_def]]
  by (auto dest!: put_services_Inr create_in_Inr)

lemma update_service_cases:
  assumes "update_service e k x w = (r, w')"
  shows "(r \<noteq> None \<and> w_Cluster w' = w_Cluster w) \<or>
         (r = None \<and> cl_Services (w_Cluster w) k \<noteq> None
           \<and> w_Cluster w' = (w_Cluster w)\<lparr>cl_Services := (cl_Services (w_Cluster w))(k \<mapsto> x)\<rparr>)"
  using api_write_cases [OF assms [unfolded update_service_def]]
  by (auto dest!: put_services_Inr update_in_Inr)

lemma get_service_cluster: "get_service e k w = (r, w') \<Longrightarrow> w_Cluster w' = w_Cluster w"
  unfolding get_service_def by (rule api_read_cluster)

lemma get_service_ok: "get_service e k w = (Inr x, w') \<Longrightarrow> cl_Services (w_Cluster w) k = Some x"
  unfolding get_service_def by (drule api_read_ok) simp

text \<open>The Service that the update path of \<^verbatim>\<open>reconcileService\<close> writes over \<open>existing\<close>.\<close>

lemma reconcileService_existing:
  assumes ex: "cl_Services (w_Cluster w) (inst_Namespace instance, inst_Name instance @ serviceSuffix)
                 = Some existing"
    and run: "reconcileService e instance w = (r, w')"
  shows "w_Cluster w' = w_Cluster w \<or>
         (r = None \<and>
          w_Cluster w' = (w_Cluster w)\<lparr>cl_Services := (cl_Services (w_Cluster w))
            ((inst_Namespace instance, inst_Name instance @ serviceSuffix) \<mapsto>
              existing\<lparr>svc_Spec := (svc_Spec (desired_service instance))
                                    \<lparr>ss_ClusterIP := ss_ClusterIP (svc_Spec existing)\<rparr>,
                       svc_Labels := instance_labels instance\<rparr>)\<rparr>)"
proof (cases "env_OwnerRefError e")
  case (Some err)
  with run show ?thesis by (simp add: reconcileService_def Let_def)
next
  case None
  let ?k = "(inst_Namespace instance, inst_Name instance @ serviceSuffix)"
  obtain g w1 where g: "get_service e ?k w = (g, w1)" by (cases "get_service e ?k w")
  have c1: "w_Cluster w1 = w_Cluster w" using get_service_cluster [OF g] .
  show ?thesis
  proof (cases g)
    case (Inl err)
    show ?thesis
    proof (cases "IsNotFound err")
      case True
      with run None g Inl have "create_service e ?k
          ((desired_service instance)\<lparr>svc_OwnerRef := Some (inst_Name instance)\<rparr>) w1 = (r, w')"
        by (simp add: reconcileService_def Let_def)
      from create_service_cases [OF this] ex c1 show ?thesis by auto
    next
      case False
      with run None g Inl c1 show ?thesis by (simp add: reconcileService_def Let_def)
    qed
  next
    case (Inr found)
    with g have "cl_Services (w_Cluster w) ?k = Some found" by (simp add: get_service_ok)
    with ex have f: "found = existing" by simp
    with run None g Inr have "update_service e ?k
        (existing\<lparr>svc_Spec := (svc_Spec (desired_service instance))
                              \<lparr>ss_ClusterIP := ss_ClusterIP (svc_Spec existing)\<rparr>,
                 svc_Labels := instance_labels instance\<rparr>) w1 = (r, w')"
      by (simp add: reconcileService_def Let_def desired_service_def)
    from update_service_cases [OF this] c1 show ?thesis by auto
  qed
qed

lemma reconcileService_existing_no_fault:
  assumes ex: "cl_Services (w_Cluster w) (inst_Namespace instance, inst_Name instance @ serviceSuffix)
                 = Some existing"
    and "env_OwnerRefError e = None"
    and "env_Faults e (w_Calls w) = None"
    and "env_Faults e (Suc (w_Calls w)) = None"
  shows "fst (reconcileService e instance w) = None \<and>
         cl_Services (w_Cluster (snd (reconcileService e instance w)))
             (inst_Namespace instance, inst_Name instance @ serviceSuffix)
           = Some (existing\<lparr>svc_Spec := (svc_Spec (desired_service instance))
                                    \<lparr>ss_ClusterIP := ss_ClusterIP (svc_Spec existing)\<rparr>,
                       svc_Labels := instance_labels instance\<rparr>)"
  using assms
  by (simp add: reconcileService_def Let_def get_service_def api_read_def update_service_def
      api_write_def put_services_def update_in_def tick_def desired_service_def)

text \<open>
  C9. When \<^verbatim>\<open>reconcileService\<close> runs on an existing child Service, the stored Service
  keeps its \<^verbatim>\<open>clusterIP\<close> whatever the outcome; and when the read and the update go
  through, the stored Service is the one read with its spec replaced by the desired spec
  carrying the existing \<^verbatim>\<open>clusterIP\<close>, and its labels replaced by the desired labels.
\<close>

theorem C9_service_update_preserves_clusterIP:
  assumes "cl_Services (w_Cluster w) (inst_Namespace instance, inst_Name instance @ serviceSuffix)
             = Some existing"
  shows "(\<exists>svc. cl_Services (w_Cluster (snd (reconcileService e instance w)))
                  (inst_Namespace instance, inst_Name instance @ serviceSuffix) = Some svc
               \<and> ss_ClusterIP (svc_Spec svc) = ss_ClusterIP (svc_Spec existing)) \<and>
         (env_OwnerRefError e = None \<and> env_Faults e (w_Calls w) = None
            \<and> env_Faults e (Suc (w_Calls w)) = None \<longrightarrow>
          fst (reconcileService e instance w) = None \<and>
          cl_Services (w_Cluster (snd (reconcileService e instance w)))
              (inst_Namespace instance, inst_Name instance @ serviceSuffix)
            = Some (existing\<lparr>svc_Spec := (svc_Spec (desired_service instance))
                                     \<lparr>ss_ClusterIP := ss_ClusterIP (svc_Spec existing)\<rparr>,
                        svc_Labels := instance_labels instance\<rparr>))"
proof -
  have run: "reconcileService e instance w
               = (fst (reconcileService e instance w), snd (reconcileService e instance w))"
    by simp
  from reconcileService_existing [OF assms run] assms
  have "\<exists>svc. cl_Services (w_Cluster (snd (reconcileService e instance w)))
                  (inst_Namespace instance, inst_Name instance @ serviceSuffix) = Some svc
               \<and> ss_ClusterIP (svc_Spec svc) = ss_ClusterIP (svc_Spec existing)"
    by auto
  with reconcileService_existing_no_fault [OF assms] show ?thesis by blast
qed

theorem C9_service_update_preserves_clusterIP_witness:
  "fst (reconcileService quiet_env gw service_world) = None \<and>
   map_option (\<lambda>s. (ss_ClusterIP (svc_Spec s), ss_Type (svc_Spec s), svc_Labels s ''team''))
     (cl_Services (w_Cluster (snd (reconcileService quiet_env gw service_world))) (''default'', ''gw''))
   = Some (''10.0.0.7'', ''ClusterIP'', None)"
proof -
  have ex: "cl_Services (w_Cluster service_world) (inst_Namespace gw, inst_Name gw @ serviceSuffix)
              = Some old_service"
    by (simp add: service_world_def gw_def sample_instance_def serviceSuffix_def)
  have k: "(inst_Namespace gw, inst_Name gw @ serviceSuffix) = (''default'', ''gw'')"
    by (simp add: gw_def sample_instance_def serviceSuffix_def)
  have q: "env_OwnerRefError quiet_env = None \<and> env_Faults quiet_env (w_Calls service_world) = None
           \<and> env_Faults quiet_env (Suc (w_Calls service_world)) = None"
    by (simp add: quiet_env_def)
  from C9_service_update_preserves_clusterIP [OF ex, of quiet_env] q k
  show ?thesis
    by (simp add: old_service_def desired_service_def instance_labels_def labelApp_def
        labelInstance_def labelComponent_def labelManagedBy_def Let_def)
qed

section \<open>Properties of the child reconciles\<close>

lemma put_configmaps_Inr:
  "put_configmaps c r = Inr c' \<Longrightarrow> \<exists>m. r = Inr m \<and> c' = c\<lparr>cl_ConfigMaps := m\<rparr>"
  by (auto simp: put_configmaps_def split: sum.splits)

lemma put_secrets_Inr:
  "put_secrets c r = Inr c' \<Longrightarrow> \<exists>m. r = Inr m \<and> c' = c\<lparr>cl_Secrets := m\<rparr>"
  by (auto simp: put_secrets_def split: sum.splits)

lemma put_deployments_Inr:
  "put_deployments c r = Inr c' \<Longrightarrow> \<exists>m. r = Inr m \<and> c' = c\<lparr>cl_Deployments := m\<rparr>"
  by (auto simp: put_deployments_def split: sum.splits)

lemma write_configmap_cases:
  assumes "create_configmap e k x w = (r, w') \<or> update_configmap e k x w = (r, w')"
  shows "(r \<noteq> None \<and> w_Cluster w' = w_Cluster w) \<or>
         (r = None \<and> w_Cluster w' = (w_Cluster w)\<lparr>cl_ConfigMaps := (cl_ConfigMaps (w_Cluster w))(k \<mapsto> x)\<rparr>)"
  using assms
  by (auto simp: create_configmap_def update_configmap_def
      dest!: api_write_cases put_configmaps_Inr create_in_Inr update_in_Inr)

lemma write_secret_cases:
  assumes "create_secret e k x w = (r, w') \<or> update_secret e k x w = (r, w')"
  shows "(r \<noteq> None \<and> w_Cluster w' = w_Cluster w) \<or>
         (r = None \<and> w_Cluster w' = (w_Cluster w)\<lparr>cl_Secrets := (cl_Secrets (w_Cluster w))(k \<mapsto> x)\<rparr>)"
  using assms
  by (auto simp: create_secret_def update_secret_def
      dest!: api_write_cases put_secrets_Inr create_in_Inr update_in_Inr)

lemma write_deployment_cases:
  assumes "create_deployment e k x w = (r, w') \<or> update_deployment e k x w = (r, w')"
  shows "(r \<noteq> None \<and> w_Cluster w' = w_Cluster w) \<or>
         (r = None \<and> w_Cluster w' = (w_Cluster w)\<lparr>cl_Deployments := (cl_Deployments (w_Cluster w))(k \<mapsto> x)\<rparr>)"
  using assms
  by (auto simp: create_deployment_def update_deployment_def
      dest!: api_write_cases put_deployments_Inr create_in_Inr update_in_Inr)

lemma write_service_cases:
  assumes "create_service e k x w = (r, w') \<or> update_service e k x w = (r, w')"
  shows "(r \<noteq> None \<and> w_Cluster w' = w_Cluster w) \<or>
         (r = None \<and> w_Cluster w' = (w_Cluster w)\<lparr>cl_Services := (cl_Services (w_Cluster w))(k \<mapsto> x)\<rparr>)"
  using assms create_service_cases update_service_cases by blast

lemma get_configmap_cluster: "get_configmap e k w = (r, w') \<Longrightarrow> w_Cluster w' = w_Cluster w"
  unfolding get_configmap_def by (rule api_read_cluster)

lemma get_deployment_cluster: "get_deployment e k w = (r, w') \<Longrightarrow> w_Cluster w' = w_Cluster w"
  unfolding get_deployment_def by (rule api_read_cluster)

text \<open>
  What each child reconcile leaves behind: either an error and the store as it was, or no
  error and the store with one object written, whose payload is the desired one.
\<close>

lemma reconcileConfigMap_result:
  assumes run: "reconcileConfigMap e instance configData w = (r, w')"
  shows "(r \<noteq> None \<and> w_Cluster w' = w_Cluster w) \<or>
         (r = None \<and> (\<exists>cm. cm_Data cm = [''dbhub.toml'' \<mapsto> configData] \<and>
            w_Cluster w' = (w_Cluster w)\<lparr>cl_ConfigMaps := (cl_ConfigMaps (w_Cluster w))
              ((inst_Namespace instance, inst_Name instance @ configMapSuffix) \<mapsto> cm)\<rparr>))"
proof (cases "env_OwnerRefError e")
  case (Some err)
  with run have "r = Some err" "w' = w" by (auto simp: reconcileConfigMap_def Let_def)
  then show ?thesis by simp
next
  case None
  let ?k = "(inst_Namespace instance, inst_Name instance @ configMapSuffix)"
  obtain g w1 where g: "get_configmap e ?k w = (g, w1)" by (cases "get_configmap e ?k w")
  have c1: "w_Cluster w1 = w_Cluster w" using get_configmap_cluster [OF g] .
  show ?thesis
  proof (cases g)
    case (Inl err)
    show ?thesis
    proof (cases "IsNotFound err")
      case True
      with run None g Inl obtain x where
        "create_configmap e ?k x w1 = (r, w')" "cm_Data x = [''dbhub.toml'' \<mapsto> configData]"
        by (simp add: reconcileConfigMap_def Let_def)
      with write_configmap_cases [of e ?k x w1 r w'] c1 show ?thesis by auto
    next
      case False
      with run None g Inl have "r = Some err" "w' = w1" by (auto simp: reconcileConfigMap_def Let_def)
      with c1 show ?thesis by simp
    qed
  next
    case (Inr existing)
    with run None g obtain x where
      "update_configmap e ?k x w1 = (r, w')" "cm_Data x = [''dbhub.toml'' \<mapsto> configData]"
      by (simp add: reconcileConfigMap_def Let_def)
    with write_configmap_cases [of e ?k x w1 r w'] c1 show ?thesis by auto
  qed
qed

lemma reconcileCredentialsSecret_result:
  assumes run: "reconcileCredentialsSecret e instance credentials w = (r, w')"
  shows "(r \<noteq> None \<and> w_Cluster w' = w_Cluster w) \<or>
         (r = None \<and> (\<exists>s. sec_Data s = credentials \<and>
            w_Cluster w' = (w_Cluster w)\<lparr>cl_Secrets := (cl_Secrets (w_Cluster w))
              ((inst_Namespace instance, inst_Name instance @ secretSuffix) \<mapsto> s)\<rparr>))"
proof (cases "env_OwnerRefError e")
  case (Some err)
  with run have "r = Some err" "w' = w" by (auto simp: reconcileCredentialsSecret_def Let_def)
  then show ?thesis by simp
next
  case None
  let ?k = "(inst_Namespace instance, inst_Name instance @ secretSuffix)"
  obtain g w1 where g: "get_secret e ?k w = (g, w1)" by (cases "get_secret e ?k w")
  have c1: "w_Cluster w1 = w_Cluster w" using get_secret_cluster [OF g] .
  show ?thesis
  proof (cases g)
    case (Inl err)
    show ?thesis
    proof (cases "IsNotFound err")
      case True
      with run None g Inl obtain x where
        "create_secret e ?k x w1 = (r, w')" "sec_Data x = credentials"
        by (simp add: reconcileCredentialsSecret_def Let_def)
      with write_secret_cases [of e ?k x w1 r w'] c1 show ?thesis by auto
    next
      case False
      with run None g Inl have "r = Some err" "w' = w1" by (auto simp: reconcileCredentialsSecret_def Let_def)
      with c1 show ?thesis by simp
    qed
  next
    case (Inr existing)
    with run None g obtain x where
      "update_secret e ?k x w1 = (r, w')" "sec_Data x = credentials"
      by (simp add: reconcileCredentialsSecret_def Let_def)
    with write_secret_cases [of e ?k x w1 r w'] c1 show ?thesis by auto
  qed
qed

lemma reconcileDeployment_result:
  assumes run: "reconcileDeployment e instance configHash w = (r, w')"
  shows "(r \<noteq> None \<and> w_Cluster w' = w_Cluster w) \<or>
         (r = None \<and> (\<exists>d. dep_Spec d = dep_Spec (desired_deployment instance configHash) \<and>
            w_Cluster w' = (w_Cluster w)\<lparr>cl_Deployments := (cl_Deployments (w_Cluster w))
              ((inst_Namespace instance, inst_Name instance) \<mapsto> d)\<rparr>))"
proof (cases "env_OwnerRefError e")
  case (Some err)
  with run have "r = Some err" "w' = w" by (auto simp: reconcileDeployment_def Let_def)
  then show ?thesis by simp
next
  case None
  let ?k = "(inst_Namespace instance, inst_Name instance)"
  obtain g w1 where g: "get_deployment e ?k w = (g, w1)" by (cases "get_deployment e ?k w")
  have c1: "w_Cluster w1 = w_Cluster w" using get_deployment_cluster [OF g] .
  show ?thesis
  proof (cases g)
    case (Inl err)
    show ?thesis
    proof (cases "IsNotFound err")
      case True
      with run None g Inl obtain x where
        "create_deployment e ?k x w1 = (r, w')"
        "dep_Spec x = dep_Spec (desired_deployment instance configHash)"
        by (simp add: reconcileDeployment_def Let_def)
      with write_deployment_cases [of e ?k x w1 r w'] c1 show ?thesis by auto
    next
      case False
      with run None g Inl have "r = Some err" "w' = w1" by (auto simp: reconcileDeployment_def Let_def)
      with c1 show ?thesis by simp
    qed
  next
    case (Inr existing)
    with run None g obtain x where
      "update_deployment e ?k x w1 = (r, w')"
      "dep_Spec x = dep_Spec (desired_deployment instance configHash)"
      by (simp add: reconcileDeployment_def Let_def)
    with write_deployment_cases [of e ?k x w1 r w'] c1 show ?thesis by auto
  qed
qed

lemma reconcileService_result:
  assumes run: "reconcileService e instance w = (r, w')"
  shows "(r \<noteq> None \<and> w_Cluster w' = w_Cluster w) \<or>
         (r = None \<and> (\<exists>m. w_Cluster w' = (w_Cluster w)\<lparr>cl_Services := m\<rparr>))"
proof (cases "env_OwnerRefError e")
  case (Some err)
  with run have "r = Some err" "w' = w" by (auto simp: reconcileService_def Let_def)
  then show ?thesis by simp
next
  case None
  let ?k = "(inst_Namespace instance, inst_Name instance @ serviceSuffix)"
  obtain g w1 where g: "get_service e ?k w = (g, w1)" by (cases "get_service e ?k w")
  have c1: "w_Cluster w1 = w_Cluster w" using get_service_cluster [OF g] .
  show ?thesis
  proof (cases g)
    case (Inl err)
    show ?thesis
    proof (cases "IsNotFound err")
      case True
      with run None g Inl obtain x where "create_service e ?k x w1 = (r, w')"
        by (simp add: reconcileService_def Let_def)
      with write_service_cases [of e ?k x w1 r w'] c1 show ?thesis by auto
    next
      case False
      with run None g Inl have "r = Some err" "w' = w1" by (auto simp: reconcileService_def Let_def)
      with c1 show ?thesis by simp
    qed
  next
    case (Inr existing)
    with run None g obtain x where "update_service e ?k x w1 = (r, w')"
      by (simp add: reconcileService_def Let_def)
    with write_service_cases [of e ?k x w1 r w'] c1 show ?thesis by auto
  qed
qed

section \<open>Properties of the status writes\<close>

lemma setInstanceStatus_fields:
  "inst_Name (setInstanceStatus e i p m) = inst_Name i"
  "inst_Namespace (setInstanceStatus e i p m) = inst_Namespace i"
  "inst_Spec (setInstanceStatus e i p m) = inst_Spec i"
  "ist_ConnectedDatabases (inst_Status (setInstanceStatus e i p m)) = ist_ConnectedDatabases (inst_Status i)"
  "ist_ConfigHash (inst_Status (setInstanceStatus e i p m)) = ist_ConfigHash (inst_Status i)"
  by (simp_all add: setInstanceStatus_def Let_def)

lemma deployment_phase_fields:
  "inst_Name (deployment_phase e i d) = inst_Name i"
  "inst_Namespace (deployment_phase e i d) = inst_Namespace i"
  "ist_ConnectedDatabases (inst_Status (deployment_phase e i d)) = ist_ConnectedDatabases (inst_Status i)"
  "ist_ConfigHash (inst_Status (deployment_phase e i d)) = ist_ConfigHash (inst_Status i)"
  by (simp_all add: deployment_phase_def Let_def setInstanceStatus_fields)

lemma observe_instance_generation_fields:
  "inst_Name (observe_instance_generation i) = inst_Name i"
  "inst_Namespace (observe_instance_generation i) = inst_Namespace i"
  "inst_Spec (observe_instance_generation i) = inst_Spec i"
  by (simp_all add: observe_instance_generation_def Let_def)

lemma MatchesDatabase_observe:
  "MatchesDatabase (observe_instance_generation i) d = MatchesDatabase i d"
  by (simp add: MatchesDatabase_def observe_instance_generation_fields
      cong: option.case_cong if_cong)

lemma status_update_instance_cases:
  assumes "status_update_instance e i w = (r, w')"
  shows "(r \<noteq> None \<and> w_Cluster w' = w_Cluster w) \<or>
         (r = None \<and> (\<exists>stored. cl_Instances (w_Cluster w) (inst_Namespace i, inst_Name i) = Some stored \<and>
            w_Cluster w' = (w_Cluster w)\<lparr>cl_Instances := (cl_Instances (w_Cluster w))
              ((inst_Namespace i, inst_Name i) \<mapsto> stored\<lparr>inst_Status := inst_Status i\<rparr>)\<rparr>))"
  using api_write_cases [OF assms [unfolded status_update_instance_def]]
  by (auto split: option.splits)

lemma status_writtenI:
  "cl_Instances c k = Some stored \<Longrightarrow> ist_ConnectedDatabases st = names \<Longrightarrow>
   ist_ConfigHash st = hash \<Longrightarrow>
   c' = c\<lparr>cl_Instances := (cl_Instances c)(k \<mapsto> stored\<lparr>inst_Status := st\<rparr>)\<rparr> \<Longrightarrow>
   status_written k names hash c c'"
  unfolding status_written_def by blast

lemma status_update_instance_written:
  assumes "status_update_instance e i w = (r, w')"
  shows "(r \<noteq> None \<and> w_Cluster w' = w_Cluster w) \<or>
         (r = None \<and> status_written (inst_Namespace i, inst_Name i)
            (ist_ConnectedDatabases (inst_Status i)) (ist_ConfigHash (inst_Status i))
            (w_Cluster w) (w_Cluster w'))"
  using status_update_instance_cases [OF assms]
  by (auto intro: status_writtenI [where st = "inst_Status i"])

lemma fail_reconcile_result:
  assumes "fail_reconcile e i msg err w = ((res, r), w')"
  shows "r \<noteq> None \<and> (w_Cluster w' = w_Cluster w \<or>
           status_written (inst_Namespace i, inst_Name i) (ist_ConnectedDatabases (inst_Status i))
             (ist_ConfigHash (inst_Status i)) (w_Cluster w) (w_Cluster w'))"
proof -
  let ?f = "setInstanceStatus e i DBHubInstancePhaseFailed msg"
  obtain r1 w1 where u: "status_update_instance e ?f w = (r1, w1)"
    by (cases "status_update_instance e ?f w")
  with assms have w: "w' = w1" and r: "r = (case r1 of None \<Rightarrow> Some err | Some e2 \<Rightarrow> Some e2)"
    by (auto simp: fail_reconcile_def Let_def split: option.splits)
  from r have "r \<noteq> None" by (cases r1) auto
  moreover from status_update_instance_written [OF u] w
  have "w_Cluster w' = w_Cluster w \<or>
        status_written (inst_Namespace i, inst_Name i) (ist_ConnectedDatabases (inst_Status i))
          (ist_ConfigHash (inst_Status i)) (w_Cluster w) (w_Cluster w')"
    by (auto simp: setInstanceStatus_fields)
  ultimately show ?thesis by simp
qed

lemma final_status_fields:
  "inst_Name (final_status e i r) = inst_Name i"
  "inst_Namespace (final_status e i r) = inst_Namespace i"
  "ist_ConnectedDatabases (inst_Status (final_status e i r)) = ist_ConnectedDatabases (inst_Status i)"
  "ist_ConfigHash (inst_Status (final_status e i r)) = ist_ConfigHash (inst_Status i)"
  by (cases r; simp add: final_status_def Let_def deployment_phase_fields)+

lemma publish_status_result:
  assumes "publish_status e i w = ((res, r), w')"
  shows "(r \<noteq> None \<and> w_Cluster w' = w_Cluster w) \<or>
         (r = None \<and> status_written (inst_Namespace i, inst_Name i)
            (ist_ConnectedDatabases (inst_Status i)) (ist_ConfigHash (inst_Status i))
            (w_Cluster w) (w_Cluster w'))"
proof -
  obtain g w1 where g: "get_deployment e (inst_Namespace i, inst_Name i) w = (g, w1)"
    by (cases "get_deployment e (inst_Namespace i, inst_Name i) w")
  have c1: "w_Cluster w1 = w_Cluster w" using get_deployment_cluster [OF g] .
  from assms g have u: "status_update_instance e (final_status e i g) w1 = (r, w')"
    by (auto simp: publish_status_def split: prod.splits option.splits)
  from status_update_instance_written [OF u] c1 show ?thesis
    by (auto simp: final_status_fields)
qed

section \<open>Frames of the gateway reconcile\<close>

lemma getDatabaseCredentials_cluster:
  "getDatabaseCredentials e d w = (r, w') \<Longrightarrow> w_Cluster w' = w_Cluster w"
  by (auto simp: getDatabaseCredentials_def split: prod.splits sum.splits dest: get_secret_cluster)

lemma sources_loop_cluster:
  "sources_loop e dbs b c w = (r, w') \<Longrightarrow> w_Cluster w' = w_Cluster w"
proof (induction dbs arbitrary: b c w)
  case Nil
  then show ?case by simp
next
  case (Cons db dbs)
  obtain g w1 where g: "getDatabaseCredentials e db w = (g, w1)"
    by (cases "getDatabaseCredentials e db w")
  have c1: "w_Cluster w1 = w_Cluster w" using getDatabaseCredentials_cluster [OF g] .
  show ?case
  proof (cases g)
    case (Inl err)
    with Cons.prems g c1 show ?thesis by auto
  next
    case (Inr up)
    with Cons.prems g obtain b2 c2 where "sources_loop e dbs b2 c2 w1 = (r, w')"
      by (cases up) (auto simp: Let_def)
    from Cons.IH [OF this] c1 show ?thesis by simp
  qed
qed

lemma generateConfig_cluster:
  "generateConfig e i dbs w = (r, w') \<Longrightarrow> w_Cluster w' = w_Cluster w"
  by (auto simp: generateConfig_def split: prod.splits sum.splits option.splits if_splits
      dest: sources_loop_cluster)

lemma list_databases_cluster: "list_databases e ns w = (r, w') \<Longrightarrow> w_Cluster w' = w_Cluster w"
  unfolding list_databases_def by (rule api_read_cluster)

lemma findMatchingDatabases_cluster:
  "findMatchingDatabases e i w = (r, w') \<Longrightarrow> w_Cluster w' = w_Cluster w"
  by (auto simp: findMatchingDatabases_def split: prod.splits sum.splits dest: list_databases_cluster)

lemma findMatchingDatabases_result:
  "findMatchingDatabases e i w = (Inr dbs, w') \<Longrightarrow> dbs = selected_databases i (w_Cluster w)"
  by (auto simp: findMatchingDatabases_def selected_databases_def list_databases_def
      split: prod.splits sum.splits dest!: api_read_ok)

lemma get_instance_cluster: "get_instance e k w = (r, w') \<Longrightarrow> w_Cluster w' = w_Cluster w"
  unfolding get_instance_def by (rule api_read_cluster)

lemma get_instance_ok: "get_instance e k w = (Inr x, w') \<Longrightarrow> cl_Instances (w_Cluster w) k = Some x"
  unfolding get_instance_def by (drule api_read_ok) simp

text \<open>
  The four child reconciles in sequence never touch the custom resources; when all four
  succeed, the ConfigMap, the Secret and the Deployment carry the desired payload.
\<close>

lemma reconcile_children_result:
  assumes run: "reconcile_children e i cfg creds hash w = (r, w')"
  shows "cl_Instances (w_Cluster w') = cl_Instances (w_Cluster w)
         \<and> cl_Databases (w_Cluster w') = cl_Databases (w_Cluster w)
         \<and> (r = None \<longrightarrow>
              (\<exists>cm. cl_ConfigMaps (w_Cluster w') (inst_Namespace i, inst_Name i @ configMapSuffix) = Some cm
                    \<and> cm_Data cm = [''dbhub.toml'' \<mapsto> cfg])
              \<and> (\<exists>s. cl_Secrets (w_Cluster w') (inst_Namespace i, inst_Name i @ secretSuffix) = Some s
                    \<and> sec_Data s = creds)
              \<and> (\<exists>d. cl_Deployments (w_Cluster w') (inst_Namespace i, inst_Name i) = Some d
                    \<and> dep_Spec d = dep_Spec (desired_deployment i hash)))"
proof -
  obtain r1 w1 where s1: "reconcileConfigMap e i cfg w = (r1, w1)"
    by (cases "reconcileConfigMap e i cfg w")
  obtain r2 w2 where s2: "reconcileCredentialsSecret e i creds w1 = (r2, w2)"
    by (cases "reconcileCredentialsSecret e i creds w1")
  obtain r3 w3 where s3: "reconcileDeployment e i hash w2 = (r3, w3)"
    by (cases "reconcileDeployment e i hash w2")
  obtain r4 w4 where s4: "reconcileService e i w3 = (r4, w4)"
    by (cases "reconcileService e i w3")
  note a1 = reconcileConfigMap_result [OF s1]
  note a2 = reconcileCredentialsSecret_result [OF s2]
  note a3 = reconcileDeployment_result [OF s3]
  note a4 = reconcileService_result [OF s4]
  show ?thesis
  proof (cases r1)
    case (Some err)
    with run s1 have "r = Some err" "w' = w1" by (auto simp: reconcile_children_def)
    with a1 Some show ?thesis by auto
  next
    case n1: None
    show ?thesis
    proof (cases r2)
      case (Some err)
      with run s1 s2 n1 have "r = Some err" "w' = w2" by (auto simp: reconcile_children_def)
      with a1 a2 n1 Some show ?thesis by auto
    next
      case n2: None
      show ?thesis
      proof (cases r3)
        case (Some err)
        with run s1 s2 s3 n1 n2 have "r = Some err" "w' = w3"
          by (auto simp: reconcile_children_def)
        with a1 a2 a3 n1 n2 Some show ?thesis by auto
      next
        case n3: None
        with run s1 s2 s3 s4 n1 n2 have e4: "r = r4" "w' = w4"
          by (auto simp: reconcile_children_def)
        from a1 n1 obtain cm where cm: "cm_Data cm = [''dbhub.toml'' \<mapsto> cfg]"
          "w_Cluster w1 = (w_Cluster w)\<lparr>cl_ConfigMaps := (cl_ConfigMaps (w_Cluster w))
              ((inst_Namespace i, inst_Name i @ configMapSuffix) \<mapsto> cm)\<rparr>" by auto
        from a2 n2 obtain s where s: "sec_Data s = creds"
          "w_Cluster w2 = (w_Cluster w1)\<lparr>cl_Secrets := (cl_Secrets (w_Cluster w1))
              ((inst_Namespace i, inst_Name i @ secretSuffix) \<mapsto> s)\<rparr>" by auto
        from a3 n3 obtain d where d: "dep_Spec d = dep_Spec (desired_deployment i hash)"
          "w_Cluster w3 = (w_Cluster w2)\<lparr>cl_Deployments := (cl_Deployments (w_Cluster w2))
              ((inst_Namespace i, inst_Name i) \<mapsto> d)\<rparr>" by auto
        from a4 have "w_Cluster w4 = w_Cluster w3 \<or> (\<exists>m. w_Cluster w4 = (w_Cluster w3)\<lparr>cl_Services := m\<rparr>)"
          by auto
        with cm s d e4 show ?thesis by auto
      qed
    qed
  qed
qed

lemma generateConfig_status_irrelevant:
  "inst_Spec i' = inst_Spec i \<Longrightarrow> generateConfig e i' dbs w = generateConfig e i dbs w"
  by (auto simp: generateConfig_def split: prod.splits sum.splits)

lemma desired_deployment_hash_label:
  "pt_Labels (dps_Template (dep_Spec (desired_deployment i h))) ''config-hash'' = Some h"
  by (simp add: desired_deployment_def Let_def)

lemma status_written_fields:
  assumes "status_written k names hash c c'"
  shows "cl_Databases c' = cl_Databases c" "cl_ConfigMaps c' = cl_ConfigMaps c"
    "cl_Secrets c' = cl_Secrets c" "cl_Deployments c' = cl_Deployments c"
    "\<exists>stored. cl_Instances c' k = Some stored
       \<and> ist_ConnectedDatabases (inst_Status stored) = names
       \<and> ist_ConfigHash (inst_Status stored) = hash"
  using assms unfolding status_written_def by auto

lemma status_written_all:
  assumes "status_written k names hash c c'"
  shows "cl_Databases c' = cl_Databases c \<and> cl_ConfigMaps c' = cl_ConfigMaps c
    \<and> cl_Secrets c' = cl_Secrets c \<and> cl_Deployments c' = cl_Deployments c
    \<and> (\<exists>stored. cl_Instances c' k = Some stored
       \<and> ist_ConnectedDatabases (inst_Status stored) = names
       \<and> ist_ConfigHash (inst_Status stored) = hash)"
  using status_written_fields [OF assms] by simp

text \<open>
  The instance map after a step is the one before, or the one before with a status
  written that carries the connected list \<open>names\<close>.
\<close>

lemma reconcile_selected_instances:
  assumes run: "reconcile_selected e i dbs w = ((res, r), w')"
  shows "cl_Databases (w_Cluster w') = cl_Databases (w_Cluster w) \<and>
         (cl_Instances (w_Cluster w') = cl_Instances (w_Cluster w) \<or>
          (\<exists>stored. cl_Instances (w_Cluster w') (inst_Namespace i, inst_Name i) = Some stored
             \<and> ist_ConnectedDatabases (inst_Status stored) = connected_names dbs))"
proof -
  let ?i1 = "i\<lparr>inst_Status := (inst_Status i)\<lparr>ist_ConnectedDatabases := connected_names dbs\<rparr>\<rparr>"
  obtain g w1 where g: "generateConfig e ?i1 dbs w = (g, w1)"
    by (cases "generateConfig e ?i1 dbs w")
  have c1: "w_Cluster w1 = w_Cluster w" using generateConfig_cluster [OF g] .
  show ?thesis
  proof (cases g)
    case (Inl err)
    with run g have "fail_reconcile e ?i1 (''Failed to generate config: '' @ error_text err) err w1
                       = ((res, r), w')"
      by (simp add: reconcile_selected_def Let_def)
    from fail_reconcile_result [OF this] c1 show ?thesis
      by (auto dest!: status_written_all)
  next
    case (Inr cc)
    obtain cfg creds where cc: "cc = (cfg, creds)" by (cases cc)
    let ?i2 = "?i1\<lparr>inst_Status := (inst_Status ?i1)\<lparr>ist_ConfigHash := calculateHash cfg\<rparr>\<rparr>"
    obtain r2 w2 where ch: "reconcile_children e ?i2 cfg creds (calculateHash cfg) w1 = (r2, w2)"
      by (cases "reconcile_children e ?i2 cfg creds (calculateHash cfg) w1")
    note a = reconcile_children_result [OF ch]
    show ?thesis
    proof (cases r2)
      case (Some err)
      with run g Inr cc ch have "w' = w2" by (simp add: reconcile_selected_def Let_def)
      with a c1 show ?thesis by simp
    next
      case None
      with run g Inr cc ch have "publish_status e ?i2 w2 = ((res, r), w')"
        by (simp add: reconcile_selected_def Let_def)
      from publish_status_result [OF this] a c1 show ?thesis
        by (auto dest!: status_written_all)
    qed
  qed
qed

lemma reconcile_selected_success:
  assumes run: "reconcile_selected e i dbs w = ((res, None), w')"
  shows "\<exists>cfg creds w1. generateConfig e i dbs w = (Inr (cfg, creds), w1)
           \<and> applied i (connected_names dbs) cfg creds (w_Cluster w')"
proof -
  let ?i1 = "i\<lparr>inst_Status := (inst_Status i)\<lparr>ist_ConnectedDatabases := connected_names dbs\<rparr>\<rparr>"
  have same: "generateConfig e ?i1 dbs w = generateConfig e i dbs w"
    by (rule generateConfig_status_irrelevant) simp
  obtain g w1 where g: "generateConfig e i dbs w = (g, w1)"
    by (cases "generateConfig e i dbs w")
  show ?thesis
  proof (cases g)
    case (Inl err)
    with run g same have "fail_reconcile e ?i1 (''Failed to generate config: '' @ error_text err) err w1
                       = ((res, None), w')"
      by (simp add: reconcile_selected_def Let_def)
    from fail_reconcile_result [OF this] show ?thesis by simp
  next
    case (Inr cc)
    obtain cfg creds where cc: "cc = (cfg, creds)" by (cases cc)
    let ?i2 = "?i1\<lparr>inst_Status := (inst_Status ?i1)\<lparr>ist_ConfigHash := calculateHash cfg\<rparr>\<rparr>"
    obtain r2 w2 where ch: "reconcile_children e ?i2 cfg creds (calculateHash cfg) w1 = (r2, w2)"
      by (cases "reconcile_children e ?i2 cfg creds (calculateHash cfg) w1")
    note a = reconcile_children_result [OF ch]
    show ?thesis
    proof (cases r2)
      case (Some err)
      with run g same Inr cc ch show ?thesis by (simp add: reconcile_selected_def Let_def)
    next
      case None
      with run g same Inr cc ch have p: "publish_status e ?i2 w2 = ((res, None), w')"
        by (simp add: reconcile_selected_def Let_def)
      from publish_status_result [OF p]
      have sw: "status_written (inst_Namespace i, inst_Name i) (connected_names dbs)
                  (calculateHash cfg) (w_Cluster w2) (w_Cluster w')"
        by simp
      from a None obtain cm s d where
        "cl_ConfigMaps (w_Cluster w2) (inst_Namespace i, inst_Name i @ configMapSuffix) = Some cm"
        "cm_Data cm = [''dbhub.toml'' \<mapsto> cfg]"
        "cl_Secrets (w_Cluster w2) (inst_Namespace i, inst_Name i @ secretSuffix) = Some s"
        "sec_Data s = creds"
        "cl_Deployments (w_Cluster w2) (inst_Namespace i, inst_Name i) = Some d"
        "dep_Spec d = dep_Spec (desired_deployment ?i2 (calculateHash cfg))"
        by auto
      with status_written_fields [OF sw] have "applied i (connected_names dbs) cfg creds (w_Cluster w')"
        unfolding applied_def by (auto simp: desired_deployment_hash_label)
      with g Inr cc show ?thesis by blast
    qed
  qed
qed

section \<open>Properties of the gateway reconcile\<close>

lemma selected_databases_observe:
  "selected_databases (observe_instance_generation i) c = selected_databases i c"
  by (simp add: selected_databases_def MatchesDatabase_observe observe_instance_generation_fields)

lemma applied_observe:
  "applied (observe_instance_generation i) names cfg creds c = applied i names cfg creds c"
  by (simp add: applied_def observe_instance_generation_fields)

text \<open>
  A reconcile that found its instance and returned no error has rendered a configuration
  from the selected databases and applied it.
\<close>

lemma Reconcile_success:
  assumes get: "get_instance e req w = (Inr fetched, w1)"
    and run: "DBHubInstanceReconciler_Reconcile e req w = ((res, None), w')"
  shows "\<exists>cfg creds w2 w3.
           generateConfig e fetched (selected_databases fetched (w_Cluster w)) w2 = (Inr (cfg, creds), w3)
           \<and> w_Cluster w2 = w_Cluster w
           \<and> applied fetched (connected_names (selected_databases fetched (w_Cluster w))) cfg creds
                (w_Cluster w')"
proof -
  let ?i = "observe_instance_generation fetched"
  have c1: "w_Cluster w1 = w_Cluster w" using get_instance_cluster [OF get] .
  obtain f w2 where f: "findMatchingDatabases e ?i w1 = (f, w2)"
    by (cases "findMatchingDatabases e ?i w1")
  have c2: "w_Cluster w2 = w_Cluster w" using findMatchingDatabases_cluster [OF f] c1 by simp
  show ?thesis
  proof (cases f)
    case (Inl err)
    with run get f have "fail_reconcile e ?i (''Failed to find databases: '' @ error_text err) err w2
                           = ((res, None), w')"
      by (simp add: DBHubInstanceReconciler_Reconcile_def Let_def)
    from fail_reconcile_result [OF this] show ?thesis by simp
  next
    case (Inr dbs)
    with f have dbs: "dbs = selected_databases fetched (w_Cluster w)"
      using findMatchingDatabases_result [of e ?i w1 dbs w2] c1
      by (simp add: selected_databases_observe)
    from run get f Inr have "reconcile_selected e ?i dbs w2 = ((res, None), w')"
      by (simp add: DBHubInstanceReconciler_Reconcile_def Let_def)
    from reconcile_selected_success [OF this] obtain cfg creds w3 where
      "generateConfig e ?i dbs w2 = (Inr (cfg, creds), w3)"
      "applied ?i (connected_names dbs) cfg creds (w_Cluster w')" by blast
    moreover have "generateConfig e ?i dbs w2 = generateConfig e fetched dbs w2"
      by (rule generateConfig_status_irrelevant) (simp add: observe_instance_generation_fields)
    ultimately have "generateConfig e fetched dbs w2 = (Inr (cfg, creds), w3)"
      and "applied fetched (connected_names dbs) cfg creds (w_Cluster w')"
      by (simp_all add: applied_observe)
    with dbs c2 show ?thesis by blast
  qed
qed

lemma Reconcile_instances:
  assumes get: "get_instance e req w = (Inr fetched, w1)"
    and sel: "findMatchingDatabases e (observe_instance_generation fetched) w1 = (Inr dbs, w2)"
    and run: "DBHubInstanceReconciler_Reconcile e req w = (r, w')"
  shows "cl_Instances (w_Cluster w') = cl_Instances (w_Cluster w) \<or>
         (\<exists>stored. cl_Instances (w_Cluster w') (inst_Namespace fetched, inst_Name fetched) = Some stored
            \<and> ist_ConnectedDatabases (inst_Status stored) = connected_names dbs)"
proof -
  let ?i = "observe_instance_generation fetched"
  have c2: "w_Cluster w2 = w_Cluster w"
    using get_instance_cluster [OF get] findMatchingDatabases_cluster [OF sel] by simp
  from run get sel have "reconcile_selected e ?i dbs w2 = ((fst r, snd r), w')"
    by (simp add: DBHubInstanceReconciler_Reconcile_def Let_def)
  from reconcile_selected_instances [OF this] c2 show ?thesis
    by (simp add: observe_instance_generation_fields)
qed

lemma connected_names_set:
  "set (connected_names (selected_databases i c))
     = {db_Name d | d. d \<in> set (cl_Databases c) \<and> db_Namespace d = inst_Namespace i
          \<and> MatchesDatabase i d \<and> dst_Phase (db_Status d) = ''Connected''}"
  by (auto simp: connected_names_def selected_databases_def DatabasePhaseConnected_def)

text \<open>
  C4 (as amended). Once a gateway reconcile has fetched its instance and its List of the
  databases has succeeded, the list it puts in \<^verbatim>\<open>status.connectedDatabases\<close> is sorted and
  holds exactly the names of the Databases of the instance's namespace that match its
  selector and are \<^verbatim>\<open>Connected\<close>; the reconcile leaves the stored instances as they were
  or stores the status with that list, and it stores it when it returns no error.
\<close>

theorem C4_connected_databases:
  assumes get: "get_instance e req w = (Inr fetched, w1)"
    and sel: "findMatchingDatabases e (observe_instance_generation fetched) w1 = (Inr databases, w2)"
  shows "sorted (connected_names databases) \<and>
         set (connected_names databases)
           = {db_Name d | d. d \<in> set (cl_Databases (w_Cluster w))
                \<and> db_Namespace d = inst_Namespace fetched \<and> MatchesDatabase fetched d
                \<and> dst_Phase (db_Status d) = ''Connected''} \<and>
         (cl_Instances (w_Cluster (snd (DBHubInstanceReconciler_Reconcile e req w)))
            = cl_Instances (w_Cluster w) \<or>
          (\<exists>stored. cl_Instances (w_Cluster (snd (DBHubInstanceReconciler_Reconcile e req w)))
                       (inst_Namespace fetched, inst_Name fetched) = Some stored
             \<and> ist_ConnectedDatabases (inst_Status stored) = connected_names databases)) \<and>
         (snd (fst (DBHubInstanceReconciler_Reconcile e req w)) = None \<longrightarrow>
          (\<exists>stored. cl_Instances (w_Cluster (snd (DBHubInstanceReconciler_Reconcile e req w)))
                       (inst_Namespace fetched, inst_Name fetched) = Some stored
             \<and> ist_ConnectedDatabases (inst_Status stored) = connected_names databases))"
proof -
  have c1: "w_Cluster w1 = w_Cluster w" using get_instance_cluster [OF get] .
  have dbs: "databases = selected_databases fetched (w_Cluster w)"
    using findMatchingDatabases_result [OF sel] c1 by (simp add: selected_databases_observe)
  have a: "sorted (connected_names databases)" by (simp add: connected_names_def)
  have b: "set (connected_names databases)
           = {db_Name d | d. d \<in> set (cl_Databases (w_Cluster w))
                \<and> db_Namespace d = inst_Namespace fetched \<and> MatchesDatabase fetched d
                \<and> dst_Phase (db_Status d) = ''Connected''}"
    unfolding dbs by (rule connected_names_set)
  obtain r w' where run: "DBHubInstanceReconciler_Reconcile e req w = (r, w')"
    by (cases "DBHubInstanceReconciler_Reconcile e req w")
  note c = Reconcile_instances [OF get sel run]
  have d: "snd r = None \<longrightarrow>
          (\<exists>stored. cl_Instances (w_Cluster w') (inst_Namespace fetched, inst_Name fetched) = Some stored
             \<and> ist_ConnectedDatabases (inst_Status stored) = connected_names databases)"
  proof
    assume "snd r = None"
    with run have "DBHubInstanceReconciler_Reconcile e req w = ((fst r, None), w')"
      by (cases r) simp
    from Reconcile_success [OF get this] dbs show
      "\<exists>stored. cl_Instances (w_Cluster w') (inst_Namespace fetched, inst_Name fetched) = Some stored
             \<and> ist_ConnectedDatabases (inst_Status stored) = connected_names databases"
      unfolding applied_def by auto
  qed
  from a b c d run show ?thesis by simp
qed

text \<open>
  When the List of the databases fails, the reconcile returns an error and either leaves
  the store as it was or writes the status with the connected list and the hash as they
  were fetched.
\<close>

lemma observe_instance_generation_status:
  "ist_ConnectedDatabases (inst_Status (observe_instance_generation i))
     = ist_ConnectedDatabases (inst_Status i)"
  "ist_ConfigHash (inst_Status (observe_instance_generation i)) = ist_ConfigHash (inst_Status i)"
  by (simp_all add: observe_instance_generation_def Let_def)

lemma Reconcile_list_failure:
  assumes get: "get_instance e req w = (Inr fetched, w1)"
    and sel: "findMatchingDatabases e (observe_instance_generation fetched) w1 = (Inl err, w2)"
    and run: "DBHubInstanceReconciler_Reconcile e req w = ((res, r), w')"
  shows "r \<noteq> None \<and>
         (w_Cluster w' = w_Cluster w \<or>
          status_written (inst_Namespace fetched, inst_Name fetched)
            (ist_ConnectedDatabases (inst_Status fetched)) (ist_ConfigHash (inst_Status fetched))
            (w_Cluster w) (w_Cluster w'))"
proof -
  let ?i = "observe_instance_generation fetched"
  have c2: "w_Cluster w2 = w_Cluster w"
    using get_instance_cluster [OF get] findMatchingDatabases_cluster [OF sel] by simp
  from run get sel
  have "fail_reconcile e ?i (''Failed to find databases: '' @ error_text err) err w2 = ((res, r), w')"
    by (simp add: DBHubInstanceReconciler_Reconcile_def Let_def)
  from fail_reconcile_result [OF this] c2 show ?thesis
    by (simp add: observe_instance_generation_fields observe_instance_generation_status)
qed

section \<open>The credentials map\<close>

lemma api_read_no_fault:
  "env_Faults e (w_Calls w) = None \<Longrightarrow>
   api_read e look what w =
     ((case look (w_Cluster w) of None \<Rightarrow> Inl (NotFound (what @ '' not found'')) | Some x \<Rightarrow> Inr x),
      tick w)"
  by (simp add: api_read_def split: option.splits)

lemma api_write_no_fault:
  "env_Faults e (w_Calls w) = None \<Longrightarrow>
   api_write e upd w =
     (case upd (w_Cluster w) of
        Inl err \<Rightarrow> (Some err, tick w)
      | Inr c \<Rightarrow> (None, tick (w\<lparr>w_Cluster := c\<rparr>)))"
  by (simp add: api_write_def)

lemma tick_fields [simp]: "w_Cluster (tick w) = w_Cluster w" "w_Calls (tick w) = Suc (w_Calls w)"
  by (simp_all add: tick_def)

lemma getDatabaseCredentials_ok:
  assumes "getDatabaseCredentials e db w = (Inr (u, p), w')"
  shows "stored_dsn (w_Cluster w) db = Some (DBHubInstanceReconciler_buildDSN db u p)"
  using assms
  by (auto simp: getDatabaseCredentials_def stored_dsn_def credentials_key_def get_secret_def
      split: prod.splits sum.splits dest!: api_read_ok)

lemma getDatabaseCredentials_no_fault:
  assumes "env_Faults e (w_Calls w) = None" and "cl_Secrets (w_Cluster w) (credentials_key db) = Some s"
  shows "getDatabaseCredentials e db w
           = (Inr (go_index (sec_Data s) (GetUserKey db), go_index (sec_Data s) (GetPasswordKey db)),
              tick w)"
  using assms
  by (simp add: getDatabaseCredentials_def get_secret_def api_read_no_fault credentials_key_def)

text \<open>Keys of the credentials map that no database of the list writes keep their value.\<close>

lemma sources_loop_other_keys:
  "sources_loop e dbs b c w = (Inr (b', c'), w') \<Longrightarrow>
   \<forall>d \<in> set dbs. envName (db_Name d) @ ''_DSN'' \<noteq> k \<Longrightarrow> c' k = c k"
proof (induction dbs arbitrary: b c w)
  case Nil
  then show ?case by simp
next
  case (Cons db dbs)
  from Cons.prems(1) obtain u p w1 where
    "sources_loop e dbs (b @ source_entry db)
       (c(envName (db_Name db) @ ''_DSN'' \<mapsto> DBHubInstanceReconciler_buildDSN db u p)) w1
     = (Inr (b', c'), w')"
    by (auto simp: Let_def split: prod.splits sum.splits)
  from Cons.IH [OF this] Cons.prems(2) show ?case by auto
qed

text \<open>
  The entry of a database whose environment name no other database of the list shares is
  the DSN derived from the store.
\<close>

lemma sources_loop_entry:
  "sources_loop e dbs b c w = (Inr (b', c'), w') \<Longrightarrow> db \<in> set dbs \<Longrightarrow>
   \<forall>d \<in> set dbs. envName (db_Name d) = envName (db_Name db) \<longrightarrow> d = db \<Longrightarrow>
   c' (envName (db_Name db) @ ''_DSN'') = stored_dsn (w_Cluster w) db"
proof (induction dbs arbitrary: b c w)
  case Nil
  then show ?case by simp
next
  case (Cons x dbs)
  from Cons.prems(1) obtain u p w1 where
    g: "getDatabaseCredentials e x w = (Inr (u, p), w1)" and
    rest: "sources_loop e dbs (b @ source_entry x)
       (c(envName (db_Name x) @ ''_DSN'' \<mapsto> DBHubInstanceReconciler_buildDSN x u p)) w1
     = (Inr (b', c'), w')"
    by (auto simp: Let_def split: prod.splits sum.splits)
  have c1: "w_Cluster w1 = w_Cluster w" using getDatabaseCredentials_cluster [OF g] .
  show ?case
  proof (cases "db \<in> set dbs")
    case True
    from Cons.IH [OF rest True] Cons.prems(3) c1 show ?thesis by simp
  next
    case False
    with Cons.prems(2) have x: "x = db" by simp
    from False Cons.prems(3) have "\<forall>d \<in> set dbs. envName (db_Name d) @ ''_DSN''
                                      \<noteq> envName (db_Name db) @ ''_DSN''"
      by auto
    from sources_loop_other_keys [OF rest this] x getDatabaseCredentials_ok [OF g]
    show ?thesis by simp
  qed
qed

lemma sources_loop_no_fault:
  assumes nf: "\<forall>n. env_Faults e n = None"
  shows "\<forall>d \<in> set dbs. cl_Secrets (w_Cluster w) (credentials_key d) \<noteq> None \<Longrightarrow>
         \<exists>b' c' w'. sources_loop e dbs b c w = (Inr (b', c'), w')"
proof (induction dbs arbitrary: b c w)
  case Nil
  then show ?case by simp
next
  case (Cons x dbs)
  then obtain s where s: "cl_Secrets (w_Cluster w) (credentials_key x) = Some s" by auto
  from nf have "env_Faults e (w_Calls w) = None" by simp
  note g = getDatabaseCredentials_no_fault [OF this s]
  from Cons.prems have "\<forall>d \<in> set dbs. cl_Secrets (w_Cluster (tick w)) (credentials_key d) \<noteq> None"
    by simp
  from Cons.IH [OF this] g show ?case by (simp add: Let_def)
qed

lemma generateConfig_no_fault:
  assumes nf: "\<forall>n. env_Faults e n = None"
    and "\<forall>d \<in> set dbs. cl_Secrets (w_Cluster w) (credentials_key d) \<noteq> None"
  shows "\<exists>cfg creds w'. generateConfig e i dbs w = (Inr (cfg, creds), w')"
proof -
  from sources_loop_no_fault [OF nf assms(2)] obtain b' c' w' where
    "sources_loop e dbs [] Map.empty w = (Inr (b', c'), w')" by blast
  then show ?thesis
    by (auto simp: generateConfig_def split: option.splits)
qed

lemma generateConfig_entry:
  assumes "generateConfig e i dbs w = (Inr (cfg, creds), w')" and "db \<in> set dbs"
    and "\<forall>d \<in> set dbs. envName (db_Name d) = envName (db_Name db) \<longrightarrow> d = db"
  shows "creds (envName (db_Name db) @ ''_DSN'') = stored_dsn (w_Cluster w) db"
proof -
  from assms(1) obtain b where "sources_loop e dbs [] Map.empty w = (Inr (b, creds), w')"
    by (auto simp: generateConfig_def split: prod.splits sum.splits option.splits if_splits)
  from sources_loop_entry [OF this assms(2,3)] show ?thesis .
qed

section \<open>Reconciling without API faults\<close>

lemma reconcileConfigMap_no_fault:
  assumes "\<forall>n. env_Faults e n = None" and "env_OwnerRefError e = None"
  shows "fst (reconcileConfigMap e i cfg w) = None"
  using assms
  by (simp add: reconcileConfigMap_def Let_def get_configmap_def create_configmap_def
      update_configmap_def api_read_no_fault api_write_no_fault put_configmaps_def
      create_in_def update_in_def split: option.splits)

lemma reconcileCredentialsSecret_no_fault:
  assumes "\<forall>n. env_Faults e n = None" and "env_OwnerRefError e = None"
  shows "fst (reconcileCredentialsSecret e i creds w) = None"
  using assms
  by (simp add: reconcileCredentialsSecret_def Let_def get_secret_def create_secret_def
      update_secret_def api_read_no_fault api_write_no_fault put_secrets_def
      create_in_def update_in_def split: option.splits)

lemma reconcileDeployment_no_fault:
  assumes "\<forall>n. env_Faults e n = None" and "env_OwnerRefError e = None"
  shows "fst (reconcileDeployment e i h w) = None"
  using assms
  by (simp add: reconcileDeployment_def Let_def get_deployment_def create_deployment_def
      update_deployment_def api_read_no_fault api_write_no_fault put_deployments_def
      create_in_def update_in_def split: option.splits)

lemma reconcileService_no_fault:
  assumes "\<forall>n. env_Faults e n = None" and "env_OwnerRefError e = None"
  shows "fst (reconcileService e i w) = None"
  using assms
  by (simp add: reconcileService_def Let_def get_service_def create_service_def
      update_service_def api_read_no_fault api_write_no_fault put_services_def
      create_in_def update_in_def split: option.splits)

lemma reconcile_children_no_fault:
  assumes nf: "\<forall>n. env_Faults e n = None" and ow: "env_OwnerRefError e = None"
  shows "fst (reconcile_children e i cfg creds h w) = None"
proof -
  obtain w1 where s1: "reconcileConfigMap e i cfg w = (None, w1)"
    using reconcileConfigMap_no_fault [OF nf ow, of i cfg w]
    by (cases "reconcileConfigMap e i cfg w") simp
  obtain w2 where s2: "reconcileCredentialsSecret e i creds w1 = (None, w2)"
    using reconcileCredentialsSecret_no_fault [OF nf ow, of i creds w1]
    by (cases "reconcileCredentialsSecret e i creds w1") simp
  obtain w3 where s3: "reconcileDeployment e i h w2 = (None, w3)"
    using reconcileDeployment_no_fault [OF nf ow, of i h w2]
    by (cases "reconcileDeployment e i h w2") simp
  from s1 s2 s3 reconcileService_no_fault [OF nf ow, of i w3] show ?thesis
    by (simp add: reconcile_children_def)
qed

lemma publish_status_no_fault:
  assumes nf: "\<forall>n. env_Faults e n = None"
    and "cl_Instances (w_Cluster w) (inst_Namespace i, inst_Name i) \<noteq> None"
  shows "snd (fst (publish_status e i w)) = None"
proof -
  obtain g w1 where g: "get_deployment e (inst_Namespace i, inst_Name i) w = (g, w1)"
    by (cases "get_deployment e (inst_Namespace i, inst_Name i) w")
  have c1: "w_Cluster w1 = w_Cluster w" using get_deployment_cluster [OF g] .
  have "fst (status_update_instance e (final_status e i g) w1) = None"
    using nf assms(2) c1
    by (auto simp: status_update_instance_def api_write_no_fault final_status_fields
        split: option.splits)
  with g show ?thesis
    by (cases "status_update_instance e (final_status e i g) w1") (simp add: publish_status_def)
qed

lemma reconcile_selected_no_fault:
  assumes nf: "\<forall>n. env_Faults e n = None" and ow: "env_OwnerRefError e = None"
    and inst: "cl_Instances (w_Cluster w) (inst_Namespace i, inst_Name i) \<noteq> None"
    and readable: "\<forall>d \<in> set dbs. cl_Secrets (w_Cluster w) (credentials_key d) \<noteq> None"
  shows "snd (fst (reconcile_selected e i dbs w)) = None"
proof -
  let ?i1 = "i\<lparr>inst_Status := (inst_Status i)\<lparr>ist_ConnectedDatabases := connected_names dbs\<rparr>\<rparr>"
  from generateConfig_no_fault [OF nf readable, of ?i1] obtain cfg creds w1 where
    g: "generateConfig e ?i1 dbs w = (Inr (cfg, creds), w1)" by blast
  have c1: "w_Cluster w1 = w_Cluster w" using generateConfig_cluster [OF g] .
  let ?i2 = "?i1\<lparr>inst_Status := (inst_Status ?i1)\<lparr>ist_ConfigHash := calculateHash cfg\<rparr>\<rparr>"
  obtain w2 where ch: "reconcile_children e ?i2 cfg creds (calculateHash cfg) w1 = (None, w2)"
    using reconcile_children_no_fault [OF nf ow, of ?i2 cfg creds "calculateHash cfg" w1]
    by (cases "reconcile_children e ?i2 cfg creds (calculateHash cfg) w1") simp
  from reconcile_children_result [OF ch] c1 inst
  have "cl_Instances (w_Cluster w2) (inst_Namespace ?i2, inst_Name ?i2) \<noteq> None" by simp
  from publish_status_no_fault [OF nf this] g ch show ?thesis
    by (simp add: reconcile_selected_def Let_def)
qed

text \<open>
  Without API faults, a reconcile of a stored instance whose selected databases all have
  their credentials secret returns no error.
\<close>

lemma Reconcile_no_fault:
  assumes nf: "\<forall>n. env_Faults e n = None" and ow: "env_OwnerRefError e = None"
    and inst: "cl_Instances (w_Cluster w) req = Some fetched"
    and wf: "(inst_Namespace fetched, inst_Name fetched) = req"
    and readable: "\<forall>d \<in> set (selected_databases fetched (w_Cluster w)).
                     cl_Secrets (w_Cluster w) (credentials_key d) \<noteq> None"
  shows "get_instance e req w = (Inr fetched, tick w)"
    and "snd (fst (DBHubInstanceReconciler_Reconcile e req w)) = None"
proof -
  let ?i = "observe_instance_generation fetched"
  let ?dbs = "selected_databases fetched (w_Cluster w)"
  from nf inst show get: "get_instance e req w = (Inr fetched, tick w)"
    by (simp add: get_instance_def api_read_no_fault)
  from nf have f: "findMatchingDatabases e ?i (tick w) = (Inr ?dbs, tick (tick w))"
    by (simp add: findMatchingDatabases_def list_databases_def api_read_no_fault
        selected_databases_def MatchesDatabase_observe observe_instance_generation_fields)
  have "cl_Instances (w_Cluster (tick (tick w))) (inst_Namespace ?i, inst_Name ?i) \<noteq> None"
    using inst wf by (simp add: observe_instance_generation_fields)
  moreover have "\<forall>d \<in> set ?dbs. cl_Secrets (w_Cluster (tick (tick w))) (credentials_key d) \<noteq> None"
    using readable by simp
  ultimately have "snd (fst (reconcile_selected e ?i ?dbs (tick (tick w)))) = None"
    by (rule reconcile_selected_no_fault [OF nf ow])
  with get f show "snd (fst (DBHubInstanceReconciler_Reconcile e req w)) = None"
    by (simp add: DBHubInstanceReconciler_Reconcile_def Let_def)
qed

section \<open>The configuration hash and the derived credentials\<close>

lemma length_Sum256: "length (Sum256 m) = 32"
  by (simp add: Sum256_def Let_def bytes_of_u32_def)

lemma length_fmt_x: "length (fmt_x bs) = 2 * length bs"
  by (induction bs) (simp_all add: fmt_x_def hex_byte_def)

lemma length_calculateHash: "length (calculateHash data) = 16"
  by (simp add: calculateHash_def Let_def length_fmt_x length_Sum256)

lemma hex_digits_upto: "list_all (\<lambda>n. hex_digit n \<in> set ''0123456789abcdef'') [0..<16]"
  by code_simp

lemma hex_digit_lower: "n < 16 \<Longrightarrow> hex_digit n \<in> set ''0123456789abcdef''"
  using hex_digits_upto unfolding list_all_iff by (metis atLeastLessThan_iff set_upt zero_le)

lemma hex_byte_lower: "set (hex_byte b) \<subseteq> set ''0123456789abcdef''"
proof -
  have "unat b < 2 ^ LENGTH(8)" by (rule unsigned_less)
  then have "unat b < 256" by simp
  then have "unat b div 16 < 16" and "unat b mod 16 < 16" by simp_all
  then show ?thesis
    unfolding hex_byte_def using hex_digit_lower by (metis empty_set insert_subset list.simps(15) subset_refl empty_subsetI)
qed

lemma fmt_x_lower: "set (fmt_x bs) \<subseteq> set ''0123456789abcdef''"
  unfolding fmt_x_def using hex_byte_lower by (induction bs) auto

lemma calculateHash_lower: "set (calculateHash data) \<subseteq> set ''0123456789abcdef''"
  unfolding calculateHash_def Let_def by (rule fmt_x_lower)

text \<open>
  The model of SHA-256 against two test vectors of FIPS 180-4: the message \<^verbatim>\<open>abc\<close>, padded
  to one block, whose digest starts with the bytes \<^verbatim>\<open>ba 78 16 bf 8f 01 cf ea\<close>, and the
  message of 56 bytes, padded to two blocks, whose digest starts with
  \<^verbatim>\<open>24 8d 6a 61 d2 06 38 b8\<close>.
\<close>

lemma calculateHash_abc: "calculateHash ''abc'' = ''ba7816bf8f01cfea''"
  by code_simp

lemma calculateHash_two_blocks:
  "calculateHash ''abcdbcdecdefdefgefghfghighijhijkijkljklmklmnlmnomnopnopq'' = ''248d6a61d20638b8''"
  by code_simp

text \<open>
  C6 (as amended). \<^verbatim>\<open>calculateHash\<close> of a text is the lower-case hexadecimal encoding of
  the first 8 bytes of its SHA-256 digest, 16 characters long (for the two test vectors
  above: \<^verbatim>\<open>ba7816bf8f01cfea\<close> and \<^verbatim>\<open>248d6a61d20638b8\<close>), and equal texts have equal
  hashes. After every reconcile that found its instance and returned no error, the
  ConfigMap holds the rendered TOML under \<^verbatim>\<open>dbhub.toml\<close>, and both the stored
  \<^verbatim>\<open>status.configHash\<close> and the \<^verbatim>\<open>config-hash\<close> label of the Deployment's pod template
  are the hash of that text.
\<close>

theorem C6_config_hash:
  "(\<forall>data. calculateHash data = fmt_x (take 8 (Sum256 (map of_char data)))
      \<and> length (calculateHash data) = 16
      \<and> set (calculateHash data) \<subseteq> set ''0123456789abcdef'') \<and>
   calculateHash ''abc'' = ''ba7816bf8f01cfea'' \<and>
   calculateHash ''abcdbcdecdefdefgefghfghighijhijkijkljklmklmnlmnomnopnopq''
     = ''248d6a61d20638b8'' \<and>
   (\<forall>a b. a = b \<longrightarrow> calculateHash a = calculateHash b) \<and>
   (\<forall>fetched w1 res w'.
      get_instance e req w = (Inr fetched, w1)
      \<and> DBHubInstanceReconciler_Reconcile e req w = ((res, None), w') \<longrightarrow>
      (\<exists>cfg creds w2 w3 stored cm d.
         generateConfig e fetched (selected_databases fetched (w_Cluster w)) w2 = (Inr (cfg, creds), w3)
         \<and> cl_ConfigMaps (w_Cluster w') (inst_Namespace fetched, inst_Name fetched @ ''-config'') = Some cm
         \<and> cm_Data cm ''dbhub.toml'' = Some cfg
         \<and> cl_Instances (w_Cluster w') (inst_Namespace fetched, inst_Name fetched) = Some stored
         \<and> ist_ConfigHash (inst_Status stored) = calculateHash cfg
         \<and> cl_Deployments (w_Cluster w') (inst_Namespace fetched, inst_Name fetched) = Some d
         \<and> pt_Labels (dps_Template (dep_Spec d)) ''config-hash'' = Some (calculateHash cfg)))"
proof -
  have stored: "\<exists>cfg creds w2 w3 stored cm d.
         generateConfig e fetched (selected_databases fetched (w_Cluster w)) w2 = (Inr (cfg, creds), w3)
         \<and> cl_ConfigMaps (w_Cluster w') (inst_Namespace fetched, inst_Name fetched @ ''-config'') = Some cm
         \<and> cm_Data cm ''dbhub.toml'' = Some cfg
         \<and> cl_Instances (w_Cluster w') (inst_Namespace fetched, inst_Name fetched) = Some stored
         \<and> ist_ConfigHash (inst_Status stored) = calculateHash cfg
         \<and> cl_Deployments (w_Cluster w') (inst_Namespace fetched, inst_Name fetched) = Some d
         \<and> pt_Labels (dps_Template (dep_Spec d)) ''config-hash'' = Some (calculateHash cfg)"
    if get: "get_instance e req w = (Inr fetched, w1)"
      and run: "DBHubInstanceReconciler_Reconcile e req w = ((res, None), w')"
    for fetched w1 res w'
  proof -
    from Reconcile_success [OF get run] obtain cfg creds w2 w3 where
      g: "generateConfig e fetched (selected_databases fetched (w_Cluster w)) w2 = (Inr (cfg, creds), w3)"
      and a: "applied fetched (connected_names (selected_databases fetched (w_Cluster w))) cfg creds
                (w_Cluster w')"
      by blast
    from a obtain stored cm d where
      "cl_ConfigMaps (w_Cluster w') (inst_Namespace fetched, inst_Name fetched @ ''-config'') = Some cm"
      "cm_Data cm ''dbhub.toml'' = Some cfg"
      "cl_Instances (w_Cluster w') (inst_Namespace fetched, inst_Name fetched) = Some stored"
      "ist_ConfigHash (inst_Status stored) = calculateHash cfg"
      "cl_Deployments (w_Cluster w') (inst_Namespace fetched, inst_Name fetched) = Some d"
      "pt_Labels (dps_Template (dep_Spec d)) ''config-hash'' = Some (calculateHash cfg)"
      unfolding applied_def configMapSuffix_def by auto
    with g show ?thesis by blast
  qed
  have hash: "\<forall>data. calculateHash data = fmt_x (take 8 (Sum256 (map of_char data)))
            \<and> length (calculateHash data) = 16
            \<and> set (calculateHash data) \<subseteq> set ''0123456789abcdef''"
    using length_calculateHash calculateHash_lower by (simp add: calculateHash_def Let_def)
  from hash calculateHash_abc calculateHash_two_blocks stored show ?thesis by blast
qed

text \<open>
  The database reconciler's \<^verbatim>\<open>getCredentials\<close> on a secret that was read and lacks one
  of the two keys: the error names the first key that is missing.
\<close>

lemma getCredentials_missing_key:
  assumes "get_secret e (credentials_key db) w = (Inr secret, w1)"
    and "sec_Data secret (GetUserKey db) = None \<or> sec_Data secret (GetPasswordKey db) = None"
  shows "getCredentials e db w
           = (Inl (Failure (''secret '' @ GetCredentialsNamespace db @ ''/''
                     @ cr_Name (ds_CredentialsRef (db_Spec db)) @ '' does not contain key ''
                     @ (if sec_Data secret (GetUserKey db) = None then GetUserKey db
                        else GetPasswordKey db))), w1)"
  using assms
  by (auto simp: getCredentials_def credentials_key_def Let_def split: option.splits)

lemma getDatabaseCredentials_read:
  assumes "get_secret e (credentials_key db) w = (Inr secret, w1)"
  shows "getDatabaseCredentials e db w
           = (Inr (case sec_Data secret (GetUserKey db) of None \<Rightarrow> '''' | Some u \<Rightarrow> u,
                   case sec_Data secret (GetPasswordKey db) of None \<Rightarrow> '''' | Some p \<Rightarrow> p), w1)"
  using assms by (simp add: getDatabaseCredentials_def credentials_key_def go_index_def)

text \<open>
  C10 (as amended). In the gateway reconciler, whenever the Get of a database's
  credentials secret returns the secret, \<^verbatim>\<open>getDatabaseCredentials\<close> returns no error and
  reads the user key and the password key each as the value stored under it, or as the
  empty string when the key is missing; on the same read the database reconciler's
  \<^verbatim>\<open>getCredentials\<close> returns the error \<^verbatim>\<open>secret <ns>/<name> does not contain key <key>\<close>
  when either key is missing. So, when no API call fails, the owner reference can be
  set, the instance is stored and every selected database's credentials secret exists,
  the gateway reconcile returns no error and the derived credentials Secret holds, under
  the database's environment name (if no other selected database shares it), the DSN
  built from these values: with an empty username when the user key is missing, with an
  empty password when the password key is missing.
\<close>

theorem C10_missing_keys_read_as_empty:
  "(\<forall>secret w1.
      get_secret e (credentials_key db) w = (Inr secret, w1) \<longrightarrow>
      getDatabaseCredentials e db w
        = (Inr (case sec_Data secret (GetUserKey db) of None \<Rightarrow> '''' | Some u \<Rightarrow> u,
                case sec_Data secret (GetPasswordKey db) of None \<Rightarrow> '''' | Some p \<Rightarrow> p), w1)
      \<and> (sec_Data secret (GetUserKey db) = None \<or> sec_Data secret (GetPasswordKey db) = None \<longrightarrow>
           getCredentials e db w
             = (Inl (Failure (''secret '' @ GetCredentialsNamespace db @ ''/''
                       @ cr_Name (ds_CredentialsRef (db_Spec db)) @ '' does not contain key ''
                       @ (if sec_Data secret (GetUserKey db) = None then GetUserKey db
                          else GetPasswordKey db))), w1))) \<and>
   (\<forall>secret fetched.
      (\<forall>n. env_Faults e n = None) \<and> env_OwnerRefError e = None
      \<and> cl_Instances (w_Cluster w) req = Some fetched
      \<and> (inst_Namespace fetched, inst_Name fetched) = req
      \<and> (\<forall>d \<in> set (selected_databases fetched (w_Cluster w)).
            cl_Secrets (w_Cluster w) (credentials_key d) \<noteq> None)
      \<and> db \<in> set (selected_databases fetched (w_Cluster w))
      \<and> (\<forall>d \<in> set (selected_databases fetched (w_Cluster w)).
            envName (db_Name d) = envName (db_Name db) \<longrightarrow> d = db)
      \<and> cl_Secrets (w_Cluster w) (credentials_key db) = Some secret \<longrightarrow>
      snd (fst (DBHubInstanceReconciler_Reconcile e req w)) = None
      \<and> (\<exists>s. cl_Secrets (w_Cluster (snd (DBHubInstanceReconciler_Reconcile e req w)))
                 (inst_Namespace fetched, inst_Name fetched @ ''-creds'') = Some s
             \<and> sec_Data s (envName (db_Name db) @ ''_DSN'')
                 = Some (DBHubInstanceReconciler_buildDSN db
                     (case sec_Data secret (GetUserKey db) of None \<Rightarrow> '''' | Some u \<Rightarrow> u)
                     (case sec_Data secret (GetPasswordKey db) of None \<Rightarrow> '''' | Some p \<Rightarrow> p))))"
proof -
  have derived:
    "snd (fst (DBHubInstanceReconciler_Reconcile e req w)) = None
      \<and> (\<exists>s. cl_Secrets (w_Cluster (snd (DBHubInstanceReconciler_Reconcile e req w)))
                 (inst_Namespace fetched, inst_Name fetched @ ''-creds'') = Some s
             \<and> sec_Data s (envName (db_Name db) @ ''_DSN'')
                 = Some (DBHubInstanceReconciler_buildDSN db
                     (case sec_Data secret (GetUserKey db) of None \<Rightarrow> '''' | Some u \<Rightarrow> u)
                     (case sec_Data secret (GetPasswordKey db) of None \<Rightarrow> '''' | Some p \<Rightarrow> p)))"
    if nf: "\<forall>n. env_Faults e n = None" and ow: "env_OwnerRefError e = None"
      and inst: "cl_Instances (w_Cluster w) req = Some fetched"
      and wf: "(inst_Namespace fetched, inst_Name fetched) = req"
      and readable: "\<forall>d \<in> set (selected_databases fetched (w_Cluster w)).
                       cl_Secrets (w_Cluster w) (credentials_key d) \<noteq> None"
      and db: "db \<in> set (selected_databases fetched (w_Cluster w))"
      and uniq: "\<forall>d \<in> set (selected_databases fetched (w_Cluster w)).
                   envName (db_Name d) = envName (db_Name db) \<longrightarrow> d = db"
      and sec: "cl_Secrets (w_Cluster w) (credentials_key db) = Some secret"
    for secret fetched
  proof -
    note ok = Reconcile_no_fault [OF nf ow inst wf readable]
    obtain res w' where run: "DBHubInstanceReconciler_Reconcile e req w = ((res, None), w')"
      using ok(2) by (cases "DBHubInstanceReconciler_Reconcile e req w") (auto simp: prod_eq_iff)
    from Reconcile_success [OF ok(1) run] obtain cfg creds w2 w3 where
      g: "generateConfig e fetched (selected_databases fetched (w_Cluster w)) w2 = (Inr (cfg, creds), w3)"
      and c2: "w_Cluster w2 = w_Cluster w"
      and ap: "applied fetched (connected_names (selected_databases fetched (w_Cluster w))) cfg creds
                (w_Cluster w')"
      by blast
    from generateConfig_entry [OF g db uniq] c2 sec
    have "creds (envName (db_Name db) @ ''_DSN'')
            = Some (DBHubInstanceReconciler_buildDSN db
                       (case sec_Data secret (GetUserKey db) of None \<Rightarrow> '''' | Some u \<Rightarrow> u)
                       (case sec_Data secret (GetPasswordKey db) of None \<Rightarrow> '''' | Some p \<Rightarrow> p))"
      by (simp add: stored_dsn_def go_index_def)
    with ap have "\<exists>s. cl_Secrets (w_Cluster w') (inst_Namespace fetched, inst_Name fetched @ ''-creds'') = Some s
               \<and> sec_Data s (envName (db_Name db) @ ''_DSN'')
                   = Some (DBHubInstanceReconciler_buildDSN db
                       (case sec_Data secret (GetUserKey db) of None \<Rightarrow> '''' | Some u \<Rightarrow> u)
                       (case sec_Data secret (GetPasswordKey db) of None \<Rightarrow> '''' | Some p \<Rightarrow> p))"
      unfolding applied_def secretSuffix_def by auto
    with ok(2) run show ?thesis by simp
  qed
  have read: "getDatabaseCredentials e db w
        = (Inr (case sec_Data secret (GetUserKey db) of None \<Rightarrow> '''' | Some u \<Rightarrow> u,
                case sec_Data secret (GetPasswordKey db) of None \<Rightarrow> '''' | Some p \<Rightarrow> p), w1)
      \<and> (sec_Data secret (GetUserKey db) = None \<or> sec_Data secret (GetPasswordKey db) = None \<longrightarrow>
           getCredentials e db w
             = (Inl (Failure (''secret '' @ GetCredentialsNamespace db @ ''/''
                       @ cr_Name (ds_CredentialsRef (db_Spec db)) @ '' does not contain key ''
                       @ (if sec_Data secret (GetUserKey db) = None then GetUserKey db
                          else GetPasswordKey db))), w1))"
    if "get_secret e (credentials_key db) w = (Inr secret, w1)" for secret w1
    using getDatabaseCredentials_read [OF that] getCredentials_missing_key [OF that] by blast
  show ?thesis
    by (rule conjI; intro allI impI)
       (erule read, (elim conjE, (rule derived; assumption)))
qed

section \<open>The reconcile of a sample cluster\<close>

lemma quiet_env_no_fault: "\<forall>n. env_Faults quiet_env n = None" "env_OwnerRefError quiet_env = None"
  by (simp_all add: quiet_env_def)

lemma sample_instance_stored:
  "cl_Instances (w_Cluster sample_world) (''default'', ''gw'') = Some gw"
  "(inst_Namespace gw, inst_Name gw) = (''default'', ''gw'')"
  by (simp_all add: sample_world_def sample_cluster_def gw_def sample_instance_def)

lemma sample_db_fields:
  "db_Name db_a = ''a''" "db_Name db_b = ''b''" "db_Name db_c = ''c''"
  "db_Namespace db_a = ''default''" "db_Namespace db_b = ''default''" "db_Namespace db_c = ''default''"
  "dst_Phase (db_Status db_a) = ''Connected''" "dst_Phase (db_Status db_b) = ''Connected''"
  "dst_Phase (db_Status db_c) = ''Failed''"
  "credentials_key db_a = (''default'', ''orders-creds'')"
  "credentials_key db_b = (''default'', ''partial-creds'')"
  "GetUserKey db_b = ''username''" "GetPasswordKey db_b = ''password''"
  by (simp_all add: db_a_def db_b_def db_c_def with_phase_def with_secret_name_def sample_db_def
      sample_spec_def credentials_key_def GetCredentialsNamespace_def GetUserKey_def GetPasswordKey_def)

lemma sample_selected: "selected_databases gw (w_Cluster sample_world) = [db_b, db_a]"
  by (simp add: selected_databases_def sample_world_def sample_cluster_def empty_cluster_def
      MatchesDatabase_def gw_def sample_instance_def sample_instance_spec_def sample_db_fields
      DatabasePhaseConnected_def)

lemma sample_readable:
  "\<forall>d \<in> set (selected_databases gw (w_Cluster sample_world)).
     cl_Secrets (w_Cluster sample_world) (credentials_key d) \<noteq> None"
  unfolding sample_selected by (simp add: sample_db_fields sample_world_def sample_cluster_def)

lemma sample_env_names: "envName ''a'' = ''A''" "envName ''b'' = ''B''"
  by code_simp+

lemma sample_names_sorted: "connected_names [db_b, db_a] = [''a'', ''b'']"
  by (simp add: connected_names_def sample_db_fields)

lemma sample_get_instance:
  "get_instance quiet_env (''default'', ''gw'') sample_world = (Inr gw, tick sample_world)"
  by (rule Reconcile_no_fault(1) [OF quiet_env_no_fault sample_instance_stored sample_readable])

lemma sample_reconcile_ok:
  "snd (fst (DBHubInstanceReconciler_Reconcile quiet_env (''default'', ''gw'') sample_world)) = None"
  by (rule Reconcile_no_fault(2) [OF quiet_env_no_fault sample_instance_stored sample_readable])

lemma sample_find:
  "findMatchingDatabases quiet_env (observe_instance_generation gw) (tick sample_world)
     = (Inr [db_b, db_a], tick (tick sample_world))"
  using sample_selected
  by (simp add: findMatchingDatabases_def list_databases_def api_read_no_fault quiet_env_no_fault
      selected_databases_def MatchesDatabase_observe observe_instance_generation_fields)

theorem C4_connected_databases_witness:
  "connected_names [db_b, db_a] = [''a'', ''b''] \<and> sorted [''a'', ''b''] \<and>
   (\<exists>stored. cl_Instances (w_Cluster (snd (DBHubInstanceReconciler_Reconcile quiet_env
                 (''default'', ''gw'') sample_world))) (''default'', ''gw'') = Some stored
      \<and> ist_ConnectedDatabases (inst_Status stored) = [''a'', ''b''])"
  using C4_connected_databases [OF sample_get_instance sample_find]
    sample_reconcile_ok sample_names_sorted sample_instance_stored(2)
  by simp

lemma stale_get_instance:
  "get_instance list_fault_env (''default'', ''gw'') stale_world = (Inr stale_gw, tick stale_world)"
  by (simp add: get_instance_def api_read_def list_fault_env_def stale_world_def)

lemma stale_find:
  "findMatchingDatabases list_fault_env (observe_instance_generation stale_gw) (tick stale_world)
     = (Inl (Failure ''context deadline exceeded''), tick (tick stale_world))"
  by (simp add: findMatchingDatabases_def list_databases_def api_read_def list_fault_env_def
      stale_world_def)

lemma stale_selected:
  "connected_names (selected_databases stale_gw (w_Cluster stale_world)) = [''a'', ''b'']"
  by (simp add: connected_names_def selected_databases_def stale_world_def sample_cluster_def
      empty_cluster_def MatchesDatabase_def stale_gw_def gw_def sample_instance_def
      sample_instance_spec_def sample_db_fields DatabasePhaseConnected_def)

text \<open>
  C4 as stated fails when the List of the databases fails: the reconcile still writes the
  status, with phase \<^verbatim>\<open>Failed\<close> and the connected list as it was fetched. Here the stored
  list keeps the name \<^verbatim>\<open>old\<close> of a database that is gone, while the databases that match
  and are \<^verbatim>\<open>Connected\<close> are \<^verbatim>\<open>a\<close> and \<^verbatim>\<open>b\<close>.
\<close>

theorem C4_list_failure_counterexample:
  "\<exists>stored.
     cl_Instances (w_Cluster (snd (DBHubInstanceReconciler_Reconcile list_fault_env
         (''default'', ''gw'') stale_world))) (''default'', ''gw'') = Some stored
     \<and> ist_Phase (inst_Status stored) = ''Failed''
     \<and> ist_ConnectedDatabases (inst_Status stored) = [''old'']
     \<and> connected_names (selected_databases stale_gw (w_Cluster stale_world)) = [''a'', ''b'']
     \<and> ''old'' \<notin> db_Name ` set (cl_Databases (w_Cluster stale_world))"
proof -
  have names: "inst_Namespace stale_gw = ''default''" "inst_Name stale_gw = ''gw''"
    by (simp_all add: stale_gw_def gw_def sample_instance_def)
  have stale_stored: "w_Calls stale_world = 0"
    "cl_Instances (w_Cluster stale_world) (''default'', ''gw'') = Some stale_gw"
    by (simp_all add: stale_world_def)
  have faults: "env_Faults list_fault_env n
                  = (if n = 1 then Some (Failure ''context deadline exceeded'') else None)" for n
    by (simp add: list_fault_env_def)
  have "ist_Phase (inst_Status (observe_instance_generation stale_gw)) = ''Running''"
       "ist_ConnectedDatabases (inst_Status (observe_instance_generation stale_gw)) = [''old'']"
    by (simp_all add: observe_instance_generation_def stale_gw_def gw_def sample_instance_def
        Let_def)
  then have failed:
    "ist_Phase (inst_Status (setInstanceStatus list_fault_env (observe_instance_generation stale_gw)
        DBHubInstancePhaseFailed msg)) = ''Failed''"
    "ist_ConnectedDatabases (inst_Status (setInstanceStatus list_fault_env
        (observe_instance_generation stale_gw) DBHubInstancePhaseFailed msg)) = [''old'']" for msg
    by (simp_all add: setInstanceStatus_def Let_def DBHubInstancePhaseFailed_def)
  have "cl_Instances (w_Cluster (snd (DBHubInstanceReconciler_Reconcile list_fault_env
            (''default'', ''gw'') stale_world))) (''default'', ''gw'')
          = Some (stale_gw\<lparr>inst_Status := inst_Status (setInstanceStatus list_fault_env
               (observe_instance_generation stale_gw) DBHubInstancePhaseFailed
               (''Failed to find databases: '' @ ''context deadline exceeded''))\<rparr>)"
    by (simp add: DBHubInstanceReconciler_Reconcile_def stale_get_instance stale_find
        fail_reconcile_def status_update_instance_def api_write_def Let_def
        setInstanceStatus_fields observe_instance_generation_fields names faults
        stale_stored)
  moreover have "''old'' \<notin> db_Name ` set (cl_Databases (w_Cluster stale_world))"
    by (simp add: stale_world_def sample_cluster_def sample_db_fields)
  ultimately show ?thesis using failed stale_selected by simp
qed

lemma sample_partial_secret:
  "cl_Secrets (w_Cluster sample_world) (credentials_key db_b)
     = Some (user_secret [''password'' \<mapsto> ''p2''])"
  by (simp add: sample_db_fields sample_world_def sample_cluster_def)

lemma sample_dsn_b:
  "DBHubInstanceReconciler_buildDSN db_b '''' ''p2'' = '':p2@tcp(db.example.com:3306)/orders?tls=true''"
  by (simp add: DBHubInstanceReconciler_buildDSN_def db_b_def with_phase_def with_secret_name_def
      sample_db_def sample_spec_def tls_flag_def enum_defs fmt_3306 Let_def)

theorem C6_config_hash_witness:
  "calculateHash ''abc'' = ''ba7816bf8f01cfea'' \<and>
   (\<exists>cfg stored cm d.
      cl_ConfigMaps (w_Cluster (snd (DBHubInstanceReconciler_Reconcile quiet_env
          (''default'', ''gw'') sample_world))) (''default'', ''gw-config'') = Some cm
      \<and> cm_Data cm ''dbhub.toml'' = Some cfg
      \<and> cl_Instances (w_Cluster (snd (DBHubInstanceReconciler_Reconcile quiet_env
          (''default'', ''gw'') sample_world))) (''default'', ''gw'') = Some stored
      \<and> ist_ConfigHash (inst_Status stored) = calculateHash cfg
      \<and> cl_Deployments (w_Cluster (snd (DBHubInstanceReconciler_Reconcile quiet_env
          (''default'', ''gw'') sample_world))) (''default'', ''gw'') = Some d
      \<and> pt_Labels (dps_Template (dep_Spec d)) ''config-hash'' = Some (calculateHash cfg)
      \<and> length (calculateHash cfg) = 16)"
proof -
  obtain res w' where
    run: "DBHubInstanceReconciler_Reconcile quiet_env (''default'', ''gw'') sample_world
            = ((res, None), w')"
    using sample_reconcile_ok
    by (cases "DBHubInstanceReconciler_Reconcile quiet_env (''default'', ''gw'') sample_world")
       (auto simp: prod_eq_iff)
  have ns: "inst_Namespace gw = ''default''" "inst_Name gw = ''gw''"
    using sample_instance_stored(2) by simp_all
  have k: "''gw'' @ ''-config'' = ''gw-config''" by simp
  have w: "snd (DBHubInstanceReconciler_Reconcile quiet_env (''default'', ''gw'') sample_world) = w'"
    using run by simp
  note c6 = C6_config_hash [of quiet_env "(''default'', ''gw'')" sample_world]
  from c6 have len: "\<forall>data. length (calculateHash data) = 16" by blast
  from c6 have abc: "calculateHash ''abc'' = ''ba7816bf8f01cfea''" by blast
  from c6 sample_get_instance run have
    "\<exists>cfg creds w2 w3 stored cm d.
         generateConfig quiet_env gw (selected_databases gw (w_Cluster sample_world)) w2
           = (Inr (cfg, creds), w3)
         \<and> cl_ConfigMaps (w_Cluster w') (inst_Namespace gw, inst_Name gw @ ''-config'') = Some cm
         \<and> cm_Data cm ''dbhub.toml'' = Some cfg
         \<and> cl_Instances (w_Cluster w') (inst_Namespace gw, inst_Name gw) = Some stored
         \<and> ist_ConfigHash (inst_Status stored) = calculateHash cfg
         \<and> cl_Deployments (w_Cluster w') (inst_Namespace gw, inst_Name gw) = Some d
         \<and> pt_Labels (dps_Template (dep_Spec d)) ''config-hash'' = Some (calculateHash cfg)"
    by blast
  then obtain cfg stored cm d where
    "cl_ConfigMaps (w_Cluster w') (''default'', ''gw-config'') = Some cm"
    "cm_Data cm ''dbhub.toml'' = Some cfg"
    "cl_Instances (w_Cluster w') (''default'', ''gw'') = Some stored"
    "ist_ConfigHash (inst_Status stored) = calculateHash cfg"
    "cl_Deployments (w_Cluster w') (''default'', ''gw'') = Some d"
    "pt_Labels (dps_Template (dep_Spec d)) ''config-hash'' = Some (calculateHash cfg)"
    unfolding ns k by blast
  with len abc show ?thesis unfolding w by blast
qed

text \<open>
  A reconcile that fails after it has written the ConfigMap returns without a status
  write: when the credentials Secret cannot be read, the ConfigMap holds the rendered
  TOML, no Deployment exists, and the stored status keeps the hash it had.
\<close>

lemma reconcile_children_secret_refused:
  assumes ow: "env_OwnerRefError e = None"
    and n0: "env_Faults e (w_Calls w) = None" and n1: "env_Faults e (Suc (w_Calls w)) = None"
    and n2: "env_Faults e (Suc (Suc (w_Calls w))) = Some err" and nnf: "\<not> IsNotFound err"
    and fresh: "cl_ConfigMaps (w_Cluster w) (inst_Namespace i, inst_Name i @ configMapSuffix) = None"
  shows "\<exists>cm w'. reconcile_children e i cfg creds h w = (Some err, w')
           \<and> cm_Data cm = [''dbhub.toml'' \<mapsto> cfg]
           \<and> w_Cluster w' = (w_Cluster w)\<lparr>cl_ConfigMaps := (cl_ConfigMaps (w_Cluster w))
                ((inst_Namespace i, inst_Name i @ configMapSuffix) \<mapsto> cm)\<rparr>"
proof -
  let ?k = "(inst_Namespace i, inst_Name i @ configMapSuffix)"
  let ?cm = "\<lparr> cm_Labels = instance_labels i, cm_Data = [''dbhub.toml'' \<mapsto> cfg],
               cm_OwnerRef = Some (inst_Name i) \<rparr>"
  let ?w2 = "tick (tick w\<lparr>w_Cluster := (w_Cluster w)\<lparr>cl_ConfigMaps := (cl_ConfigMaps (w_Cluster w))(?k \<mapsto> ?cm)\<rparr>\<rparr>)"
  have cm: "reconcileConfigMap e i cfg w = (None, ?w2)"
    using ow n0 n1 fresh
    by (simp add: reconcileConfigMap_def Let_def get_configmap_def api_read_no_fault
        create_configmap_def api_write_no_fault put_configmaps_def create_in_def)
  have "env_Faults e (w_Calls ?w2) = Some err" using n2 by (simp add: tick_def)
  then have "reconcileCredentialsSecret e i creds ?w2 = (Some err, tick ?w2)"
    using ow nnf
    by (simp add: reconcileCredentialsSecret_def Let_def get_secret_def api_read_def)
  with cm have "reconcile_children e i cfg creds h w = (Some err, tick ?w2)"
    by (simp add: reconcile_children_def)
  moreover have "w_Cluster (tick ?w2) = (w_Cluster w)\<lparr>cl_ConfigMaps := (cl_ConfigMaps (w_Cluster w))(?k \<mapsto> ?cm)\<rparr>"
    by (simp add: tick_def)
  ultimately show ?thesis by (intro exI [of _ ?cm] exI [of _ "tick ?w2"]) simp
qed

lemma secret_fault_env_faults:
  "env_Faults secret_fault_env n = (if n = 6 then Some (Failure ''forbidden'') else None)"
  "env_OwnerRefError secret_fault_env = None"
  by (simp_all add: secret_fault_env_def quiet_env_def)

lemma sample_world_calls: "w_Calls sample_world = 0"
  by (simp add: sample_world_def)

lemma sample_full_secret:
  "cl_Secrets (w_Cluster sample_world) (credentials_key db_a)
     = Some (user_secret [''username'' \<mapsto> ''u'', ''password'' \<mapsto> ''p''])"
  by (simp add: sample_db_fields sample_world_def sample_cluster_def)

text \<open>
  C6 as stated fails for a reconcile that stops between the ConfigMap and the status: in
  the sample cluster, with the Get of the credentials Secret refused, the reconcile
  returns the error; the ConfigMap then holds the rendered TOML, but the stored
  \<^verbatim>\<open>status.configHash\<close> is still empty, which is not the hash of that text, and there is
  no Deployment to carry the label.
\<close>

theorem C6_failed_child_counterexample:
  "\<exists>cm cfg stored.
     snd (fst (DBHubInstanceReconciler_Reconcile secret_fault_env (''default'', ''gw'') sample_world))
       = Some (Failure ''forbidden'')
     \<and> cl_ConfigMaps (w_Cluster (snd (DBHubInstanceReconciler_Reconcile secret_fault_env
          (''default'', ''gw'') sample_world))) (''default'', ''gw-config'') = Some cm
     \<and> cm_Data cm ''dbhub.toml'' = Some cfg
     \<and> cl_Instances (w_Cluster (snd (DBHubInstanceReconciler_Reconcile secret_fault_env
          (''default'', ''gw'') sample_world))) (''default'', ''gw'') = Some stored
     \<and> ist_ConfigHash (inst_Status stored) = ''''
     \<and> ist_ConfigHash (inst_Status stored) \<noteq> calculateHash cfg
     \<and> cl_Deployments (w_Cluster (snd (DBHubInstanceReconciler_Reconcile secret_fault_env
          (''default'', ''gw'') sample_world))) (''default'', ''gw'') = None"
proof -
  let ?e = secret_fault_env
  let ?i = "observe_instance_generation gw"
  let ?w2 = "tick (tick sample_world)"
  let ?w4 = "tick (tick ?w2)"
  have get: "get_instance ?e (''default'', ''gw'') sample_world = (Inr gw, tick sample_world)"
    by (simp add: get_instance_def api_read_no_fault secret_fault_env_faults sample_world_calls
        sample_instance_stored)
  have find: "findMatchingDatabases ?e ?i (tick sample_world) = (Inr [db_b, db_a], ?w2)"
    using sample_selected
    by (simp add: findMatchingDatabases_def list_databases_def api_read_no_fault
        secret_fault_env_faults sample_world_calls selected_databases_def MatchesDatabase_observe
        observe_instance_generation_fields)
  let ?i1 = "?i\<lparr>inst_Status := (inst_Status ?i)
               \<lparr>ist_ConnectedDatabases := connected_names [db_b, db_a]\<rparr>\<rparr>"
  have cb: "getDatabaseCredentials ?e db_b ?w2
              = (Inr (go_index (sec_Data (user_secret [''password'' \<mapsto> ''p2''])) (GetUserKey db_b),
                      go_index (sec_Data (user_secret [''password'' \<mapsto> ''p2''])) (GetPasswordKey db_b)),
                 tick ?w2)"
    by (rule getDatabaseCredentials_no_fault)
       (simp_all add: secret_fault_env_faults sample_world_calls sample_partial_secret)
  have ca: "getDatabaseCredentials ?e db_a (tick ?w2)
              = (Inr (go_index (sec_Data (user_secret [''username'' \<mapsto> ''u'', ''password'' \<mapsto> ''p'']))
                        (GetUserKey db_a),
                      go_index (sec_Data (user_secret [''username'' \<mapsto> ''u'', ''password'' \<mapsto> ''p'']))
                        (GetPasswordKey db_a)),
                 ?w4)"
    by (rule getDatabaseCredentials_no_fault)
       (simp_all add: secret_fault_env_faults sample_world_calls sample_full_secret)
  have "\<exists>cfg creds. generateConfig ?e ?i1 [db_b, db_a] ?w2 = (Inr (cfg, creds), ?w4)"
    by (simp add: generateConfig_def cb ca Let_def split: option.split)
  then obtain cfg creds where gen: "generateConfig ?e ?i1 [db_b, db_a] ?w2 = (Inr (cfg, creds), ?w4)"
    by blast
  let ?i2 = "?i1\<lparr>inst_Status := (inst_Status ?i1)\<lparr>ist_ConfigHash := calculateHash cfg\<rparr>\<rparr>"
  have names: "inst_Namespace ?i2 = ''default''" "inst_Name ?i2 = ''gw''"
    using sample_instance_stored(2) by (simp_all add: observe_instance_generation_fields)
  have "cl_ConfigMaps (w_Cluster ?w4) (inst_Namespace ?i2, inst_Name ?i2 @ configMapSuffix) = None"
    by (simp add: sample_world_def sample_cluster_def empty_cluster_def)
  from reconcile_children_secret_refused [of ?e ?w4 "Failure ''forbidden''" ?i2 cfg creds
      "calculateHash cfg", OF _ _ _ _ _ this]
  obtain cm w' where
    ch: "reconcile_children ?e ?i2 cfg creds (calculateHash cfg) ?w4 = (Some (Failure ''forbidden''), w')"
    and cm: "cm_Data cm = [''dbhub.toml'' \<mapsto> cfg]"
    and c0: "w_Cluster w' = (w_Cluster ?w4)\<lparr>cl_ConfigMaps := (cl_ConfigMaps (w_Cluster ?w4))
                ((inst_Namespace ?i2, inst_Name ?i2 @ configMapSuffix) \<mapsto> cm)\<rparr>"
    by (auto simp: secret_fault_env_faults sample_world_calls)
  from c0 have c': "w_Cluster w' = (w_Cluster sample_world)\<lparr>cl_ConfigMaps :=
               (cl_ConfigMaps (w_Cluster sample_world))((''default'', ''gw-config'') \<mapsto> cm)\<rparr>"
    using sample_instance_stored(2)
    by (simp add: observe_instance_generation_fields configMapSuffix_def)
  have run: "DBHubInstanceReconciler_Reconcile ?e (''default'', ''gw'') sample_world
               = ((\<lparr>RequeueAfter = 0\<rparr>, Some (Failure ''forbidden'')), w')"
    using ch
    by (simp add: DBHubInstanceReconciler_Reconcile_def get find reconcile_selected_def gen
        Let_def)
  have "ist_ConfigHash (inst_Status gw) = ''''"
    by (simp add: gw_def sample_instance_def empty_instance_status_def)
  moreover have "'''' \<noteq> calculateHash cfg"
    using length_calculateHash [of cfg] by auto
  moreover have "cl_Instances (w_Cluster w') (''default'', ''gw'') = Some gw"
    "cl_Deployments (w_Cluster w') (''default'', ''gw'') = None"
    "cl_ConfigMaps (w_Cluster w') (''default'', ''gw-config'') = Some cm"
    using c' by (simp_all add: sample_world_def sample_cluster_def empty_cluster_def)
  ultimately show ?thesis using run cm by simp
qed

theorem C10_missing_keys_read_as_empty_witness:
  "getDatabaseCredentials quiet_env db_b sample_world = (Inr ('''', ''p2''), tick sample_world) \<and>
   getCredentials quiet_env db_b sample_world
     = (Inl (Failure ''secret default/partial-creds does not contain key username''),
        tick sample_world) \<and>
   snd (fst (DBHubInstanceReconciler_Reconcile quiet_env (''default'', ''gw'') sample_world)) = None \<and>
   (\<exists>s. cl_Secrets (w_Cluster (snd (DBHubInstanceReconciler_Reconcile quiet_env
            (''default'', ''gw'') sample_world))) (''default'', ''gw-creds'') = Some s
       \<and> sec_Data s ''B_DSN'' = Some '':p2@tcp(db.example.com:3306)/orders?tls=true'')"
proof -
  note c10 = C10_missing_keys_read_as_empty [of quiet_env db_b sample_world "(''default'', ''gw'')"]
  have gs: "get_secret quiet_env (credentials_key db_b) sample_world
              = (Inr (user_secret [''password'' \<mapsto> ''p2'']), tick sample_world)"
    by (simp add: get_secret_def api_read_no_fault quiet_env_no_fault sample_partial_secret)
  have fields: "GetCredentialsNamespace db_b = ''default''"
    "cr_Name (ds_CredentialsRef (db_Spec db_b)) = ''partial-creds''"
    by (simp_all add: db_b_def with_phase_def with_secret_name_def sample_db_def sample_spec_def
        GetCredentialsNamespace_def)
  from c10 [THEN conjunct1, rule_format, OF gs]
  have a: "getDatabaseCredentials quiet_env db_b sample_world = (Inr ('''', ''p2''), tick sample_world)"
    and b: "getCredentials quiet_env db_b sample_world
              = (Inl (Failure ''secret default/partial-creds does not contain key username''),
                 tick sample_world)"
    by (simp_all add: sample_db_fields user_secret_def fields)
  have db: "db_b \<in> set (selected_databases gw (w_Cluster sample_world))"
    by (simp add: sample_selected)
  have uniq: "\<forall>d \<in> set (selected_databases gw (w_Cluster sample_world)).
                envName (db_Name d) = envName (db_Name db_b) \<longrightarrow> d = db_b"
    by (simp add: sample_selected sample_db_fields sample_env_names)
  have "snd (fst (DBHubInstanceReconciler_Reconcile quiet_env (''default'', ''gw'') sample_world)) = None
      \<and> (\<exists>s. cl_Secrets (w_Cluster (snd (DBHubInstanceReconciler_Reconcile quiet_env
                   (''default'', ''gw'') sample_world)))
                 (inst_Namespace gw, inst_Name gw @ ''-creds'') = Some s
             \<and> sec_Data s (envName (db_Name db_b) @ ''_DSN'')
                 = Some (DBHubInstanceReconciler_buildDSN db_b
                     (case sec_Data (user_secret [''password'' \<mapsto> ''p2'']) (GetUserKey db_b) of
                        None \<Rightarrow> '''' | Some u \<Rightarrow> u)
                     (case sec_Data (user_secret [''password'' \<mapsto> ''p2'']) (GetPasswordKey db_b) of
                        None \<Rightarrow> '''' | Some p \<Rightarrow> p)))"
    by (rule c10 [THEN conjunct2, rule_format])
       (intro conjI quiet_env_no_fault sample_instance_stored sample_readable db uniq
         sample_partial_secret)
  with a b show ?thesis
    by (simp add: sample_db_fields sample_env_names sample_dsn_b user_secret_def
        gw_def sample_instance_def)
qed

text \<open>
  C10 as stated fails when only one key is missing: the secret of database \<^verbatim>\<open>b\<close> holds a
  password and no username, and the credentials returned are the empty username with
  the stored password, so the DSN has an empty username and a non-empty password.
\<close>

theorem C10_password_only_counterexample:
  "cl_Secrets (w_Cluster sample_world) (credentials_key db_b)
     = Some (user_secret [''password'' \<mapsto> ''p2'']) \<and>
   sec_Data (user_secret [''password'' \<mapsto> ''p2'']) (GetUserKey db_b) = None \<and>
   fst (getDatabaseCredentials quiet_env db_b sample_world) = Inr ('''', ''p2'') \<and>
   fst (getDatabaseCredentials quiet_env db_b sample_world) \<noteq> Inr ('''', '''') \<and>
   DBHubInstanceReconciler_buildDSN db_b '''' ''p2'' \<noteq> DBHubInstanceReconciler_buildDSN db_b '''' ''''"
proof -
  have n0: "env_Faults quiet_env (w_Calls sample_world) = None" by (simp add: quiet_env_def)
  have "fst (getDatabaseCredentials quiet_env db_b sample_world) = Inr ('''', ''p2'')"
    using getDatabaseCredentials_no_fault [OF n0 sample_partial_secret]
    by (simp add: sample_db_fields user_secret_def go_index_def)
  moreover have "DBHubInstanceReconciler_buildDSN db_b '''' ''p2''
                   \<noteq> DBHubInstanceReconciler_buildDSN db_b '''' ''''"
    by (simp add: DBHubInstanceReconciler_buildDSN_def db_b_def with_phase_def with_secret_name_def
        sample_db_def sample_spec_def enum_defs Let_def)
  moreover have "sec_Data (user_secret [''password'' \<mapsto> ''p2'']) (GetUserKey db_b) = None"
    by (simp add: sample_db_fields user_secret_def)
  ultimately show ?thesis using sample_partial_secret by simp
qed

end
